(* ===== verification/Prelude.thy ===== *)
theory Prelude
  imports
    Main
    "HOL-Library.Word"
    "HOL-Library.Signed_Division"
    "HOL-Library.Char_ord"
    "HOL-Library.List_Lexorder"
begin

text \<open>
  Shared vocabulary of the development: the run-time outcomes of a Rust function
  (normal return, \<^verbatim>\<open>Err\<close>, panic), the three-way comparison result of
  \<^verbatim>\<open>std::cmp::Ordering\<close> with \<^verbatim>\<open>Ordering::reverse\<close> and \<^verbatim>\<open>Ord::cmp\<close>, the crate error
  as far as \<^verbatim>\<open>src/executor/evaluate/evaluated.rs\<close> names it, and the combinators that
  stand for \<^verbatim>\<open>Result::map\<close> and the \<^verbatim>\<open>?\<close> operator (\<open>bind_exec\<close> sequences two
  computations that can only panic).  Strings are byte lists
  (\<^typ>\<open>string\<close>) ordered lexicographically by byte value, which is the order of Rust's
  \<^verbatim>\<open>str\<close>.  The lemma collections declared here carry the case analyses of the
  component theories.
\<close>

section \<open>Lemma collections\<close>

named_theorems outcome_simps \<open>rewrite rules for the outcome combinators\<close>
named_theorems model_defs \<open>unfolding rules that evaluate the model on concrete inputs\<close>

section \<open>Three-way comparison\<close>

datatype ordering = Less | Equal | Greater

primrec reverse :: "ordering \<Rightarrow> ordering" where
  "reverse Less = Greater"
| "reverse Equal = Equal"
| "reverse Greater = Less"

definition cmp :: "'a::linorder \<Rightarrow> 'a \<Rightarrow> ordering" where
  "cmp a b = (if a < b then Less else if a = b then Equal else Greater)"

section \<open>Outcomes: return, error value, panic\<close>

datatype panic = ExplicitPanic | ArithmeticOverflow | DivisionByZero

datatype 'a exec = Done 'a | Panic panic

datatype ('a, 'e) result = Ok 'a | Err 'e

type_synonym ('a, 'e) fallible = "('a, 'e) result exec"

datatype evaluate_error = UnreachableEvaluatedArithmetic | UnreachableLiteralArithmetic

datatype 'x error = Evaluate evaluate_error | Other 'x

definition map_ok :: "('a \<Rightarrow> 'b) \<Rightarrow> ('a, 'e) fallible \<Rightarrow> ('b, 'e) fallible" where
  "map_ok f r = map_exec (map_result f id) r"

fun and_then :: "('a, 'e) fallible \<Rightarrow> ('a \<Rightarrow> ('b, 'e) fallible) \<Rightarrow> ('b, 'e) fallible" where
  "and_then (Panic p) f = Panic p"
| "and_then (Done (Err e)) f = Done (Err e)"
| "and_then (Done (Ok a)) f = f a"

fun bind_exec :: "'a exec \<Rightarrow> ('a \<Rightarrow> 'b exec) \<Rightarrow> 'b exec" where
  "bind_exec (Panic p) f = Panic p"
| "bind_exec (Done a) f = f a"

section \<open>Facts about comparison\<close>

lemmas outcome_splits = exec.splits result.splits option.splits

lemma reverse_reverse [simp]: "reverse (reverse x) = x"
  by (cases x) simp_all

lemma reverse_eq_iff [simp]: "reverse x = reverse y \<longleftrightarrow> x = y"
  by (cases x; cases y) simp_all

lemma reverse_eq_Equal [simp]: "reverse x = Equal \<longleftrightarrow> x = Equal"
  by (cases x) simp_all

lemma map_option_reverse_twice [simp]:
  "map_option reverse (map_option reverse x) = x"
  by (cases x) simp_all

lemma case_option_map:
  "(case x of None \<Rightarrow> None | Some a \<Rightarrow> Some (f a)) = map_option f x"
  by (cases x) simp_all

lemma cmp_refl [simp]: "cmp a a = Equal"
  by (simp add: cmp_def)

lemma cmp_Equal_iff [simp]: "cmp a b = Equal \<longleftrightarrow> a = b"
  by (simp add: cmp_def)

lemma cmp_Less_iff [simp]: "cmp a b = Less \<longleftrightarrow> a < b"
  by (simp add: cmp_def)

lemma cmp_Greater_iff [simp]: "cmp a b = Greater \<longleftrightarrow> b < a"
  by (auto simp: cmp_def)

lemma reverse_cmp: "reverse (cmp a b) = cmp b a"
  by (auto simp: cmp_def)

lemma cmp_trans_Less: "cmp a b = Less \<Longrightarrow> cmp b c = Less \<Longrightarrow> cmp a c = Less"
  by simp

section \<open>Facts about outcomes\<close>

lemma fallible_cases [case_names Ok Err Panic]:
  obtains a where "r = Done (Ok a)" | e where "r = Done (Err e)" | p where "r = Panic p"
  by (cases r) (metis result.exhaust, simp)

lemma not_Panic_iff: "(\<forall>p. r \<noteq> Panic p) \<longleftrightarrow> (\<exists>a. r = Done a)"
  by (cases r) simp_all

lemma map_exec_eq_Done_iff [simp, outcome_simps]:
  "map_exec f r = Done b \<longleftrightarrow> (\<exists>a. r = Done a \<and> b = f a)"
  by (cases r) auto

lemma map_exec_inject: "inj f \<Longrightarrow> map_exec f r = map_exec f s \<longleftrightarrow> r = s"
  by (cases r; cases s) (auto dest: injD)

lemma map_exec_eq_Panic_iff [simp, outcome_simps]:
  "map_exec f r = Panic p \<longleftrightarrow> r = Panic p"
  by (cases r) auto

lemma map_ok_simps [simp, outcome_simps]:
  "map_ok f (Panic p) = Panic p"
  "map_ok f (Done (Err e)) = Done (Err e)"
  "map_ok f (Done (Ok a)) = Done (Ok (f a))"
  by (simp_all add: map_ok_def)

lemma map_ok_eq_Ok_iff [outcome_simps]:
  "map_ok f r = Done (Ok b) \<longleftrightarrow> (\<exists>a. r = Done (Ok a) \<and> b = f a)"
  by (cases r rule: fallible_cases) auto

lemma map_ok_eq_Err_iff [outcome_simps]:
  "map_ok f r = Done (Err e) \<longleftrightarrow> r = Done (Err e)"
  by (cases r rule: fallible_cases) auto

lemma map_ok_eq_Panic_iff [outcome_simps]:
  "map_ok f r = Panic p \<longleftrightarrow> r = Panic p"
  by (cases r rule: fallible_cases) auto

lemma map_ok_map_exec_Ok [simp]:
  "map_ok g (map_exec (\<lambda>c. Ok (h c)) r) = map_exec (\<lambda>c. Ok (g (h c))) r"
  by (cases r) simp_all

lemma bind_exec_Done_right [simp]: "bind_exec r Done = r"
  by (cases r) simp_all

lemma bind_exec_eq_Done_iff [outcome_simps]:
  "bind_exec r f = Done b \<longleftrightarrow> (\<exists>a. r = Done a \<and> f a = Done b)"
  by (cases r) simp_all

lemma and_then_map_exec_Ok [simp]:
  "and_then (map_exec (\<lambda>c. Ok (h c)) r) f = bind_exec r (\<lambda>c. f (h c))"
  by (cases r) simp_all

lemma map_exec_bind_exec:
  "map_exec g (bind_exec r f) = bind_exec r (\<lambda>a. map_exec g (f a))"
  by (cases r) simp_all

lemma and_then_Panic_iff [outcome_simps]:
  "and_then r f = Panic p \<longleftrightarrow> r = Panic p \<or> (\<exists>a. r = Done (Ok a) \<and> f a = Panic p)"
  by (cases r rule: fallible_cases) auto

lemma map_ok_inject:
  "inj f \<Longrightarrow> map_ok f r = map_ok f s \<longleftrightarrow> r = s"
  by (cases r rule: fallible_cases; cases s rule: fallible_cases) (auto dest: injD)

lemma and_then_Ok_right [simp]: "and_then r (\<lambda>a. Done (Ok a)) = r"
  by (cases r rule: fallible_cases) auto

lemma and_then_assoc:
  "and_then (and_then r f) g = and_then r (\<lambda>a. and_then (f a) g)"
  by (cases r rule: fallible_cases) auto

lemma and_then_eq_Ok_iff [outcome_simps]:
  "and_then r f = Done (Ok b) \<longleftrightarrow> (\<exists>a. r = Done (Ok a) \<and> f a = Done (Ok b))"
  by (cases r rule: fallible_cases) auto

lemma map_ok_and_then:
  "map_ok g (and_then r f) = and_then r (\<lambda>a. map_ok g (f a))"
  by (cases r rule: fallible_cases) auto

end
