(* ===== verification/I64.thy ===== *)
theory I64
  imports Prelude
begin

text \<open>
  The 64-bit signed integers behind the literal arithmetic of
  \<^verbatim>\<open>src/executor/evaluate/evaluated.rs\<close>: the values produced by \<^verbatim>\<open>parse::<i64>()\<close>,
  combined by \<^verbatim>\<open>+\<close>, \<^verbatim>\<open>-\<close>, \<^verbatim>\<open>*\<close>, \<^verbatim>\<open>/\<close> and \<^verbatim>\<open>cmp\<close>, and printed by
  \<^verbatim>\<open>to_string()\<close>.  A value is a \<^typ>\<open>64 word\<close> read through \<^const>\<open>sint\<close>.  Rust's
  \<^verbatim>\<open>+\<close>, \<^verbatim>\<open>-\<close> and \<^verbatim>\<open>*\<close> panic on overflow when the crate is built with overflow
  checks and wrap around otherwise, so the operations take the \<^verbatim>\<open>overflow_mode\<close>
  as a parameter; \<^verbatim>\<open>/\<close> truncates towards zero and panics on a zero divisor and on
  \<^verbatim>\<open>i64::MIN / -1\<close> in both modes.  The parser follows \<^verbatim>\<open>from_str_radix\<close> for radix
  10: an optional sign, at least one ASCII digit, every partial result checked against
  the range.  \<open>parse_ref\<close> is the reference parser: it reads the digits as an
  unbounded integer (\<open>decimal\<close>) and checks the range once (\<open>in_range\<close>).  The
  lemmas give the exact result of each operation, the range facts, the round trip
  between printing and parsing, the agreement of the parser with its reference, and
  what the overflow mode changes.
\<close>

section \<open>Definitions\<close>

type_synonym i64 = "64 word"

datatype overflow_mode = Checked | Wrapping

definition I64_MIN :: int where "I64_MIN = - (2 ^ 63)"
definition I64_MAX :: int where "I64_MAX = 2 ^ 63 - 1"

definition in_i64 :: "int \<Rightarrow> bool" where
  "in_i64 k \<longleftrightarrow> I64_MIN \<le> k \<and> k \<le> I64_MAX"

definition checked :: "overflow_mode \<Rightarrow> int \<Rightarrow> i64 exec" where
  "checked m k = (if m = Checked \<and> \<not> in_i64 k then Panic ArithmeticOverflow else Done (word_of_int k))"

definition i64_add :: "overflow_mode \<Rightarrow> i64 \<Rightarrow> i64 \<Rightarrow> i64 exec" where
  "i64_add m a b = checked m (sint a + sint b)"

definition i64_sub :: "overflow_mode \<Rightarrow> i64 \<Rightarrow> i64 \<Rightarrow> i64 exec" where
  "i64_sub m a b = checked m (sint a - sint b)"

definition i64_mul :: "overflow_mode \<Rightarrow> i64 \<Rightarrow> i64 \<Rightarrow> i64 exec" where
  "i64_mul m a b = checked m (sint a * sint b)"

definition i64_div :: "i64 \<Rightarrow> i64 \<Rightarrow> i64 exec" where
  "i64_div a b =
     (if b = 0 then Panic DivisionByZero
      else if sint a = I64_MIN \<and> sint b = - 1 then Panic ArithmeticOverflow
      else Done (word_of_int (sint a sdiv sint b)))"

definition i64_cmp :: "i64 \<Rightarrow> i64 \<Rightarrow> ordering" where
  "i64_cmp a b = cmp (sint a) (sint b)"

definition to_digit :: "char \<Rightarrow> int option" where
  "to_digit c = (let n = of_char c :: nat in if 48 \<le> n \<and> n \<le> 57 then Some (int n - 48) else None)"

definition apply_sign :: "bool \<Rightarrow> int \<Rightarrow> int" where
  "apply_sign pos d = (if pos then d else - d)"

fun parse_digits :: "bool \<Rightarrow> int \<Rightarrow> string \<Rightarrow> int option" where
  "parse_digits pos acc [] = Some acc"
| "parse_digits pos acc (c # cs) =
     (case to_digit c of
        None \<Rightarrow> None
      | Some d \<Rightarrow>
          if \<not> in_i64 (acc * 10) then None
          else if \<not> in_i64 (acc * 10 + apply_sign pos d) then None
          else parse_digits pos (acc * 10 + apply_sign pos d) cs)"

definition parse_i64 :: "string \<Rightarrow> i64 option" where
  "parse_i64 src =
     (case src of
        [] \<Rightarrow> None
      | c # cs \<Rightarrow>
          let (pos, digits) =
                (if c = CHR ''+'' then (True, cs)
                 else if c = CHR ''-'' then (False, cs)
                 else (True, src))
          in if digits = [] then None
             else map_option word_of_int (parse_digits pos 0 digits))"

fun decimal :: "int \<Rightarrow> string \<Rightarrow> int option" where
  "decimal acc [] = Some acc"
| "decimal acc (c # cs) =
     (case to_digit c of None \<Rightarrow> None | Some d \<Rightarrow> decimal (acc * 10 + d) cs)"

definition in_range :: "bool \<Rightarrow> int option \<Rightarrow> int option" where
  "in_range pos r =
     (case r of
        Some n \<Rightarrow> if in_i64 (apply_sign pos n) then Some (apply_sign pos n) else None
      | None \<Rightarrow> None)"

definition parse_ref :: "string \<Rightarrow> i64 option" where
  "parse_ref src =
     (case src of
        [] \<Rightarrow> None
      | c # cs \<Rightarrow>
          if c = CHR ''+'' then (if cs = [] then None else map_option word_of_int (in_range True (decimal 0 cs)))
          else if c = CHR ''-'' then (if cs = [] then None else map_option word_of_int (in_range False (decimal 0 cs)))
          else map_option word_of_int (in_range True (decimal 0 src)))"

definition digit_char :: "nat \<Rightarrow> char" where
  "digit_char d = ''0123456789'' ! d"

fun string_of_nat :: "nat \<Rightarrow> string" where
  "string_of_nat n =
     (if n < 10 then [digit_char n]
      else string_of_nat (n div 10) @ [digit_char (n mod 10)])"

definition to_string :: "i64 \<Rightarrow> string" where
  "to_string w =
     (if sint w < 0 then CHR ''-'' # string_of_nat (nat (- sint w))
      else string_of_nat (nat (sint w)))"

declare string_of_nat.simps [simp del]

section \<open>Ranges and digits\<close>

lemmas i64_defs = parse_i64_def to_string_def to_digit_def digit_char_def in_i64_def
  I64_MIN_def I64_MAX_def i64_add_def i64_sub_def i64_mul_def i64_div_def checked_def
  i64_cmp_def signed_divide_int_def apply_sign_def


lemma sint_in_i64 [simp]: "in_i64 (sint (w :: i64))"
  using sint_ge [of w] sint_lt [of w] by (simp add: in_i64_def I64_MIN_def I64_MAX_def)

lemma in_i64_0 [simp]: "in_i64 0"
  by (simp add: in_i64_def I64_MIN_def I64_MAX_def)

lemma sint_word_of_int_i64: "in_i64 k \<Longrightarrow> sint (word_of_int k :: i64) = k"
  by (simp add: sint_sbintrunc' signed_take_bit_int_eq_self in_i64_def I64_MIN_def I64_MAX_def)

lemma less_10_cases:
  "d < 10 \<Longrightarrow> d \<in> {0, 1, 2, 3, 4, 5, 6, 7, 8, 9 :: nat}"
  by auto

lemma to_digit_digit_char: "d < 10 \<Longrightarrow> to_digit (digit_char d) = Some (int d)"
  by (drule less_10_cases) (auto simp: to_digit_def digit_char_def)

lemma to_digit_sign [simp]: "to_digit CHR ''+'' = None" "to_digit CHR ''-'' = None"
  by (simp_all add: to_digit_def)

lemma parse_digits_append:
  "parse_digits pos acc (xs @ ys) =
     (case parse_digits pos acc xs of None \<Rightarrow> None | Some r \<Rightarrow> parse_digits pos r ys)"
  by (induction xs arbitrary: acc) (auto simp: Let_def split: option.splits)

lemma parse_digits_single:
  "d < 10 \<Longrightarrow> in_i64 (acc * 10) \<Longrightarrow> in_i64 (acc * 10 + apply_sign pos (int d)) \<Longrightarrow>
   parse_digits pos acc [digit_char d] = Some (acc * 10 + apply_sign pos (int d))"
  by (simp add: to_digit_digit_char)

lemma signed_div_mod:
  "apply_sign pos (int (n div 10)) * 10 + apply_sign pos (int (n mod 10)) = apply_sign pos (int n)"
  by (cases pos) (simp_all add: apply_sign_def zdiv_int zmod_int, presburger)

lemma in_i64_signed_div:
  "in_i64 (apply_sign pos (int n)) \<Longrightarrow>
   in_i64 (apply_sign pos (int (n div 10))) \<and> in_i64 (apply_sign pos (int (n div 10)) * 10)"
  by (auto simp: apply_sign_def in_i64_def I64_MIN_def I64_MAX_def)

lemma parse_digits_string_of_nat:
  "in_i64 (apply_sign pos (int n)) \<Longrightarrow>
   parse_digits pos 0 (string_of_nat n) = Some (apply_sign pos (int n))"
proof (induction n rule: string_of_nat.induct)
  case (1 n)
  show ?case
  proof (cases "n < 10")
    case True
    with "1.prems" parse_digits_single [of n 0 pos] show ?thesis
      by (simp add: string_of_nat.simps [of n])
  next
    case False
    let ?q = "apply_sign pos (int (n div 10))"
    from "1.prems" have q: "in_i64 ?q" "in_i64 (?q * 10)"
      using in_i64_signed_div by blast+
    with False "1.IH" have IH: "parse_digits pos 0 (string_of_nat (n div 10)) = Some ?q"
      by simp
    have "parse_digits pos ?q [digit_char (n mod 10)] = Some (apply_sign pos (int n))"
      using parse_digits_single [of "n mod 10" ?q pos] q "1.prems"
      by (simp add: signed_div_mod)
    with False IH show ?thesis
      by (simp add: string_of_nat.simps [of n] parse_digits_append)
  qed
qed

lemma string_of_nat_head:
  "\<exists>c cs. string_of_nat n = c # cs \<and> to_digit c \<noteq> None"
proof (induction n rule: string_of_nat.induct)
  case (1 n)
  show ?case
  proof (cases "n < 10")
    case True
    then show ?thesis by (simp add: string_of_nat.simps [of n] to_digit_digit_char)
  next
    case False
    with "1.IH" show ?thesis by (auto simp: string_of_nat.simps [of n])
  qed
qed

lemma parse_i64_unsigned:
  "to_digit c \<noteq> None \<Longrightarrow>
   parse_i64 (c # cs) = map_option word_of_int (parse_digits True 0 (c # cs))"
  by (auto simp: parse_i64_def)

lemma parse_i64_minus:
  "parse_i64 (CHR ''-'' # cs) =
     (if cs = [] then None else map_option word_of_int (parse_digits False 0 cs))"
  by (simp add: parse_i64_def)

lemma parse_i64_string_of_nat:
  "in_i64 (int n) \<Longrightarrow> parse_i64 (string_of_nat n) = Some (word_of_int (int n))"
proof -
  assume r: "in_i64 (int n)"
  obtain c cs where s: "string_of_nat n = c # cs" and d: "to_digit c \<noteq> None"
    using string_of_nat_head by blast
  from r have "parse_digits True 0 (string_of_nat n) = Some (int n)"
    using parse_digits_string_of_nat [of True n] by (simp add: apply_sign_def)
  then show ?thesis
    unfolding s parse_i64_unsigned [OF d] by simp
qed

lemma parse_i64_minus_string_of_nat:
  "in_i64 (- int n) \<Longrightarrow> parse_i64 (CHR ''-'' # string_of_nat n) = Some (word_of_int (- int n))"
proof -
  assume r: "in_i64 (- int n)"
  obtain c cs where s: "string_of_nat n = c # cs"
    using string_of_nat_head by blast
  from r have "parse_digits False 0 (string_of_nat n) = Some (- int n)"
    using parse_digits_string_of_nat [of False n] by (simp add: apply_sign_def)
  with s show ?thesis
    by (simp add: parse_i64_minus)
qed

lemma checked_Wrapping [simp]: "checked Wrapping k = Done (word_of_int k)"
  by (simp add: checked_def)

lemma checked_Checked_iff:
  "checked Checked k = Done w \<longleftrightarrow> in_i64 k \<and> w = word_of_int k"
  by (auto simp: checked_def)

lemma checked_Panic_iff:
  "checked m k = Panic p \<longleftrightarrow> m = Checked \<and> \<not> in_i64 k \<and> p = ArithmeticOverflow"
  by (auto simp: checked_def)

lemma checked_in_range [simp]: "in_i64 k \<Longrightarrow> checked m k = Done (word_of_int k)"
  by (simp add: checked_def)

lemma checked_Done_cases:
  "checked m k = Done w \<Longrightarrow> w = word_of_int k"
  by (auto simp: checked_def split: if_splits)

lemma sint_wrap: "sint (word_of_int k :: i64) = (k + 2 ^ 63) mod 2 ^ 64 - 2 ^ 63"
  by (simp add: int_word_sint)

lemma sint_eq_iff: "sint (a :: i64) = sint b \<longleftrightarrow> a = b"
  by (auto intro: signed_word_eqI)

lemma sint_eq_0_iff: "sint (b :: i64) = 0 \<longleftrightarrow> b = 0"
  using sint_eq_iff [of b 0] by simp

lemma i64_add_Wrapping: "i64_add Wrapping a b = Done (a + b)"
  by (simp add: i64_add_def)

lemma i64_sub_Wrapping: "i64_sub Wrapping a b = Done (a - b)"
  by (simp add: i64_sub_def)

lemma i64_mul_Wrapping: "i64_mul Wrapping a b = Done (a * b)"
  by (simp add: i64_mul_def)

lemma checked_modes: "checked Checked k = checked Wrapping k \<longleftrightarrow> in_i64 k"
  by (simp add: checked_def)

lemma checked_Checked_cases:
  "checked Checked k = checked Wrapping k \<or> checked Checked k = Panic ArithmeticOverflow"
  by (simp add: checked_def)

lemma i64_modes:
  "i64_add Checked a b = i64_add Wrapping a b \<longleftrightarrow> in_i64 (sint a + sint b)"
  "i64_sub Checked a b = i64_sub Wrapping a b \<longleftrightarrow> in_i64 (sint a - sint b)"
  "i64_mul Checked a b = i64_mul Wrapping a b \<longleftrightarrow> in_i64 (sint a * sint b)"
  unfolding i64_add_def i64_sub_def i64_mul_def by (rule checked_modes)+

lemma i64_Checked_cases:
  "i64_add Checked a b = i64_add Wrapping a b \<or> i64_add Checked a b = Panic ArithmeticOverflow"
  "i64_sub Checked a b = i64_sub Wrapping a b \<or> i64_sub Checked a b = Panic ArithmeticOverflow"
  "i64_mul Checked a b = i64_mul Wrapping a b \<or> i64_mul Checked a b = Panic ArithmeticOverflow"
  unfolding i64_add_def i64_sub_def i64_mul_def by (rule checked_Checked_cases)+

lemma i64_add_commute: "i64_add m a b = i64_add m b a"
  by (simp add: i64_add_def add.commute)

lemma i64_mul_commute: "i64_mul m a b = i64_mul m b a"
  by (simp add: i64_mul_def mult.commute)

lemma i64_div_by_zero [simp]: "i64_div a 0 = Panic DivisionByZero"
  by (simp add: i64_div_def)

lemma parse_to_string [simp]: "parse_i64 (to_string w) = Some w"
proof (cases "sint w < 0")
  case True
  then have "in_i64 (- int (nat (- sint w)))" by simp
  from parse_i64_minus_string_of_nat [OF this] True show ?thesis
    by (simp add: to_string_def)
next
  case False
  then have "in_i64 (int (nat (sint w)))" by simp
  from parse_i64_string_of_nat [OF this] False show ?thesis
    by (simp add: to_string_def)
qed

lemma to_string_inject [simp]: "to_string v = to_string w \<longleftrightarrow> v = w"
  by (metis option.inject parse_to_string)

section \<open>Arithmetic\<close>

lemma sdiv_in_i64:
  assumes "in_i64 a" "in_i64 b" "\<not> (a = I64_MIN \<and> b = - 1)"
  shows "in_i64 (a sdiv b)"
proof (cases "a = I64_MIN")
  case False
  with assms(1) have "\<bar>a\<bar> \<le> I64_MAX" by (auto simp: in_i64_def I64_MIN_def I64_MAX_def)
  with sdiv_int_range [of a b] show ?thesis
    by (auto simp: in_i64_def I64_MIN_def I64_MAX_def)
next
  case True
  show ?thesis
  proof (cases "b = 0 \<or> b = 1")
    case True
    with \<open>a = I64_MIN\<close> show ?thesis by (auto simp: in_i64_def I64_MIN_def I64_MAX_def)
  next
    case False
    with True assms(3) have "2 \<le> \<bar>b\<bar>" by auto
    then have "\<bar>a\<bar> div \<bar>b\<bar> \<le> \<bar>a\<bar> div 2"
      using zdiv_mono2 [of "\<bar>a\<bar>" 2 "\<bar>b\<bar>"] by simp
    moreover have "0 \<le> \<bar>a\<bar> div \<bar>b\<bar>"
      by (simp add: div_int_pos_iff)
    ultimately show ?thesis using True
      by (auto simp: signed_divide_int_def sgn_if in_i64_def I64_MIN_def I64_MAX_def)
  qed
qed

lemma i64_div_Done_iff:
  "i64_div a b = Done c \<longleftrightarrow>
     b \<noteq> 0 \<and> \<not> (sint a = I64_MIN \<and> sint b = - 1) \<and> sint c = sint a sdiv sint b"
proof -
  have "sint (word_of_int (sint a sdiv sint b) :: i64) = sint a sdiv sint b"
    if "\<not> (sint a = I64_MIN \<and> sint b = - 1)"
    using that by (intro sint_word_of_int_i64 sdiv_in_i64) simp_all
  then show ?thesis
    by (auto simp: i64_div_def sint_eq_iff [symmetric])
qed

lemma i64_div_Panic_iff:
  "i64_div a b = Panic p \<longleftrightarrow>
     (b = 0 \<and> p = DivisionByZero) \<or>
     (b \<noteq> 0 \<and> sint a = I64_MIN \<and> sint b = - 1 \<and> p = ArithmeticOverflow)"
  by (auto simp: i64_div_def)

lemma checked_Checked_sint:
  "checked Checked k = Done c \<longleftrightarrow> in_i64 k \<and> sint c = k"
  using sint_word_of_int_i64 [of k] by (auto simp: checked_Checked_iff sint_eq_iff [symmetric])

lemma checked_overflow: "\<not> in_i64 k \<Longrightarrow> checked Checked k = Panic ArithmeticOverflow"
  by (simp add: checked_def)

lemma checked_Wrapping_sint:
  "checked Wrapping k = Done c \<longleftrightarrow> sint c = (k + 2 ^ 63) mod 2 ^ 64 - 2 ^ 63"
  by (auto simp: sint_eq_iff [symmetric] sint_wrap)

lemmas i64_checked_defs = i64_add_def i64_sub_def i64_mul_def

lemma i64_cmp_reverse: "reverse (i64_cmp a b) = i64_cmp b a"
  by (simp add: i64_cmp_def reverse_cmp)

lemma i64_cmp_Equal_iff [simp]: "i64_cmp a b = Equal \<longleftrightarrow> a = b"
  by (simp add: i64_cmp_def sint_eq_iff)

section \<open>The parser against its reference\<close>

lemma to_digit_range: "to_digit c = Some d \<Longrightarrow> 0 \<le> d \<and> d \<le> 9"
  by (auto simp: to_digit_def Let_def split: if_splits)

lemma decimal_mono: "decimal acc cs = Some n \<Longrightarrow> 0 \<le> acc \<Longrightarrow> acc \<le> n"
proof (induction cs arbitrary: acc)
  case (Cons c cs)
  then obtain d where d: "to_digit c = Some d" "decimal (acc * 10 + d) cs = Some n"
    by (auto split: option.splits)
  from to_digit_range [OF d(1)] Cons.prems(2) have "0 \<le> acc * 10 + d" "acc \<le> acc * 10 + d"
    by auto
  with Cons.IH [OF d(2)] show ?case by simp
qed simp

lemma in_range_None_pos:
  "0 \<le> acc \<Longrightarrow> \<not> in_i64 acc \<Longrightarrow> in_range True (decimal acc cs) = None"
  by (auto simp: in_range_def in_i64_def I64_MIN_def I64_MAX_def apply_sign_def
      split: option.splits dest: decimal_mono)

lemma in_range_None_neg:
  "0 \<le> acc \<Longrightarrow> \<not> in_i64 (- acc) \<Longrightarrow> in_range False (decimal acc cs) = None"
  by (auto simp: in_range_def in_i64_def I64_MIN_def I64_MAX_def apply_sign_def
      split: option.splits dest: decimal_mono)

lemma in_range_None:
  "0 \<le> acc \<Longrightarrow> \<not> in_i64 (apply_sign pos acc) \<Longrightarrow> in_range pos (decimal acc cs) = None"
  by (cases pos) (simp_all add: apply_sign_def in_range_None_pos in_range_None_neg)

lemma parse_digits_decimal:
  "0 \<le> acc \<Longrightarrow> in_i64 (apply_sign pos acc) \<Longrightarrow>
   parse_digits pos (apply_sign pos acc) cs = in_range pos (decimal acc cs)"
proof (induction cs arbitrary: acc)
  case Nil
  then show ?case by (simp add: in_range_def)
next
  case (Cons c cs)
  show ?case
  proof (cases "to_digit c")
    case None
    then show ?thesis by (simp add: in_range_def)
  next
    case (Some d)
    let ?acc = "acc * 10 + d"
    have d: "0 \<le> d" "d \<le> 9" using to_digit_range [OF Some] by auto
    have nn: "0 \<le> ?acc" "0 \<le> acc * 10" using d Cons.prems(1) by auto
    have sg: "apply_sign pos acc * 10 = apply_sign pos (acc * 10)"
      "apply_sign pos (acc * 10) + apply_sign pos d = apply_sign pos ?acc"
      by (simp_all add: apply_sign_def)
    show ?thesis
    proof (cases "in_i64 (apply_sign pos (acc * 10)) \<and> in_i64 (apply_sign pos ?acc)")
      case True
      then show ?thesis
        using Cons.IH [OF nn(1)] Some by (simp add: sg)
    next
      case False
      then have "\<not> in_i64 (apply_sign pos ?acc)"
        using d Cons.prems(1)
        by (cases pos) (auto simp: apply_sign_def in_i64_def I64_MIN_def I64_MAX_def)
      then have "in_range pos (decimal ?acc cs) = None"
        by (rule in_range_None [OF nn(1)])
      with False Some show ?thesis by (auto simp: sg)
    qed
  qed
qed

lemma parse_i64_parse_ref: "parse_i64 s = parse_ref s"
proof (cases s)
  case (Cons c cs)
  have "parse_digits pos 0 ds = in_range pos (decimal 0 ds)" for pos ds
    using parse_digits_decimal [of 0 pos ds] by (cases pos) (simp_all add: apply_sign_def)
  then show ?thesis
    by (simp add: Cons parse_i64_def parse_ref_def del: parse_digits.simps decimal.simps)
qed (simp add: parse_i64_def parse_ref_def)

section \<open>Properties\<close>

text \<open>
  Round trip.  Printing a 64-bit signed integer with \<^verbatim>\<open>to_string()\<close> and parsing
  the text with \<^verbatim>\<open>parse::<i64>()\<close> gives the integer back, for every value including
  \<^verbatim>\<open>i64::MIN\<close>; so every literal produced by literal arithmetic can be read again, and
  two different integers never print to the same text.
\<close>

theorem to_string_roundtrip:
  "parse_i64 (to_string w) = Some w \<and> (to_string v = to_string w \<longleftrightarrow> v = w)"
  by simp

theorem to_string_roundtrip_witness:
  "parse_i64 (to_string (- 9223372036854775808)) = Some (- 9223372036854775808) \<and>
   to_string 7 \<noteq> to_string (- 9223372036854775808)"
  using to_string_roundtrip [of "- 9223372036854775808" 7] by simp







text \<open>
  C32 (the parser accepts exactly the decimals in range).  \<^verbatim>\<open>parse::<i64>()\<close>, which
  checks the running value against the range of \<^verbatim>\<open>i64\<close> at every digit, accepts exactly
  the texts made of an optional sign and at least one ASCII digit whose value lies in
  \<open>[-2\<^sup>6\<^sup>3, 2\<^sup>6\<^sup>3 - 1]\<close>, and returns that value: it agrees with reading all the digits
  as an unbounded integer first and checking the range once.
\<close>

theorem parse_i64_accepts_decimals:
  "parse_i64 s = parse_ref s"
  by (rule parse_i64_parse_ref)

theorem parse_i64_accepts_decimals_witness:
  "parse_i64 ''+007'' = Some 7 \<and> parse_ref ''+007'' = Some 7 \<and>
   parse_i64 ''9223372036854775808'' = None \<and> parse_i64 ''-'' = None \<and>
   parse_i64 ''1.5'' = None"
  using parse_i64_accepts_decimals [of "''+007''"]
  by (simp add: i64_defs)

end
