(* ===== verification/Literal.thy ===== *)
theory Literal
  imports I64
begin

text \<open>
  The un-typed literal representation and its arithmetic: the part of
  \<^verbatim>\<open>src/executor/evaluate/evaluated.rs\<close> below the \<^verbatim>\<open>Evaluated\<close> type, namely
  \<^verbatim>\<open>literal_partial_cmp\<close>, \<^verbatim>\<open>literal_add\<close>, \<^verbatim>\<open>literal_subtract\<close>, \<^verbatim>\<open>literal_multiply\<close>
  and \<^verbatim>\<open>literal_divide\<close>.  \<^verbatim>\<open>AstValue\<close> is the parser's literal node; the source looks
  only at \<^verbatim>\<open>Number\<close> and \<^verbatim>\<open>SingleQuotedString\<close>, the other constructors stand for the
  kinds that every operation here rejects.  Each arithmetic function parses both texts
  as \<^verbatim>\<open>i64\<close>, panics if one does not parse, and prints the result into a new
  \<^verbatim>\<open>Number\<close>; a pair that is not two \<^verbatim>\<open>Number\<close>s is the error
  \<^verbatim>\<open>UnreachableLiteralArithmetic\<close>.  \<open>literal_arith\<close> states this scheme once; the
  lemmas show that the four functions are its instances and characterise every outcome.
\<close>

section \<open>Definitions\<close>

datatype AstValue =
    Number string
  | SingleQuotedString string
  | NationalStringLiteral string
  | HexStringLiteral string
  | Boolean bool
  | Null

fun literal_partial_cmp :: "AstValue \<Rightarrow> AstValue \<Rightarrow> ordering option" where
  "literal_partial_cmp (Number l) (Number r) =
     (case (parse_i64 l, parse_i64 r) of
        (Some l', Some r') \<Rightarrow> Some (i64_cmp l' r')
      | _ \<Rightarrow> None)"
| "literal_partial_cmp (SingleQuotedString l) (SingleQuotedString r) = Some (cmp l r)"
| "literal_partial_cmp _ _ = None"

fun literal_add :: "overflow_mode \<Rightarrow> AstValue \<Rightarrow> AstValue \<Rightarrow> (AstValue, 'x error) fallible" where
  "literal_add m (Number a) (Number b) =
     (case (parse_i64 a, parse_i64 b) of
        (Some a', Some b') \<Rightarrow> map_exec (\<lambda>c. Ok (Number (to_string c))) (i64_add m a' b')
      | _ \<Rightarrow> Panic ExplicitPanic)"
| "literal_add m _ _ = Done (Err (Evaluate UnreachableLiteralArithmetic))"

fun literal_subtract :: "overflow_mode \<Rightarrow> AstValue \<Rightarrow> AstValue \<Rightarrow> (AstValue, 'x error) fallible" where
  "literal_subtract m (Number a) (Number b) =
     (case (parse_i64 a, parse_i64 b) of
        (Some a', Some b') \<Rightarrow> map_exec (\<lambda>c. Ok (Number (to_string c))) (i64_sub m a' b')
      | _ \<Rightarrow> Panic ExplicitPanic)"
| "literal_subtract m _ _ = Done (Err (Evaluate UnreachableLiteralArithmetic))"

fun literal_multiply :: "overflow_mode \<Rightarrow> AstValue \<Rightarrow> AstValue \<Rightarrow> (AstValue, 'x error) fallible" where
  "literal_multiply m (Number a) (Number b) =
     (case (parse_i64 a, parse_i64 b) of
        (Some a', Some b') \<Rightarrow> map_exec (\<lambda>c. Ok (Number (to_string c))) (i64_mul m a' b')
      | _ \<Rightarrow> Panic ExplicitPanic)"
| "literal_multiply m _ _ = Done (Err (Evaluate UnreachableLiteralArithmetic))"

fun literal_divide :: "AstValue \<Rightarrow> AstValue \<Rightarrow> (AstValue, 'x error) fallible" where
  "literal_divide (Number a) (Number b) =
     (case (parse_i64 a, parse_i64 b) of
        (Some a', Some b') \<Rightarrow> map_exec (\<lambda>c. Ok (Number (to_string c))) (i64_div a' b')
      | _ \<Rightarrow> Panic ExplicitPanic)"
| "literal_divide _ _ = Done (Err (Evaluate UnreachableLiteralArithmetic))"

definition literal_value :: "AstValue \<Rightarrow> i64 option" where
  "literal_value l = (case l of Number s \<Rightarrow> parse_i64 s | _ \<Rightarrow> None)"

definition is_number :: "AstValue \<Rightarrow> bool" where
  "is_number l = (case l of Number _ \<Rightarrow> True | _ \<Rightarrow> False)"

definition literal_arith ::
  "(i64 \<Rightarrow> i64 \<Rightarrow> i64 exec) \<Rightarrow> AstValue \<Rightarrow> AstValue \<Rightarrow> (AstValue, 'x error) fallible" where
  "literal_arith f a b =
     (if \<not> (is_number a \<and> is_number b) then Done (Err (Evaluate UnreachableLiteralArithmetic))
      else case (literal_value a, literal_value b) of
             (Some x, Some y) \<Rightarrow> map_exec (\<lambda>c. Ok (Number (to_string c))) (f x y)
           | _ \<Rightarrow> Panic ExplicitPanic)"

section \<open>The four operations are instances of one scheme\<close>

lemmas literal_defs = literal_arith_def is_number_def literal_value_def

lemma literal_value_simps [simp]:
  "literal_value (Number s) = parse_i64 s"
  "literal_value (SingleQuotedString s) = None"
  "literal_value (NationalStringLiteral s) = None"
  "literal_value (HexStringLiteral s) = None"
  "literal_value (Boolean b) = None"
  "literal_value Null = None"
  by (simp_all add: literal_value_def)

lemma is_number_simps [simp]:
  "is_number (Number s)"
  "\<not> is_number (SingleQuotedString s)"
  "\<not> is_number (NationalStringLiteral s)"
  "\<not> is_number (HexStringLiteral s)"
  "\<not> is_number (Boolean b)"
  "\<not> is_number Null"
  by (simp_all add: is_number_def)

lemma literal_value_Some_is_number: "literal_value a = Some x \<Longrightarrow> is_number a"
  by (cases a) simp_all

lemma literal_add_arith: "literal_add m a b = literal_arith (i64_add m) a b"
  by (cases "(m, a, b)" rule: literal_add.cases) (simp_all add: literal_arith_def)

lemma literal_subtract_arith: "literal_subtract m a b = literal_arith (i64_sub m) a b"
  by (cases "(m, a, b)" rule: literal_subtract.cases) (simp_all add: literal_arith_def)

lemma literal_multiply_arith: "literal_multiply m a b = literal_arith (i64_mul m) a b"
  by (cases "(m, a, b)" rule: literal_multiply.cases) (simp_all add: literal_arith_def)

lemma literal_divide_arith: "literal_divide a b = literal_arith i64_div a b"
  by (cases "(a, b)" rule: literal_divide.cases) (simp_all add: literal_arith_def)

lemmas literal_op_arith =
  literal_add_arith literal_subtract_arith literal_multiply_arith literal_divide_arith

section \<open>Outcomes of the scheme\<close>

lemma literal_arith_Ok_iff:
  "literal_arith f a b = Done (Ok r) \<longleftrightarrow>
     (\<exists>x y z. literal_value a = Some x \<and> literal_value b = Some y \<and> f x y = Done z \<and>
        r = Number (to_string z))"
  by (cases a; cases b) (auto simp: literal_arith_def split: option.splits exec.splits)

lemma literal_arith_Err_iff:
  "literal_arith f a b = Done (Err e) \<longleftrightarrow>
     \<not> (is_number a \<and> is_number b) \<and> e = Evaluate UnreachableLiteralArithmetic"
  by (cases a; cases b) (auto simp: literal_arith_def split: option.splits exec.splits)

lemma literal_arith_Panic_iff:
  "literal_arith f a b = Panic p \<longleftrightarrow>
     is_number a \<and> is_number b \<and>
     (case (literal_value a, literal_value b) of
        (Some x, Some y) \<Rightarrow> f x y = Panic p
      | _ \<Rightarrow> p = ExplicitPanic)"
  by (cases a; cases b) (auto simp: literal_arith_def split: option.splits exec.splits)

lemma literal_arith_values:
  "literal_value a = Some x \<Longrightarrow> literal_value b = Some y \<Longrightarrow>
   literal_arith f a b = map_exec (\<lambda>c. Ok (Number (to_string c))) (f x y)"
  by (auto simp: literal_arith_def dest: literal_value_Some_is_number)

lemma literal_arith_eq_iff:
  "literal_arith g a b = literal_arith h a b \<longleftrightarrow>
     (\<forall>x y. literal_value a = Some x \<and> literal_value b = Some y \<longrightarrow> g x y = h x y)"
  by (cases "literal_value a"; cases "literal_value b")
     (auto simp: literal_arith_values map_exec_inject inj_def, auto simp: literal_arith_def)

lemma literal_arith_commute:
  "(\<And>x y. f x y = f y x) \<Longrightarrow> literal_arith f a b = literal_arith f b a"
  by (cases a; cases b) (auto simp: literal_arith_def split: option.splits)

lemma literal_add_commute: "literal_add m a b = literal_add m b a"
  by (simp add: literal_add_arith literal_arith_commute [of "i64_add m"] i64_add_commute)

lemma literal_multiply_commute: "literal_multiply m a b = literal_multiply m b a"
  by (simp add: literal_multiply_arith literal_arith_commute [of "i64_mul m"] i64_mul_commute)

lemma literal_arith_value:
  "literal_arith f a b = Done (Ok r) \<Longrightarrow>
   \<exists>x y z. literal_value a = Some x \<and> literal_value b = Some y \<and> f x y = Done z \<and>
      literal_value r = Some z"
  by (auto simp: literal_arith_Ok_iff)

lemma literal_partial_cmp_antisym:
  "literal_partial_cmp b a = map_option reverse (literal_partial_cmp a b)"
  by (cases "(a, b)" rule: literal_partial_cmp.cases)
     (simp_all add: i64_cmp_reverse reverse_cmp split: option.splits)

lemma literal_partial_cmp_Number:
  "literal_partial_cmp (Number l) (Number r) =
     (case (parse_i64 l, parse_i64 r) of
        (Some x, Some y) \<Rightarrow> Some (cmp (sint x) (sint y)) | _ \<Rightarrow> None)"
  by (simp add: i64_cmp_def split: option.splits)

lemma literal_partial_cmp_kinds:
  "literal_partial_cmp a b \<noteq> None \<Longrightarrow>
   (is_number a \<and> is_number b) \<or> (\<exists>l r. a = SingleQuotedString l \<and> b = SingleQuotedString r)"
  by (cases "(a, b)" rule: literal_partial_cmp.cases) simp_all

section \<open>Properties\<close>

text \<open>
  C9 (literal addition).  \<^verbatim>\<open>literal_add\<close> returns \<^verbatim>\<open>Ok\<close> exactly when both operands are
  numeric-text literals that parse as \<^verbatim>\<open>i64\<close> and the \<^verbatim>\<open>i64\<close> addition of the two
  values returns; the result is then the \<^verbatim>\<open>Number\<close> literal that prints their sum.
\<close>

theorem literal_add_correct:
  "literal_add m a b = Done (Ok r) \<longleftrightarrow>
     (\<exists>x y z. literal_value a = Some x \<and> literal_value b = Some y \<and> i64_add m x y = Done z \<and>
        r = Number (to_string z))"
  by (simp add: literal_add_arith literal_arith_Ok_iff)

theorem literal_add_correct_witness:
  "literal_add Checked (Number ''2'') (Number ''3'') = Done (Ok (Number ''5''))"
  using literal_add_correct [of Checked "Number ''2''" "Number ''3''" "Number ''5''"]
  by (simp add: i64_defs string_of_nat.simps)

text \<open>
  C10 (literal subtraction).  \<^verbatim>\<open>literal_subtract\<close> returns \<^verbatim>\<open>Ok\<close> exactly when both
  operands parse as \<^verbatim>\<open>i64\<close> and the subtraction of the right value from the left one
  returns; the result is the \<^verbatim>\<open>Number\<close> literal that prints the difference.
\<close>

theorem literal_subtract_correct:
  "literal_subtract m a b = Done (Ok r) \<longleftrightarrow>
     (\<exists>x y z. literal_value a = Some x \<and> literal_value b = Some y \<and> i64_sub m x y = Done z \<and>
        r = Number (to_string z))"
  by (simp add: literal_subtract_arith literal_arith_Ok_iff)

theorem literal_subtract_correct_witness:
  "literal_subtract Checked (Number ''2'') (Number ''3'') = Done (Ok (Number ''-1''))"
  using literal_subtract_correct [of Checked "Number ''2''" "Number ''3''" "Number ''-1''"]
  by (simp add: i64_defs string_of_nat.simps)

text \<open>
  C11 (literal multiplication).  \<^verbatim>\<open>literal_multiply\<close> returns \<^verbatim>\<open>Ok\<close> exactly when both
  operands parse as \<^verbatim>\<open>i64\<close> and the multiplication returns; the result is the
  \<^verbatim>\<open>Number\<close> literal that prints the product.
\<close>

theorem literal_multiply_correct:
  "literal_multiply m a b = Done (Ok r) \<longleftrightarrow>
     (\<exists>x y z. literal_value a = Some x \<and> literal_value b = Some y \<and> i64_mul m x y = Done z \<and>
        r = Number (to_string z))"
  by (simp add: literal_multiply_arith literal_arith_Ok_iff)

theorem literal_multiply_correct_witness:
  "literal_multiply Checked (Number ''2'') (Number ''3'') = Done (Ok (Number ''6''))"
  using literal_multiply_correct [of Checked "Number ''2''" "Number ''3''" "Number ''6''"]
  by (simp add: i64_defs string_of_nat.simps)

text \<open>
  C12 (literal division).  \<^verbatim>\<open>literal_divide\<close> returns \<^verbatim>\<open>Ok\<close> exactly when both
  operands parse as \<^verbatim>\<open>i64\<close> and the \<^verbatim>\<open>i64\<close> division returns; the result is the
  \<^verbatim>\<open>Number\<close> literal that prints the quotient truncated towards zero.
\<close>

theorem literal_divide_correct:
  "literal_divide a b = Done (Ok r) \<longleftrightarrow>
     (\<exists>x y z. literal_value a = Some x \<and> literal_value b = Some y \<and> i64_div x y = Done z \<and>
        r = Number (to_string z))"
  by (simp add: literal_divide_arith literal_arith_Ok_iff)

theorem literal_divide_correct_witness:
  "literal_divide (Number ''2'') (Number ''3'') = Done (Ok (Number ''0'')) \<and>
   literal_divide (Number ''-7'') (Number ''2'') = Done (Ok (Number ''-3''))"
  using literal_divide_correct [of "Number ''2''" "Number ''3''" "Number ''0''"]
    literal_divide_correct [of "Number ''-7''" "Number ''2''" "Number ''-3''"]
  by (simp add: i64_defs string_of_nat.simps)

text \<open>
  Ordering of literals is antisymmetric.  Whenever \<^verbatim>\<open>literal_partial_cmp\<close> orders
  two literals, it orders the swapped pair the opposite way.
\<close>

theorem literal_partial_cmp_antisymmetric:
  "literal_partial_cmp a b = Some ord \<Longrightarrow> literal_partial_cmp b a = Some (reverse ord)"
  by (simp add: literal_partial_cmp_antisym [of b a])

theorem literal_partial_cmp_antisymmetric_witness:
  "literal_partial_cmp (Number ''2'') (Number ''5'') = Some Less \<and>
   literal_partial_cmp (Number ''5'') (Number ''2'') = Some (reverse Less)"
proof -
  have h: "literal_partial_cmp (Number ''2'') (Number ''5'') = Some Less"
    by (simp add: i64_defs)
  from h literal_partial_cmp_antisymmetric [OF h] show ?thesis by simp
qed

text \<open>
  C15 (ordering of numeric literals).  Two numeric-text literals are ordered as the
  signed integers they parse to, whatever their spelling; if one of them does not parse
  as \<^verbatim>\<open>i64\<close> they are incomparable, and a numeric literal is incomparable with a
  string literal.
\<close>

theorem literal_partial_cmp_numeric:
  "(parse_i64 l = Some x \<and> parse_i64 r = Some y \<longrightarrow>
      literal_partial_cmp (Number l) (Number r) = Some (cmp (sint x) (sint y))) \<and>
   (parse_i64 l = None \<or> parse_i64 r = None \<longrightarrow>
      literal_partial_cmp (Number l) (Number r) = None) \<and>
   literal_partial_cmp (Number l) (SingleQuotedString s) = None \<and>
   literal_partial_cmp (SingleQuotedString s) (Number r) = None"
  by (auto simp: i64_cmp_def split: option.splits)

theorem literal_partial_cmp_numeric_witness:
  "literal_partial_cmp (Number ''10'') (Number ''9'') = Some Greater \<and>
   literal_partial_cmp (Number ''1.5'') (Number ''9'') = None"
  using literal_partial_cmp_numeric [of "''10''" 10 "''9''" 9]
    literal_partial_cmp_numeric [of "''1.5''" _ "''9''"]
  by (simp add: i64_defs)

text \<open>
  C21 (a zero literal divisor panics).  Dividing a numeric literal by a numeric literal
  whose value is zero does not return an error value: \<^verbatim>\<open>literal_divide\<close> panics with
  a division by zero.
\<close>

theorem literal_divide_by_zero_panics:
  "literal_value a = Some x \<Longrightarrow> literal_value b = Some 0 \<Longrightarrow>
   literal_divide a b = Panic DivisionByZero"
  by (simp add: literal_divide_arith literal_arith_Panic_iff literal_value_Some_is_number)

theorem literal_divide_by_zero_panics_witness:
  "literal_value (Number ''2'') = Some 2 \<and> literal_value (Number ''0'') = Some 0 \<and>
   literal_divide (Number ''2'') (Number ''0'') = Panic DivisionByZero"
proof -
  have a: "literal_value (Number ''2'') = Some 2" and b: "literal_value (Number ''0'') = Some 0"
    by (simp_all add: i64_defs)
  from a b literal_divide_by_zero_panics [OF a b] show ?thesis by simp
qed

text \<open>
  C22 (non-numeric literal pairing).  Each of the four literal operations returns an
  error value exactly when one of its operands is not a numeric-text literal, and the
  error is then \<^verbatim>\<open>UnreachableLiteralArithmetic\<close>.
\<close>

theorem non_numeric_literal_error:
  "(literal_add m a b = Done (Err e) \<longleftrightarrow>
      \<not> (is_number a \<and> is_number b) \<and> e = Evaluate UnreachableLiteralArithmetic) \<and>
   (literal_subtract m a b = Done (Err e) \<longleftrightarrow>
      \<not> (is_number a \<and> is_number b) \<and> e = Evaluate UnreachableLiteralArithmetic) \<and>
   (literal_multiply m a b = Done (Err e) \<longleftrightarrow>
      \<not> (is_number a \<and> is_number b) \<and> e = Evaluate UnreachableLiteralArithmetic) \<and>
   (literal_divide a b = Done (Err e) \<longleftrightarrow>
      \<not> (is_number a \<and> is_number b) \<and> e = Evaluate UnreachableLiteralArithmetic)"
  by (simp only: literal_op_arith literal_arith_Err_iff simp_thms)

theorem non_numeric_literal_error_witness:
  "literal_add Checked (Number ''1'') (SingleQuotedString ''a'') =
     Done (Err (Evaluate UnreachableLiteralArithmetic) :: (AstValue, unit error) result)"
  using non_numeric_literal_error [of Checked "Number ''1''" "SingleQuotedString ''a''"
      "Evaluate UnreachableLiteralArithmetic :: unit error"]
  by simp

text \<open>
  C23 (a numeric literal that is not an \<^verbatim>\<open>i64\<close>).  When both operands are numeric-text
  literals and the text of one of them does not parse as \<^verbatim>\<open>i64\<close> (a decimal point, an
  exponent, a value out of range), each of the four literal operations panics.
\<close>

theorem unparsable_number_panics:
  "is_number a \<Longrightarrow> is_number b \<Longrightarrow> literal_value a = None \<or> literal_value b = None \<Longrightarrow>
   literal_add m a b = Panic ExplicitPanic \<and> literal_subtract m a b = Panic ExplicitPanic \<and>
   literal_multiply m a b = Panic ExplicitPanic \<and> literal_divide a b = Panic ExplicitPanic"
  by (auto simp: literal_op_arith literal_arith_Panic_iff split: option.splits)

theorem unparsable_number_panics_witness:
  "literal_value (Number ''1.5'') = None \<and>
   literal_add Checked (Number ''1.5'') (Number ''2'') = Panic ExplicitPanic \<and>
   literal_multiply Wrapping (Number ''2'') (Number ''9223372036854775808'') = Panic ExplicitPanic"
proof -
  have a: "literal_value (Number ''1.5'') = None"
    and b: "literal_value (Number ''9223372036854775808'') = None"
    by (simp_all add: i64_defs)
  have "literal_add Checked (Number ''1.5'') (Number ''2'') = Panic ExplicitPanic"
    using unparsable_number_panics [OF _ _ disjI1, OF _ _ a, of "Number ''2''" Checked]
    by (simp add: i64_defs)
  moreover have
    "literal_multiply Wrapping (Number ''2'') (Number ''9223372036854775808'') = Panic ExplicitPanic"
    using unparsable_number_panics [OF _ _ disjI2, OF _ _ b, of "Number ''2''" Wrapping]
    by (simp add: i64_defs)
  ultimately show ?thesis using a by simp
qed

text \<open>
  C24 (results are readable numeric literals).  Whatever a literal operation returns
  with \<^verbatim>\<open>Ok\<close> is a numeric-text literal in canonical decimal form that parses back to
  the computed integer, so it can be an operand of the next operation.
\<close>

theorem literal_result_numeric:
  "literal_add m a b = Done (Ok r) \<or> literal_subtract m a b = Done (Ok r) \<or>
   literal_multiply m a b = Done (Ok r) \<or> literal_divide a b = Done (Ok r) \<Longrightarrow>
   \<exists>z. r = Number (to_string z) \<and> literal_value r = Some z"
  by (auto simp: literal_op_arith literal_arith_Ok_iff)

theorem literal_result_numeric_witness:
  "literal_multiply Checked (Number ''+2'') (Number ''03'') = Done (Ok (Number ''6'')) \<and>
   (\<exists>z. Number ''6'' = Number (to_string z) \<and> literal_value (Number ''6'') = Some z)"
proof -
  have h: "literal_multiply Checked (Number ''+2'') (Number ''03'') = Done (Ok (Number ''6''))"
    by (simp add: i64_defs string_of_nat.simps)
  from literal_result_numeric [of Checked "Number ''+2''" "Number ''03''" "Number ''6''", OF disjI2, OF disjI2, OF disjI1, OF h] h
  show ?thesis by (simp only: simp_thms)
qed

text \<open>
  No panic without overflow checks.  Built without overflow checks, addition,
  subtraction and multiplication of two numeric literals that parse as \<^verbatim>\<open>i64\<close> always
  return \<^verbatim>\<open>Ok\<close>, with the literal that prints the wrapped result.
\<close>

theorem wrapping_literal_arithmetic_total:
  "literal_value a = Some x \<Longrightarrow> literal_value b = Some y \<Longrightarrow>
   literal_add Wrapping a b = Done (Ok (Number (to_string (x + y)))) \<and>
   literal_subtract Wrapping a b = Done (Ok (Number (to_string (x - y)))) \<and>
   literal_multiply Wrapping a b = Done (Ok (Number (to_string (x * y))))"
  by (simp add: literal_op_arith literal_arith_Ok_iff i64_checked_defs)

theorem wrapping_literal_arithmetic_total_witness:
  "literal_add Wrapping (Number ''9223372036854775807'') (Number ''1'') =
     Done (Ok (Number ''-9223372036854775808''))"
proof -
  have a: "literal_value (Number ''9223372036854775807'') = Some 9223372036854775807"
    and b: "literal_value (Number ''1'') = Some 1"
    by (simp_all add: i64_defs)
  from wrapping_literal_arithmetic_total [OF a b] show ?thesis
    by (simp add: i64_defs string_of_nat.simps)
qed

end
