(* ===== verification/Value_Domain.thy ===== *)
theory Value_Domain
  imports Literal
begin

text \<open>
  The typed runtime value domain as \<^verbatim>\<open>src/executor/evaluate/evaluated.rs\<close> uses it.
  \<^verbatim>\<open>crate::data::Value\<close> is defined outside the file; the file calls its equality with
  another value and with a literal, its partial order against both, the four arithmetic
  operations, \<^verbatim>\<open>clone_by\<close> (build a value of the same type from a literal), and it
  matches on the text variant \<^verbatim>\<open>Value::Str\<close>.  The record \<open>value_ops\<close> is this
  interface over a type variable for the values and one for the crate's other errors;
  every operation of \<^verbatim>\<open>Evaluated\<close> takes it as a parameter.  The predicates below are
  the laws a client theorem may ask of an implementation; \<open>Sql_Value\<close> discharges
  them for a reference domain.
\<close>

section \<open>The interface\<close>

record ('v, 'x) value_ops =
  value_eq :: "'v \<Rightarrow> 'v \<Rightarrow> bool"
  value_eq_literal :: "'v \<Rightarrow> AstValue \<Rightarrow> bool"
  value_partial_cmp :: "'v \<Rightarrow> 'v \<Rightarrow> ordering option"
  value_partial_cmp_literal :: "'v \<Rightarrow> AstValue \<Rightarrow> ordering option"
  as_str :: "'v \<Rightarrow> string option"
  clone_by :: "'v \<Rightarrow> AstValue \<Rightarrow> ('v, 'x error) fallible"
  value_add :: "'v \<Rightarrow> 'v \<Rightarrow> ('v, 'x error) fallible"
  value_subtract :: "'v \<Rightarrow> 'v \<Rightarrow> ('v, 'x error) fallible"
  value_multiply :: "'v \<Rightarrow> 'v \<Rightarrow> ('v, 'x error) fallible"
  value_divide :: "'v \<Rightarrow> 'v \<Rightarrow> ('v, 'x error) fallible"

section \<open>Laws an implementation may satisfy\<close>

definition eq_symmetric :: "('v, 'x) value_ops \<Rightarrow> bool" where
  "eq_symmetric ops \<longleftrightarrow> (\<forall>a b. value_eq ops a b = value_eq ops b a)"

definition cmp_antisymmetric :: "('v, 'x) value_ops \<Rightarrow> bool" where
  "cmp_antisymmetric ops \<longleftrightarrow>
     (\<forall>a b. value_partial_cmp ops b a = map_option reverse (value_partial_cmp ops a b))"

definition add_commutative :: "('v, 'x) value_ops \<Rightarrow> bool" where
  "add_commutative ops \<longleftrightarrow> (\<forall>a b. value_add ops a b = value_add ops b a)"

definition mul_commutative :: "('v, 'x) value_ops \<Rightarrow> bool" where
  "mul_commutative ops \<longleftrightarrow> (\<forall>a b. value_multiply ops a b = value_multiply ops b a)"

section \<open>Using the laws\<close>

lemma eq_symmetricD: "eq_symmetric ops \<Longrightarrow> value_eq ops a b = value_eq ops b a"
  unfolding eq_symmetric_def by blast

lemma cmp_antisymmetricD:
  "cmp_antisymmetric ops \<Longrightarrow>
   value_partial_cmp ops b a = map_option reverse (value_partial_cmp ops a b)"
  unfolding cmp_antisymmetric_def by blast

lemma add_commutativeD: "add_commutative ops \<Longrightarrow> value_add ops a b = value_add ops b a"
  unfolding add_commutative_def by blast

lemma mul_commutativeD:
  "mul_commutative ops \<Longrightarrow> value_multiply ops a b = value_multiply ops b a"
  unfolding mul_commutative_def by blast

end
