(* ===== verification/Sql_Value.thy ===== *)
theory Sql_Value
  imports Value_Domain
begin

text \<open>
  A reference implementation of the typed-value interface, written from the
  specification's description of the domain (integer, text, boolean and an empty value;
  floating point is left out): equality and order coerce a literal through its text,
  \<^verbatim>\<open>clone_by\<close> parses a literal into the type of its peer, arithmetic is defined on
  integers only and reports overflow and a zero divisor as error values.  It is the
  concrete domain at which the interface laws are discharged and at which the theorems
  about \<^verbatim>\<open>Evaluated\<close> are instantiated.
\<close>

section \<open>Values and operations\<close>

datatype value_error =
    NonNumericOperand
  | NumericOverflow
  | DivisorIsZero
  | LiteralNotSupported
  | FailedToParseNumber

datatype sql_value = I64 i64 | Str string | Bool bool | Empty

fun sql_eq_literal :: "sql_value \<Rightarrow> AstValue \<Rightarrow> bool" where
  "sql_eq_literal (I64 l) (Number r) = (case parse_i64 r of Some r' \<Rightarrow> l = r' | None \<Rightarrow> False)"
| "sql_eq_literal (Str l) (SingleQuotedString r) = (l = r)"
| "sql_eq_literal (Bool l) (Boolean r) = (l = r)"
| "sql_eq_literal _ _ = False"

fun sql_partial_cmp :: "sql_value \<Rightarrow> sql_value \<Rightarrow> ordering option" where
  "sql_partial_cmp (I64 l) (I64 r) = Some (i64_cmp l r)"
| "sql_partial_cmp (Str l) (Str r) = Some (cmp l r)"
| "sql_partial_cmp (Bool l) (Bool r) = Some (cmp l r)"
| "sql_partial_cmp _ _ = None"

fun sql_partial_cmp_literal :: "sql_value \<Rightarrow> AstValue \<Rightarrow> ordering option" where
  "sql_partial_cmp_literal (I64 l) (Number r) =
     (case parse_i64 r of Some r' \<Rightarrow> Some (i64_cmp l r') | None \<Rightarrow> None)"
| "sql_partial_cmp_literal (Str l) (SingleQuotedString r) = Some (cmp l r)"
| "sql_partial_cmp_literal _ _ = None"

fun sql_as_str :: "sql_value \<Rightarrow> string option" where
  "sql_as_str (Str s) = Some s"
| "sql_as_str _ = None"

fun sql_clone_by :: "sql_value \<Rightarrow> AstValue \<Rightarrow> (sql_value, value_error error) fallible" where
  "sql_clone_by (I64 _) (Number s) =
     (case parse_i64 s of
        Some n \<Rightarrow> Done (Ok (I64 n))
      | None \<Rightarrow> Done (Err (Other FailedToParseNumber)))"
| "sql_clone_by (Str _) (SingleQuotedString s) = Done (Ok (Str s))"
| "sql_clone_by (Bool _) (Boolean b) = Done (Ok (Bool b))"
| "sql_clone_by _ _ = Done (Err (Other LiteralNotSupported))"

definition exact :: "int \<Rightarrow> (sql_value, value_error error) fallible" where
  "exact k = (if in_i64 k then Done (Ok (I64 (word_of_int k))) else Done (Err (Other NumericOverflow)))"

fun sql_add :: "sql_value \<Rightarrow> sql_value \<Rightarrow> (sql_value, value_error error) fallible" where
  "sql_add (I64 a) (I64 b) = exact (sint a + sint b)"
| "sql_add _ _ = Done (Err (Other NonNumericOperand))"

fun sql_subtract :: "sql_value \<Rightarrow> sql_value \<Rightarrow> (sql_value, value_error error) fallible" where
  "sql_subtract (I64 a) (I64 b) = exact (sint a - sint b)"
| "sql_subtract _ _ = Done (Err (Other NonNumericOperand))"

fun sql_multiply :: "sql_value \<Rightarrow> sql_value \<Rightarrow> (sql_value, value_error error) fallible" where
  "sql_multiply (I64 a) (I64 b) = exact (sint a * sint b)"
| "sql_multiply _ _ = Done (Err (Other NonNumericOperand))"

fun sql_divide :: "sql_value \<Rightarrow> sql_value \<Rightarrow> (sql_value, value_error error) fallible" where
  "sql_divide (I64 a) (I64 b) =
     (if b = 0 then Done (Err (Other DivisorIsZero)) else exact (sint a sdiv sint b))"
| "sql_divide _ _ = Done (Err (Other NonNumericOperand))"

definition sql_ops :: "(sql_value, value_error) value_ops" where
  "sql_ops = \<lparr>
     value_eq = (=),
     value_eq_literal = sql_eq_literal,
     value_partial_cmp = sql_partial_cmp,
     value_partial_cmp_literal = sql_partial_cmp_literal,
     as_str = sql_as_str,
     clone_by = sql_clone_by,
     value_add = sql_add,
     value_subtract = sql_subtract,
     value_multiply = sql_multiply,
     value_divide = sql_divide \<rparr>"

section \<open>The interface laws hold\<close>

lemma sql_ops_simps [simp]:
  "value_eq sql_ops = (=)"
  "value_eq_literal sql_ops = sql_eq_literal"
  "value_partial_cmp sql_ops = sql_partial_cmp"
  "value_partial_cmp_literal sql_ops = sql_partial_cmp_literal"
  "as_str sql_ops = sql_as_str"
  "clone_by sql_ops = sql_clone_by"
  "value_add sql_ops = sql_add"
  "value_subtract sql_ops = sql_subtract"
  "value_multiply sql_ops = sql_multiply"
  "value_divide sql_ops = sql_divide"
  by (simp_all add: sql_ops_def)

lemma sql_eq_symmetric: "eq_symmetric sql_ops"
  by (auto simp: eq_symmetric_def)

lemma sql_partial_cmp_antisym:
  "sql_partial_cmp b a = map_option reverse (sql_partial_cmp a b)"
  by (cases "(a, b)" rule: sql_partial_cmp.cases) (simp_all add: i64_cmp_reverse reverse_cmp)

lemma sql_cmp_antisymmetric: "cmp_antisymmetric sql_ops"
  unfolding cmp_antisymmetric_def by (simp add: sql_partial_cmp_antisym [symmetric])

lemma sql_add_commute: "sql_add a b = sql_add b a"
  by (cases "(a, b)" rule: sql_add.cases; cases b) (simp_all add: add.commute)

lemma sql_add_commutative: "add_commutative sql_ops"
  unfolding add_commutative_def using sql_add_commute by simp

lemma sql_multiply_commute: "sql_multiply a b = sql_multiply b a"
  by (cases "(a, b)" rule: sql_multiply.cases; cases b) (simp_all add: mult.commute)

lemma sql_mul_commutative: "mul_commutative sql_ops"
  unfolding mul_commutative_def using sql_multiply_commute by simp

end
