(* ===== verification/Evaluated.thy ===== *)
theory Evaluated
  imports Sql_Value
begin

text \<open>
  The type \<^verbatim>\<open>Evaluated\<close> of \<^verbatim>\<open>src/executor/evaluate/evaluated.rs\<close> and its two comparison
  traits.  A borrowed and an owned variant carry the same payload here: the borrow is a
  read-only view, so the model keeps the value and the tag.  \<open>eq\<close> is
  \<^verbatim>\<open>PartialEq::eq\<close>, one equation per arm of the source's nested \<^verbatim>\<open>match\<close> in the
  source's order, and \<open>partial_cmp\<close> is \<^verbatim>\<open>PartialOrd::partial_cmp\<close>; an arm that is
  \<^verbatim>\<open>panic!()\<close> in the source is the outcome \<open>Panic ExplicitPanic\<close>.  \<open>classify\<close>
  maps a value to its payload (\<open>operand\<close>: an un-typed literal, a typed value or a
  text), forgetting whether it is borrowed or owned; \<open>eq_spec\<close> and \<open>cmp_spec\<close> are the
  equality and the ordering the specification gives on payloads.  The lemmas show that
  both comparisons are symmetric over the whole matrix of variants (panics included),
  say exactly which pairs panic, what a borrowed string compares equal to, and that
  outside the panicking pairs the comparisons are those of the specification.
\<close>

section \<open>Definitions\<close>

datatype 'v evaluated =
    is_LiteralRef: LiteralRef AstValue
  | is_Literal: Literal AstValue
  | is_StringRef: StringRef string
  | is_ValueRef: ValueRef 'v
  | is_Value: Value 'v

definition eq_ast :: "AstValue \<Rightarrow> string \<Rightarrow> bool" where
  "eq_ast l r = (case l of SingleQuotedString l' \<Rightarrow> l' = r | _ \<Rightarrow> False)"

definition eq_val :: "('v, 'x) value_ops \<Rightarrow> 'v \<Rightarrow> string \<Rightarrow> bool" where
  "eq_val ops l r = (case as_str ops l of Some l' \<Rightarrow> l' = r | None \<Rightarrow> False)"

fun eq :: "('v, 'x) value_ops \<Rightarrow> 'v evaluated \<Rightarrow> 'v evaluated \<Rightarrow> bool exec" where
  "eq ops (LiteralRef l) (LiteralRef r) = Done (l = r)"
| "eq ops (LiteralRef l) (StringRef r) = Done (eq_ast l r)"
| "eq ops (LiteralRef l) (ValueRef r) = Done (value_eq_literal ops r l)"
| "eq ops (LiteralRef l) (Value r) = Done (value_eq_literal ops r l)"
| "eq ops (LiteralRef l) (Literal _) = Panic ExplicitPanic"
| "eq ops (StringRef l) (LiteralRef r) = Done (eq_ast r l)"
| "eq ops (StringRef l) (StringRef r) = Done (l = r)"
| "eq ops (StringRef l) (ValueRef r) = Done (eq_val ops r l)"
| "eq ops (StringRef l) (Value r) = Done (eq_val ops r l)"
| "eq ops (StringRef l) (Literal _) = Done False"
| "eq ops (ValueRef l) (LiteralRef r) = Done (value_eq_literal ops l r)"
| "eq ops (ValueRef l) (Literal r) = Done (value_eq_literal ops l r)"
| "eq ops (ValueRef l) (StringRef r) = Done (eq_val ops l r)"
| "eq ops (ValueRef l) (ValueRef r) = Done (value_eq ops l r)"
| "eq ops (ValueRef l) (Value r) = Done (value_eq ops l r)"
| "eq ops (Value l) (LiteralRef r) = Done (value_eq_literal ops l r)"
| "eq ops (Value l) (StringRef r) = Done (eq_val ops l r)"
| "eq ops (Value l) (ValueRef r) = Done (value_eq ops l r)"
| "eq ops (Value l) (Value r) = Done (value_eq ops l r)"
| "eq ops (Value l) (Literal _) = Panic ExplicitPanic"
| "eq ops (Literal l) (ValueRef r) = Done (value_eq_literal ops r l)"
| "eq ops (Literal l) (StringRef _) = Done False"
| "eq ops (Literal l) _ = Panic ExplicitPanic"

definition str_partial_cmp :: "('v, 'x) value_ops \<Rightarrow> 'v \<Rightarrow> string \<Rightarrow> ordering option" where
  "str_partial_cmp ops l r = (case as_str ops l of Some l' \<Rightarrow> Some (cmp l' r) | None \<Rightarrow> None)"

fun partial_cmp ::
  "('v, 'x) value_ops \<Rightarrow> 'v evaluated \<Rightarrow> 'v evaluated \<Rightarrow> ordering option exec" where
  "partial_cmp ops (LiteralRef l) (LiteralRef r) = Done (literal_partial_cmp l r)"
| "partial_cmp ops (LiteralRef l) (ValueRef r) =
     Done (map_option reverse (value_partial_cmp_literal ops r l))"
| "partial_cmp ops (LiteralRef l) (Value r) =
     Done (map_option reverse (value_partial_cmp_literal ops r l))"
| "partial_cmp ops (LiteralRef l) (StringRef _) = Done None"
| "partial_cmp ops (LiteralRef l) (Literal _) = Panic ExplicitPanic"
| "partial_cmp ops (ValueRef l) (LiteralRef r) = Done (value_partial_cmp_literal ops l r)"
| "partial_cmp ops (ValueRef l) (ValueRef r) = Done (value_partial_cmp ops l r)"
| "partial_cmp ops (ValueRef l) (Value r) = Done (value_partial_cmp ops l r)"
| "partial_cmp ops (ValueRef l) (StringRef r) = Done (str_partial_cmp ops l r)"
| "partial_cmp ops (ValueRef l) (Literal _) = Panic ExplicitPanic"
| "partial_cmp ops (Value l) (LiteralRef r) = Done (value_partial_cmp_literal ops l r)"
| "partial_cmp ops (Value l) (ValueRef r) = Done (value_partial_cmp ops l r)"
| "partial_cmp ops (Value l) (Value r) = Done (value_partial_cmp ops l r)"
| "partial_cmp ops (Value l) (StringRef r) = Done (str_partial_cmp ops l r)"
| "partial_cmp ops (Value l) (Literal _) = Panic ExplicitPanic"
| "partial_cmp ops (StringRef l) (LiteralRef _) = Done None"
| "partial_cmp ops (StringRef l) (ValueRef r) =
     Done (case as_str ops r of Some r' \<Rightarrow> Some (cmp l r') | None \<Rightarrow> None)"
| "partial_cmp ops (StringRef l) (Value r) =
     Done (case as_str ops r of Some r' \<Rightarrow> Some (cmp l r') | None \<Rightarrow> None)"
| "partial_cmp ops (StringRef l) (StringRef r) = Done (Some (cmp l r))"
| "partial_cmp ops (StringRef l) (Literal _) = Panic ExplicitPanic"
| "partial_cmp ops (Literal _) _ = Panic ExplicitPanic"

datatype 'v operand = Untyped AstValue | Typed 'v | Text string

fun classify :: "'v evaluated \<Rightarrow> 'v operand" where
  "classify (LiteralRef l) = Untyped l"
| "classify (Literal l) = Untyped l"
| "classify (ValueRef v) = Typed v"
| "classify (Value v) = Typed v"
| "classify (StringRef s) = Text s"

fun eq_spec :: "('v, 'x) value_ops \<Rightarrow> 'v operand \<Rightarrow> 'v operand \<Rightarrow> bool" where
  "eq_spec ops (Untyped l) (Untyped r) = (l = r)"
| "eq_spec ops (Untyped l) (Text s) = (l = SingleQuotedString s)"
| "eq_spec ops (Untyped l) (Typed v) = value_eq_literal ops v l"
| "eq_spec ops (Text s) (Untyped l) = (l = SingleQuotedString s)"
| "eq_spec ops (Text s) (Text t) = (s = t)"
| "eq_spec ops (Text s) (Typed v) = (as_str ops v = Some s)"
| "eq_spec ops (Typed v) (Untyped l) = value_eq_literal ops v l"
| "eq_spec ops (Typed v) (Text s) = (as_str ops v = Some s)"
| "eq_spec ops (Typed v) (Typed w) = value_eq ops v w"

fun cmp_spec :: "('v, 'x) value_ops \<Rightarrow> 'v operand \<Rightarrow> 'v operand \<Rightarrow> ordering option" where
  "cmp_spec ops (Untyped l) (Untyped r) = literal_partial_cmp l r"
| "cmp_spec ops (Untyped l) (Typed v) = map_option reverse (value_partial_cmp_literal ops v l)"
| "cmp_spec ops (Typed v) (Untyped l) = value_partial_cmp_literal ops v l"
| "cmp_spec ops (Typed v) (Typed w) = value_partial_cmp ops v w"
| "cmp_spec ops (Text s) (Text t) = Some (cmp s t)"
| "cmp_spec ops (Text s) (Typed v) = map_option (cmp s) (as_str ops v)"
| "cmp_spec ops (Typed v) (Text s) = map_option (\<lambda>t. cmp t s) (as_str ops v)"
| "cmp_spec ops (Untyped l) (Text s) = None"
| "cmp_spec ops (Text s) (Untyped l) = None"

section \<open>Symmetry\<close>

lemma eq_commutes: "eq_symmetric ops \<Longrightarrow> eq ops a b = eq ops b a"
  by (cases a; cases b) (simp_all add: eq_symmetricD [of ops] eq_commute)

lemma partial_cmp_reverses:
  "cmp_antisymmetric ops \<Longrightarrow>
   partial_cmp ops b a = map_exec (map_option reverse) (partial_cmp ops a b)"
  by (cases a; cases b)
     (auto simp: str_partial_cmp_def reverse_cmp split: option.splits
           intro: cmp_antisymmetricD literal_partial_cmp_antisym)

section \<open>Which comparisons panic\<close>

lemma eq_Panic_iff:
  "eq ops a b = Panic p \<longleftrightarrow>
     p = ExplicitPanic \<and>
     ((is_Literal a \<and> \<not> is_ValueRef b \<and> \<not> is_StringRef b) \<or>
      (is_Literal b \<and> \<not> is_ValueRef a \<and> \<not> is_StringRef a))"
  by (cases a; cases b) auto

lemma partial_cmp_Panic_iff:
  "partial_cmp ops a b = Panic p \<longleftrightarrow> p = ExplicitPanic \<and> (is_Literal a \<or> is_Literal b)"
  by (cases a; cases b) auto

lemma eq_ast_iff [simp]: "eq_ast l s \<longleftrightarrow> l = SingleQuotedString s"
  by (cases l) (auto simp: eq_ast_def)

lemma eq_val_iff [simp]: "eq_val ops v s \<longleftrightarrow> as_str ops v = Some s"
  by (auto simp: eq_val_def split: option.splits)

lemma str_partial_cmp_Some_iff [simp]:
  "str_partial_cmp ops v s = Some ord \<longleftrightarrow> (\<exists>t. as_str ops v = Some t \<and> ord = cmp t s)"
  by (auto simp: str_partial_cmp_def split: option.splits)

lemma str_partial_cmp_eq:
  "str_partial_cmp ops v s = map_option (\<lambda>t. cmp t s) (as_str ops v)"
  by (simp add: str_partial_cmp_def split: option.splits)

section \<open>Properties\<close>

text \<open>
  C1 (equality is symmetric).  If the typed domain's own equality is symmetric, then
  \<^verbatim>\<open>a == b\<close> and \<^verbatim>\<open>b == a\<close> have the same outcome for every pair of \<^verbatim>\<open>Evaluated\<close>
  values: the same boolean, or a panic on both sides.
\<close>

theorem eq_symmetric_everywhere:
  "eq_symmetric ops \<Longrightarrow> eq ops a b = eq ops b a"
  by (rule eq_commutes)

theorem eq_symmetric_everywhere_witness:
  "eq_symmetric sql_ops \<and>
   eq sql_ops (StringRef ''abc'') (ValueRef (Str ''abc'')) =
   eq sql_ops (ValueRef (Str ''abc'')) (StringRef ''abc'') \<and>
   eq sql_ops (ValueRef (Str ''abc'')) (StringRef ''abc'') = Done True"
  using eq_symmetric_everywhere [OF sql_eq_symmetric, of "StringRef ''abc''" "ValueRef (Str ''abc'')"]
  by (simp add: sql_eq_symmetric)

text \<open>
  C2 (ordering is antisymmetric).  If the typed domain's partial order is antisymmetric,
  then for every pair of \<^verbatim>\<open>Evaluated\<close> values \<^verbatim>\<open>b.partial_cmp(a)\<close> is
  \<^verbatim>\<open>a.partial_cmp(b)\<close> with the ordering reversed: \<^verbatim>\<open>Less\<close> against \<^verbatim>\<open>Greater\<close>,
  incomparable against incomparable, panic against panic.
\<close>

theorem partial_cmp_antisymmetric:
  "cmp_antisymmetric ops \<Longrightarrow>
   partial_cmp ops b a = map_exec (map_option reverse) (partial_cmp ops a b)"
  by (rule partial_cmp_reverses)

theorem partial_cmp_antisymmetric_witness:
  "cmp_antisymmetric sql_ops \<and>
   partial_cmp sql_ops (LiteralRef (Number ''2'')) (ValueRef (I64 5)) = Done (Some Less) \<and>
   partial_cmp sql_ops (ValueRef (I64 5)) (LiteralRef (Number ''2'')) = Done (Some Greater)"
  using partial_cmp_antisymmetric [OF sql_cmp_antisymmetric,
      of "ValueRef (I64 5)" "LiteralRef (Number ''2'')"]
  by (simp add: sql_cmp_antisymmetric i64_defs cmp_def)

text \<open>
  C16 (where equality panics).  \<^verbatim>\<open>a == b\<close> panics exactly when one side is an owned
  literal and the other side is neither a borrowed typed value nor a borrowed string; in
  every other case it returns a boolean.
\<close>

theorem eq_panics_iff:
  "(eq ops a b = Panic p \<longleftrightarrow>
      p = ExplicitPanic \<and>
      ((is_Literal a \<and> \<not> is_ValueRef b \<and> \<not> is_StringRef b) \<or>
       (is_Literal b \<and> \<not> is_ValueRef a \<and> \<not> is_StringRef a))) \<and>
   (\<not> is_Literal a \<and> \<not> is_Literal b \<longrightarrow> (\<exists>r. eq ops a b = Done r))"
  by (metis eq_Panic_iff exec.exhaust)

theorem eq_panics_iff_witness:
  "eq sql_ops (Literal (Number ''1'')) (Literal (Number ''1'')) = Panic ExplicitPanic \<and>
   (\<exists>r. eq sql_ops (LiteralRef (Number ''1'')) (Value (I64 1)) = Done r)"
  using eq_panics_iff [of sql_ops "Literal (Number ''1'')" "Literal (Number ''1'')" ExplicitPanic]
    eq_panics_iff [of sql_ops "LiteralRef (Number ''1'')" "Value (I64 1)"]
  by simp

text \<open>
  C17 (where ordering panics).  \<^verbatim>\<open>a.partial_cmp(b)\<close> panics exactly when one of the two
  is an owned literal; for every other pair it returns an ordering or the absent result.
\<close>

theorem partial_cmp_panics_iff:
  "(partial_cmp ops a b = Panic p \<longleftrightarrow> p = ExplicitPanic \<and> (is_Literal a \<or> is_Literal b)) \<and>
   (\<not> is_Literal a \<and> \<not> is_Literal b \<longrightarrow> (\<exists>r. partial_cmp ops a b = Done r))"
  by (metis partial_cmp_Panic_iff exec.exhaust)

theorem partial_cmp_panics_iff_witness:
  "partial_cmp sql_ops (ValueRef (I64 1)) (Literal (Number ''1'')) = Panic ExplicitPanic \<and>
   (\<exists>r. partial_cmp sql_ops (ValueRef (I64 1)) (LiteralRef (Number ''1'')) = Done r)"
  using partial_cmp_panics_iff [of sql_ops "ValueRef (I64 1)" "Literal (Number ''1'')" ExplicitPanic]
    partial_cmp_panics_iff [of sql_ops "ValueRef (I64 1)" "LiteralRef (Number ''1'')"]
  by simp

text \<open>
  Ownership matters to equality.  Equality does not only look at the payload: a
  borrowed typed value can be compared with an owned literal where an owned typed value
  panics, and a borrowed string equals the borrowed single-quoted literal with the same
  text but never the owned one.
\<close>

theorem eq_ownership_matters:
  "eq ops (ValueRef v) (Literal l) = Done (value_eq_literal ops v l) \<and>
   eq ops (Value v) (Literal l) = Panic ExplicitPanic \<and>
   eq ops (StringRef s) (LiteralRef (SingleQuotedString s)) = Done True \<and>
   eq ops (StringRef s) (Literal (SingleQuotedString s)) = Done False \<and>
   eq ops (Literal (SingleQuotedString s)) (StringRef s) = Done False"
  by simp

text \<open>
  What a borrowed string equals.  A borrowed string equals a borrowed literal
  exactly when the literal is the single-quoted string with that text, another borrowed
  string exactly when the texts are the same, and a typed value, borrowed or owned,
  exactly when the value is a text value with that content.
\<close>

theorem string_equality:
  "eq ops (StringRef s) (LiteralRef l) = Done (l = SingleQuotedString s) \<and>
   eq ops (StringRef s) (StringRef t) = Done (s = t) \<and>
   eq ops (StringRef s) (ValueRef v) = Done (as_str ops v = Some s) \<and>
   eq ops (StringRef s) (Value v) = Done (as_str ops v = Some s)"
  by simp

text \<open>
  What a borrowed string is ordered against.  \<^verbatim>\<open>partial_cmp\<close> of a borrowed
  string returns an ordering exactly against another borrowed string and against a typed
  value that is a text value, and the ordering is the bytewise lexicographic comparison
  of the two texts; against every literal and every other typed value the result is
  absent or a panic.
\<close>

theorem string_ordering:
  "partial_cmp ops (StringRef s) b = Done (Some ord) \<longleftrightarrow>
     (\<exists>t. (b = StringRef t \<or> (\<exists>v. (b = ValueRef v \<or> b = Value v) \<and> as_str ops v = Some t)) \<and>
        ord = cmp s t)"
  by (cases b) (auto split: option.splits)

theorem string_ordering_witness:
  "partial_cmp sql_ops (StringRef ''abc'') (Value (Str ''abd'')) = Done (Some Less)"
  using string_ordering [of sql_ops "''abc''" "Value (Str ''abd'')" Less]
  by (simp add: cmp_def)

text \<open>
  C38 (equality refines its ownership-blind specification).  The outcome of \<^verbatim>\<open>a == b\<close>
  is determined for every pair: a panic when an owned literal meets anything but a borrowed
  typed value or a borrowed string, \<^verbatim>\<open>false\<close> when an owned literal meets a borrowed
  string, and in every other case the equality of the two payloads, which does not
  depend on whether either side is owned or borrowed.
\<close>

theorem eq_refines_spec:
  "eq ops a b =
     (if (is_Literal a \<and> \<not> is_ValueRef b \<and> \<not> is_StringRef b) \<or>
         (is_Literal b \<and> \<not> is_ValueRef a \<and> \<not> is_StringRef a) then Panic ExplicitPanic
      else if (is_Literal a \<and> is_StringRef b) \<or> (is_StringRef a \<and> is_Literal b) then Done False
      else Done (eq_spec ops (classify a) (classify b)))"
  by (cases a; cases b) simp_all

theorem eq_refines_spec_witness:
  "eq sql_ops (Value (I64 7)) (LiteralRef (Number ''7'')) =
     Done (eq_spec sql_ops (Typed (I64 7)) (Untyped (Number ''7''))) \<and>
   eq_spec sql_ops (Typed (I64 7)) (Untyped (Number ''7''))"
  using eq_refines_spec [of sql_ops "Value (I64 7)" "LiteralRef (Number ''7'')"]
  by (simp add: i64_defs)

text \<open>
  C39 (ordering refines its ownership-blind specification).  \<^verbatim>\<open>a.partial_cmp(b)\<close>
  panics when either side is an owned literal and otherwise returns the comparison of the
  two payloads: literal against literal by \<^verbatim>\<open>literal_partial_cmp\<close>, a typed value against
  a literal by the domain's mixed comparison (reversed when the literal is on the
  left), text against text bytewise, and absent for a literal against a borrowed string.
\<close>

theorem partial_cmp_refines_spec:
  "partial_cmp ops a b =
     (if is_Literal a \<or> is_Literal b then Panic ExplicitPanic
      else Done (cmp_spec ops (classify a) (classify b)))"
  by (cases a; cases b) (simp_all add: str_partial_cmp_eq case_option_map)

theorem partial_cmp_refines_spec_witness:
  "partial_cmp sql_ops (StringRef ''b'') (Value (Str ''a'')) =
     Done (cmp_spec sql_ops (Text ''b'') (Typed (Str ''a''))) \<and>
   cmp_spec sql_ops (Text ''b'') (Typed (Str ''a'')) = Some Greater"
  using partial_cmp_refines_spec [of sql_ops "StringRef ''b''" "Value (Str ''a'')"]
  by (simp add: cmp_def)

end
