(* ===== verification/Arithmetic.thy ===== *)
theory Arithmetic
  imports Evaluated
begin

text \<open>
  The four arithmetic methods of \<^verbatim>\<open>Evaluated\<close> in
  \<^verbatim>\<open>src/executor/evaluate/evaluated.rs\<close>: \<^verbatim>\<open>add\<close>, \<^verbatim>\<open>subtract\<close>, \<^verbatim>\<open>multiply\<close> and
  \<^verbatim>\<open>divide\<close> (here \<open>divide_evaluated\<close>, since \<open>divide\<close> is HOL's division).  Each
  method is three definitions, as in the source: the closure for a literal left operand,
  the closure for a typed left operand, and the outer \<^verbatim>\<open>match\<close> on the receiver.  The
  closure \<^verbatim>\<open>unreachable\<close> is the error \<^verbatim>\<open>UnreachableEvaluatedArithmetic\<close>; \<^verbatim>\<open>?\<close> after
  \<^verbatim>\<open>clone_by\<close> is \<open>and_then\<close>, \<^verbatim>\<open>.map(Evaluated::Value)\<close> is \<open>map_ok Value\<close>.
  \<open>arith_spec\<close> is the coercion scheme the specification gives for all four operators
  over the payloads of the operands (\<open>classify\<close>: un-typed, typed or text);
  \<open>overflows\<close> says that both operands are numeric literals whose integer result
  leaves the range of \<^verbatim>\<open>i64\<close>.  The lemmas show that the methods refine the scheme
  (for \<^verbatim>\<open>add\<close>, which passes a coerced left literal as the right argument, when the
  domain's addition commutes), that the result is always an owned variant, how errors
  reach the caller, that \<^verbatim>\<open>add\<close> and \<^verbatim>\<open>multiply\<close> commute when the typed operations
  do, and that the overflow mode matters exactly where \<open>overflows\<close> holds.
\<close>

section \<open>Definitions\<close>

definition unreachable :: "('a, 'x error) fallible" where
  "unreachable = Done (Err (Evaluate UnreachableEvaluatedArithmetic))"

fun add_literal ::
  "('v, 'x) value_ops \<Rightarrow> overflow_mode \<Rightarrow> AstValue \<Rightarrow> 'v evaluated \<Rightarrow>
   ('v evaluated, 'x error) fallible" where
  "add_literal ops m l (LiteralRef r) = map_ok Literal (literal_add m l r)"
| "add_literal ops m l (Literal r) = map_ok Literal (literal_add m l r)"
| "add_literal ops m l (ValueRef r) =
     map_ok Value (and_then (clone_by ops r l) (\<lambda>l'. value_add ops r l'))"
| "add_literal ops m l (Value r) =
     map_ok Value (and_then (clone_by ops r l) (\<lambda>l'. value_add ops r l'))"
| "add_literal ops m l (StringRef _) = unreachable"

fun add_value ::
  "('v, 'x) value_ops \<Rightarrow> 'v \<Rightarrow> 'v evaluated \<Rightarrow> ('v evaluated, 'x error) fallible" where
  "add_value ops l (LiteralRef r) =
     map_ok Value (and_then (clone_by ops l r) (\<lambda>r'. value_add ops l r'))"
| "add_value ops l (Literal r) =
     map_ok Value (and_then (clone_by ops l r) (\<lambda>r'. value_add ops l r'))"
| "add_value ops l (ValueRef r) = map_ok Value (value_add ops l r)"
| "add_value ops l (Value r) = map_ok Value (value_add ops l r)"
| "add_value ops l (StringRef _) = unreachable"

fun add ::
  "('v, 'x) value_ops \<Rightarrow> overflow_mode \<Rightarrow> 'v evaluated \<Rightarrow> 'v evaluated \<Rightarrow>
   ('v evaluated, 'x error) fallible" where
  "add ops m (LiteralRef l) other = add_literal ops m l other"
| "add ops m (Literal l) other = add_literal ops m l other"
| "add ops m (ValueRef l) other = add_value ops l other"
| "add ops m (Value l) other = add_value ops l other"
| "add ops m (StringRef _) other = unreachable"

fun subtract_literal ::
  "('v, 'x) value_ops \<Rightarrow> overflow_mode \<Rightarrow> AstValue \<Rightarrow> 'v evaluated \<Rightarrow>
   ('v evaluated, 'x error) fallible" where
  "subtract_literal ops m l (LiteralRef r) = map_ok Literal (literal_subtract m l r)"
| "subtract_literal ops m l (Literal r) = map_ok Literal (literal_subtract m l r)"
| "subtract_literal ops m l (ValueRef r) =
     map_ok Value (and_then (clone_by ops r l) (\<lambda>l'. value_subtract ops l' r))"
| "subtract_literal ops m l (Value r) =
     map_ok Value (and_then (clone_by ops r l) (\<lambda>l'. value_subtract ops l' r))"
| "subtract_literal ops m l (StringRef _) = unreachable"

fun subtract_value ::
  "('v, 'x) value_ops \<Rightarrow> 'v \<Rightarrow> 'v evaluated \<Rightarrow> ('v evaluated, 'x error) fallible" where
  "subtract_value ops l (LiteralRef r) =
     map_ok Value (and_then (clone_by ops l r) (\<lambda>r'. value_subtract ops l r'))"
| "subtract_value ops l (Literal r) =
     map_ok Value (and_then (clone_by ops l r) (\<lambda>r'. value_subtract ops l r'))"
| "subtract_value ops l (ValueRef r) = map_ok Value (value_subtract ops l r)"
| "subtract_value ops l (Value r) = map_ok Value (value_subtract ops l r)"
| "subtract_value ops l (StringRef _) = unreachable"

fun subtract ::
  "('v, 'x) value_ops \<Rightarrow> overflow_mode \<Rightarrow> 'v evaluated \<Rightarrow> 'v evaluated \<Rightarrow>
   ('v evaluated, 'x error) fallible" where
  "subtract ops m (LiteralRef l) other = subtract_literal ops m l other"
| "subtract ops m (Literal l) other = subtract_literal ops m l other"
| "subtract ops m (ValueRef l) other = subtract_value ops l other"
| "subtract ops m (Value l) other = subtract_value ops l other"
| "subtract ops m (StringRef _) other = unreachable"

fun multiply_literal ::
  "('v, 'x) value_ops \<Rightarrow> overflow_mode \<Rightarrow> AstValue \<Rightarrow> 'v evaluated \<Rightarrow>
   ('v evaluated, 'x error) fallible" where
  "multiply_literal ops m l (LiteralRef r) = map_ok Literal (literal_multiply m l r)"
| "multiply_literal ops m l (Literal r) = map_ok Literal (literal_multiply m l r)"
| "multiply_literal ops m l (ValueRef r) =
     map_ok Value (and_then (clone_by ops r l) (\<lambda>l'. value_multiply ops l' r))"
| "multiply_literal ops m l (Value r) =
     map_ok Value (and_then (clone_by ops r l) (\<lambda>l'. value_multiply ops l' r))"
| "multiply_literal ops m l (StringRef _) = unreachable"

fun multiply_value ::
  "('v, 'x) value_ops \<Rightarrow> 'v \<Rightarrow> 'v evaluated \<Rightarrow> ('v evaluated, 'x error) fallible" where
  "multiply_value ops l (LiteralRef r) =
     map_ok Value (and_then (clone_by ops l r) (\<lambda>r'. value_multiply ops l r'))"
| "multiply_value ops l (Literal r) =
     map_ok Value (and_then (clone_by ops l r) (\<lambda>r'. value_multiply ops l r'))"
| "multiply_value ops l (ValueRef r) = map_ok Value (value_multiply ops l r)"
| "multiply_value ops l (Value r) = map_ok Value (value_multiply ops l r)"
| "multiply_value ops l (StringRef _) = unreachable"

fun multiply ::
  "('v, 'x) value_ops \<Rightarrow> overflow_mode \<Rightarrow> 'v evaluated \<Rightarrow> 'v evaluated \<Rightarrow>
   ('v evaluated, 'x error) fallible" where
  "multiply ops m (LiteralRef l) other = multiply_literal ops m l other"
| "multiply ops m (Literal l) other = multiply_literal ops m l other"
| "multiply ops m (ValueRef l) other = multiply_value ops l other"
| "multiply ops m (Value l) other = multiply_value ops l other"
| "multiply ops m (StringRef _) other = unreachable"

fun divide_literal ::
  "('v, 'x) value_ops \<Rightarrow> AstValue \<Rightarrow> 'v evaluated \<Rightarrow> ('v evaluated, 'x error) fallible" where
  "divide_literal ops l (LiteralRef r) = map_ok Literal (literal_divide l r)"
| "divide_literal ops l (Literal r) = map_ok Literal (literal_divide l r)"
| "divide_literal ops l (ValueRef r) =
     map_ok Value (and_then (clone_by ops r l) (\<lambda>l'. value_divide ops l' r))"
| "divide_literal ops l (Value r) =
     map_ok Value (and_then (clone_by ops r l) (\<lambda>l'. value_divide ops l' r))"
| "divide_literal ops l (StringRef _) = unreachable"

fun divide_value ::
  "('v, 'x) value_ops \<Rightarrow> 'v \<Rightarrow> 'v evaluated \<Rightarrow> ('v evaluated, 'x error) fallible" where
  "divide_value ops l (LiteralRef r) =
     map_ok Value (and_then (clone_by ops l r) (\<lambda>r'. value_divide ops l r'))"
| "divide_value ops l (Literal r) =
     map_ok Value (and_then (clone_by ops l r) (\<lambda>r'. value_divide ops l r'))"
| "divide_value ops l (ValueRef r) = map_ok Value (value_divide ops l r)"
| "divide_value ops l (Value r) = map_ok Value (value_divide ops l r)"
| "divide_value ops l (StringRef _) = unreachable"

fun divide_evaluated ::
  "('v, 'x) value_ops \<Rightarrow> 'v evaluated \<Rightarrow> 'v evaluated \<Rightarrow> ('v evaluated, 'x error) fallible" where
  "divide_evaluated ops (LiteralRef l) other = divide_literal ops l other"
| "divide_evaluated ops (Literal l) other = divide_literal ops l other"
| "divide_evaluated ops (ValueRef l) other = divide_value ops l other"
| "divide_evaluated ops (Value l) other = divide_value ops l other"
| "divide_evaluated ops (StringRef _) other = unreachable"

fun arith_spec ::
  "('v, 'x) value_ops \<Rightarrow> (AstValue \<Rightarrow> AstValue \<Rightarrow> (AstValue, 'x error) fallible) \<Rightarrow>
   ('v \<Rightarrow> 'v \<Rightarrow> ('v, 'x error) fallible) \<Rightarrow> 'v operand \<Rightarrow> 'v operand \<Rightarrow>
   ('v evaluated, 'x error) fallible" where
  "arith_spec ops lop vop (Untyped l) (Untyped r) = map_ok Literal (lop l r)"
| "arith_spec ops lop vop (Untyped l) (Typed r) =
     map_ok Value (and_then (clone_by ops r l) (\<lambda>l'. vop l' r))"
| "arith_spec ops lop vop (Typed l) (Untyped r) =
     map_ok Value (and_then (clone_by ops l r) (\<lambda>r'. vop l r'))"
| "arith_spec ops lop vop (Typed l) (Typed r) = map_ok Value (vop l r)"
| "arith_spec ops lop vop _ _ = unreachable"

definition overflows :: "(int \<Rightarrow> int \<Rightarrow> int) \<Rightarrow> 'v evaluated \<Rightarrow> 'v evaluated \<Rightarrow> bool" where
  "overflows f a b =
     (case (classify a, classify b) of
        (Untyped l, Untyped r) \<Rightarrow>
          (case (literal_value l, literal_value r) of
             (Some x, Some y) \<Rightarrow> \<not> in_i64 (f (sint x) (sint y))
           | _ \<Rightarrow> False)
      | _ \<Rightarrow> False)"

section \<open>The operations refine the coercion scheme\<close>

lemma subtract_arith_spec:
  "subtract ops m a b =
     arith_spec ops (literal_subtract m) (value_subtract ops) (classify a) (classify b)"
  by (cases a; cases b) simp_all

lemma multiply_arith_spec:
  "multiply ops m a b =
     arith_spec ops (literal_multiply m) (value_multiply ops) (classify a) (classify b)"
  by (cases a; cases b) simp_all

lemma divide_arith_spec:
  "divide_evaluated ops a b =
     arith_spec ops literal_divide (value_divide ops) (classify a) (classify b)"
  by (cases a; cases b) simp_all

lemma add_arith_spec:
  "add_commutative ops \<Longrightarrow>
   add ops m a b = arith_spec ops (literal_add m) (value_add ops) (classify a) (classify b)"
  by (cases a; cases b) (simp_all add: add_commutativeD [of ops])

lemma add_Untyped_Typed:
  "classify a = Untyped l \<Longrightarrow> classify b = Typed r \<Longrightarrow>
   add ops m a b = map_ok Value (and_then (clone_by ops r l) (\<lambda>l'. value_add ops r l'))"
  by (cases a; cases b) simp_all

section \<open>Outcomes of the coercion scheme\<close>

lemma arith_spec_Text [simp]:
  "arith_spec ops lop vop (Text s) y = unreachable"
  "arith_spec ops lop vop x (Text s) = unreachable"
  by (cases x; simp)+

lemma arith_spec_owned:
  "arith_spec ops lop vop x y = Done (Ok r) \<Longrightarrow> is_Literal r \<or> is_Value r"
  by (cases "(ops, lop, vop, x, y)" rule: arith_spec.cases)
     (auto simp: outcome_simps unreachable_def)

lemma arith_spec_narrowest:
  "arith_spec ops lop vop (classify a) (classify b) = Done (Ok r) \<Longrightarrow>
   (if (is_LiteralRef a \<or> is_Literal a) \<and> (is_LiteralRef b \<or> is_Literal b)
    then is_Literal r else is_Value r)"
  by (cases a; cases b) (auto simp: outcome_simps unreachable_def)

lemma add_narrowest:
  "add ops m a b = Done (Ok r) \<Longrightarrow>
   (if (is_LiteralRef a \<or> is_Literal a) \<and> (is_LiteralRef b \<or> is_Literal b)
    then is_Literal r else is_Value r)"
  by (cases a; cases b) (auto simp: outcome_simps unreachable_def)

lemma add_owned: "add ops m a b = Done (Ok r) \<Longrightarrow> is_Literal r \<or> is_Value r"
  by (drule add_narrowest) (simp split: if_splits)

lemma arith_spec_StringRef:
  "is_StringRef a \<or> is_StringRef b \<Longrightarrow>
   arith_spec ops lop vop (classify a) (classify b) = unreachable"
  by (cases a; cases b) simp_all

lemma add_left_class: "classify a = classify a' \<Longrightarrow> add ops m a b = add ops m a' b"
  by (cases a; cases a') auto

lemma add_right_class: "classify b = classify b' \<Longrightarrow> add ops m a b = add ops m a b'"
  by (cases a; cases b; cases b') auto

lemma add_StringRef:
  "is_StringRef a \<or> is_StringRef b \<Longrightarrow> add ops m a b = unreachable"
  by (cases a; cases b) simp_all

lemma add_Untyped:
  "classify a = Untyped l \<Longrightarrow> classify b = Untyped r \<Longrightarrow>
   add ops m a b = map_ok Literal (literal_add m l r)"
  by (cases a; cases b) simp_all

lemma add_clone_by_Err:
  "(classify a = Untyped l \<and> classify b = Typed v) \<or>
   (classify a = Typed v \<and> classify b = Untyped l) \<Longrightarrow>
   clone_by ops v l = Done (Err e) \<Longrightarrow> add ops m a b = Done (Err e)"
  by (cases a; cases b) auto

lemma arith_spec_clone_by_Err:
  "(x = Untyped l \<and> y = Typed v) \<or> (x = Typed v \<and> y = Untyped l) \<Longrightarrow>
   clone_by ops v l = Done (Err e) \<Longrightarrow> arith_spec ops lop vop x y = Done (Err e)"
  by auto

lemmas arith_specs = subtract_arith_spec multiply_arith_spec divide_arith_spec

section \<open>Commutativity\<close>

lemma add_mixed_commutes:
  "classify a = Untyped l \<Longrightarrow> classify b = Typed v \<Longrightarrow> add ops m a b = add ops m b a"
  by (cases a; cases b) simp_all

lemma add_commutes: "add_commutative ops \<Longrightarrow> add ops m a b = add ops m b a"
  by (cases a; cases b)
     (simp_all add: add_commutativeD [of ops] literal_add_commute [of m])

lemma multiply_commutes: "mul_commutative ops \<Longrightarrow> multiply ops m a b = multiply ops m b a"
  by (cases a; cases b)
     (simp_all add: mul_commutativeD [of ops] literal_multiply_commute [of m])

section \<open>The two overflow modes\<close>

lemmas mode_simps =
  overflows_def map_ok_inject inj_def literal_arith_eq_iff i64_modes

lemma add_modes_iff: "add ops Checked a b = add ops Wrapping a b \<longleftrightarrow> \<not> overflows (+) a b"
  by (cases a; cases b) (auto simp: mode_simps literal_add_arith split: option.splits)

lemma subtract_modes_iff:
  "subtract ops Checked a b = subtract ops Wrapping a b \<longleftrightarrow> \<not> overflows (-) a b"
  by (cases a; cases b) (auto simp: mode_simps literal_subtract_arith split: option.splits)

lemma multiply_modes_iff:
  "multiply ops Checked a b = multiply ops Wrapping a b \<longleftrightarrow> \<not> overflows (*) a b"
  by (cases a; cases b) (auto simp: mode_simps literal_multiply_arith split: option.splits)

lemma overflows_Panic:
  "overflows (+) a b \<Longrightarrow> add ops Checked a b = Panic ArithmeticOverflow"
  "overflows (-) a b \<Longrightarrow> subtract ops Checked a b = Panic ArithmeticOverflow"
  "overflows (*) a b \<Longrightarrow> multiply ops Checked a b = Panic ArithmeticOverflow"
  by (cases a; cases b;
      auto simp: overflows_def literal_op_arith literal_arith_values i64_checked_defs checked_def
        split: option.splits)+

section \<open>Properties\<close>

text \<open>
  C3 (a string operand is an invariant fault).  Each of the four operations fails with
  \<^verbatim>\<open>UnreachableEvaluatedArithmetic\<close> whenever its left or its right operand is a
  borrowed string, whatever the other operand is; nothing is computed.
\<close>

theorem string_operand_unreachable:
  "is_StringRef a \<or> is_StringRef b \<Longrightarrow>
   add ops m a b = Done (Err (Evaluate UnreachableEvaluatedArithmetic)) \<and>
   subtract ops m a b = Done (Err (Evaluate UnreachableEvaluatedArithmetic)) \<and>
   multiply ops m a b = Done (Err (Evaluate UnreachableEvaluatedArithmetic)) \<and>
   divide_evaluated ops a b = Done (Err (Evaluate UnreachableEvaluatedArithmetic))"
  by (auto simp: add_StringRef arith_specs arith_spec_StringRef unreachable_def)

theorem string_operand_unreachable_witness:
  "add sql_ops Checked (LiteralRef (Number ''1'')) (StringRef ''2'') =
     Done (Err (Evaluate UnreachableEvaluatedArithmetic)) \<and>
   divide_evaluated sql_ops (StringRef ''6'') (Value (I64 3)) =
     Done (Err (Evaluate UnreachableEvaluatedArithmetic))"
  using string_operand_unreachable [of "LiteralRef (Number ''1'')" "StringRef ''2''" sql_ops Checked]
    string_operand_unreachable [of "StringRef ''6''" "Value (I64 3)" sql_ops Checked]
  by simp

text \<open>
  C4 (results are owned, in the narrowest representation).  Whenever one of the four
  operations returns \<^verbatim>\<open>Ok\<close>, the result is owned: an owned literal when both
  operands are literals, borrowed or owned, and an owned typed value in every other
  case.  Arithmetic never hands back a borrowed variant or a string, and builds a typed
  value only when an operand is one.
\<close>

theorem arithmetic_result_owned:
  "add ops m a b = Done (Ok r) \<or> subtract ops m a b = Done (Ok r) \<or>
   multiply ops m a b = Done (Ok r) \<or> divide_evaluated ops a b = Done (Ok r) \<Longrightarrow>
   (if (is_LiteralRef a \<or> is_Literal a) \<and> (is_LiteralRef b \<or> is_Literal b)
    then is_Literal r else is_Value r)"
  unfolding arith_specs by (elim disjE) (erule add_narrowest arith_spec_narrowest)+

theorem arithmetic_result_owned_witness:
  "add sql_ops Checked (LiteralRef (Number ''2'')) (ValueRef (I64 3)) = Done (Ok (Value (I64 5))) \<and>
   is_Value (Value (I64 5) :: sql_value evaluated) \<and>
   multiply sql_ops Checked (LiteralRef (Number ''2'')) (Literal (Number ''3'')) =
     Done (Ok (Literal (Number ''6''))) \<and>
   is_Literal (Literal (Number ''6'') :: sql_value evaluated)"
proof -
  have h: "add sql_ops Checked (LiteralRef (Number ''2'')) (ValueRef (I64 3)) = Done (Ok (Value (I64 5)))"
    by (simp add: i64_defs exact_def)
  have k: "multiply sql_ops Checked (LiteralRef (Number ''2'')) (Literal (Number ''3'')) =
      Done (Ok (Literal (Number ''6'')))"
    by (simp add: i64_defs string_of_nat.simps)
  from h k arithmetic_result_owned [of sql_ops Checked _ _ "Value (I64 5)", OF disjI1, OF h]
    arithmetic_result_owned [of sql_ops Checked _ _ "Literal (Number ''6'')", OF disjI2, OF disjI2,
      OF disjI1, OF k]
  show ?thesis by simp
qed

text \<open>
  C5 (subtraction refines the coercion scheme).  \<^verbatim>\<open>subtract\<close> is the specification's
  scheme applied to the classes of its operands: two literals go to \<^verbatim>\<open>literal_subtract\<close>,
  a literal beside a typed value is first rebuilt in the type of its peer by
  \<^verbatim>\<open>clone_by\<close>, and the typed subtraction receives the operands left to right.
\<close>

theorem subtract_refines_spec:
  "subtract ops m a b =
     arith_spec ops (literal_subtract m) (value_subtract ops) (classify a) (classify b)"
  by (rule subtract_arith_spec)

text \<open>
  C6 (multiplication refines the coercion scheme).  \<^verbatim>\<open>multiply\<close> is the scheme with
  \<^verbatim>\<open>literal_multiply\<close> and the typed multiplication, operands left to right.
\<close>

theorem multiply_refines_spec:
  "multiply ops m a b =
     arith_spec ops (literal_multiply m) (value_multiply ops) (classify a) (classify b)"
  by (rule multiply_arith_spec)

text \<open>
  C7 (division refines the coercion scheme).  \<^verbatim>\<open>divide\<close> is the scheme with
  \<^verbatim>\<open>literal_divide\<close> and the typed division, dividend left and divisor right.
\<close>

theorem divide_refines_spec:
  "divide_evaluated ops a b =
     arith_spec ops literal_divide (value_divide ops) (classify a) (classify b)"
  by (rule divide_arith_spec)

text \<open>
  C8 (addition refines the coercion scheme when the typed addition commutes).  For a
  literal on the left and a typed value on the right \<^verbatim>\<open>add\<close> calls the typed addition
  with the typed value first and the coerced literal second; if the domain's addition is
  commutative this is the scheme's left-to-right call, and \<^verbatim>\<open>add\<close> refines the scheme.
\<close>

theorem add_refines_spec:
  "add_commutative ops \<Longrightarrow>
   add ops m a b = arith_spec ops (literal_add m) (value_add ops) (classify a) (classify b)"
  by (rule add_arith_spec)

theorem add_refines_spec_witness:
  "add_commutative sql_ops \<and>
   add sql_ops Checked (Literal (Number ''2'')) (ValueRef (I64 3)) =
     arith_spec sql_ops (literal_add Checked) (value_add sql_ops)
       (Untyped (Number ''2'')) (Typed (I64 3))"
  using add_refines_spec [OF sql_add_commutative, of Checked "Literal (Number ''2'')" "ValueRef (I64 3)"]
  by (simp add: sql_add_commutative)

text \<open>
  Literal operands stay literal.  When both operands are literals, borrowed or
  owned, each operation is the literal operation on their payloads wrapped as an owned
  literal: the typed domain is never called and no typed value is built.
\<close>

theorem literal_operands_stay_literal:
  "classify a = Untyped l \<Longrightarrow> classify b = Untyped r \<Longrightarrow>
   add ops m a b = map_ok Literal (literal_add m l r) \<and>
   subtract ops m a b = map_ok Literal (literal_subtract m l r) \<and>
   multiply ops m a b = map_ok Literal (literal_multiply m l r) \<and>
   divide_evaluated ops a b = map_ok Literal (literal_divide l r)"
  by (simp add: add_Untyped arith_specs)

theorem literal_operands_stay_literal_witness:
  "subtract sql_ops Checked (LiteralRef (Number ''2'')) (Literal (Number ''3'')) =
     Done (Ok (Literal (Number ''-1'')))"
  using literal_operands_stay_literal [of "LiteralRef (Number ''2'')" "Number ''2''"
      "Literal (Number ''3'')" "Number ''3''" sql_ops Checked]
  by (simp add: i64_defs string_of_nat.simps)

text \<open>
  A failed coercion reaches the caller.  When one operand is a literal and the
  other a typed value, and \<^verbatim>\<open>clone_by\<close> cannot build a value of the peer's type from
  the literal, each operation returns that error unchanged and the typed operation is
  not called.
\<close>

theorem coercion_error_propagates:
  "(classify a = Untyped l \<and> classify b = Typed v) \<or>
   (classify a = Typed v \<and> classify b = Untyped l) \<Longrightarrow>
   clone_by ops v l = Done (Err e) \<Longrightarrow>
   add ops m a b = Done (Err e) \<and> subtract ops m a b = Done (Err e) \<and>
   multiply ops m a b = Done (Err e) \<and> divide_evaluated ops a b = Done (Err e)"
  by (simp add: add_clone_by_Err arith_spec_clone_by_Err arith_specs)

theorem coercion_error_propagates_witness:
  "clone_by sql_ops (I64 1) (Number ''1.5'') = Done (Err (Other FailedToParseNumber)) \<and>
   multiply sql_ops Checked (ValueRef (I64 1)) (LiteralRef (Number ''1.5'')) =
     Done (Err (Other FailedToParseNumber))"
proof -
  have h: "clone_by sql_ops (I64 1) (Number ''1.5'') = Done (Err (Other FailedToParseNumber))"
    by (simp add: i64_defs)
  from h coercion_error_propagates [of "ValueRef (I64 1)" "Number ''1.5''"
      "LiteralRef (Number ''1.5'')" "I64 1" sql_ops _ Checked, OF _ h]
  show ?thesis by simp
qed

text \<open>
  Ownership does not matter to arithmetic.  The outcome of each operation depends
  only on the class and payload of its operands: replacing a borrowed operand by the
  owned variant with the same payload, or the reverse, changes nothing.
\<close>

theorem ownership_irrelevant:
  "classify a = classify a' \<Longrightarrow> classify b = classify b' \<Longrightarrow>
   add ops m a b = add ops m a' b' \<and> subtract ops m a b = subtract ops m a' b' \<and>
   multiply ops m a b = multiply ops m a' b' \<and>
   divide_evaluated ops a b = divide_evaluated ops a' b'"
  by (simp add: arith_specs add_left_class [of a a'] add_right_class [of b b'])

theorem ownership_irrelevant_witness:
  "add sql_ops Checked (LiteralRef (Number ''2'')) (ValueRef (I64 3)) =
   add sql_ops Checked (Literal (Number ''2'')) (Value (I64 3))"
  using ownership_irrelevant [of "LiteralRef (Number ''2'')" "Literal (Number ''2'')"
      "ValueRef (I64 3)" "Value (I64 3)" sql_ops Checked]
  by simp

text \<open>
  Operand order of a coerced addition.  For a literal on the left and a typed
  value on the right, \<^verbatim>\<open>add\<close> calls the typed addition with the typed right operand
  as receiver and the coerced left literal as argument, whereas \<^verbatim>\<open>subtract\<close> (like
  \<^verbatim>\<open>multiply\<close> and \<^verbatim>\<open>divide\<close>) calls it with the coerced literal as receiver.
\<close>

theorem add_operand_order:
  "classify a = Untyped l \<Longrightarrow> classify b = Typed r \<Longrightarrow>
   add ops m a b = map_ok Value (and_then (clone_by ops r l) (\<lambda>l'. value_add ops r l')) \<and>
   subtract ops m a b =
     map_ok Value (and_then (clone_by ops r l) (\<lambda>l'. value_subtract ops l' r))"
  by (simp add: add_Untyped_Typed arith_specs)

theorem add_operand_order_witness:
  "add sql_ops Checked (LiteralRef (Number ''2'')) (Value (I64 3)) =
     map_ok Value (and_then (clone_by sql_ops (I64 3) (Number ''2''))
       (\<lambda>l'. value_add sql_ops (I64 3) l'))"
  using add_operand_order [of "LiteralRef (Number ''2'')" "Number ''2''" "Value (I64 3)" "I64 3"
      sql_ops Checked]
  by simp

text \<open>
  C31 (what the overflow checks change).  The build with overflow checks and the build
  without give the same outcome for \<^verbatim>\<open>add\<close>, \<^verbatim>\<open>subtract\<close> and \<^verbatim>\<open>multiply\<close> on every
  pair of operands, except where both operands are numeric literals whose integer
  result leaves the range of \<^verbatim>\<open>i64\<close>: there the checked build panics with an
  arithmetic overflow and the unchecked build returns.
\<close>

theorem overflow_checks_differ_on_overflow:
  "(add ops Checked a b = add ops Wrapping a b \<longleftrightarrow> \<not> overflows (+) a b) \<and>
   (subtract ops Checked a b = subtract ops Wrapping a b \<longleftrightarrow> \<not> overflows (-) a b) \<and>
   (multiply ops Checked a b = multiply ops Wrapping a b \<longleftrightarrow> \<not> overflows (*) a b) \<and>
   (overflows (+) a b \<longrightarrow> add ops Checked a b = Panic ArithmeticOverflow) \<and>
   (overflows (-) a b \<longrightarrow> subtract ops Checked a b = Panic ArithmeticOverflow) \<and>
   (overflows (*) a b \<longrightarrow> multiply ops Checked a b = Panic ArithmeticOverflow)"
  by (simp add: add_modes_iff subtract_modes_iff multiply_modes_iff overflows_Panic)

theorem overflow_checks_differ_on_overflow_witness:
  "overflows (+) (LiteralRef (Number ''9223372036854775807'') :: sql_value evaluated)
     (Literal (Number ''1'')) \<and>
   add sql_ops Checked (LiteralRef (Number ''9223372036854775807'')) (Literal (Number ''1'')) =
     Panic ArithmeticOverflow \<and>
   add sql_ops Wrapping (LiteralRef (Number ''9223372036854775807'')) (Literal (Number ''1'')) =
     Done (Ok (Literal (Number ''-9223372036854775808'')))"
  using overflow_checks_differ_on_overflow [of sql_ops
      "LiteralRef (Number ''9223372036854775807'')" "Literal (Number ''1'')"]
  by (simp add: overflows_def i64_defs string_of_nat.simps)

text \<open>
  C37 (addition and multiplication commute).  If the typed addition is commutative,
  \<^verbatim>\<open>a.add(b)\<close> and \<^verbatim>\<open>b.add(a)\<close> have the same outcome for every pair of operands, and
  likewise \<^verbatim>\<open>multiply\<close> if the typed multiplication is commutative: literal arithmetic
  commutes on \<^verbatim>\<open>i64\<close> in both overflow modes, and a literal beside a typed value is
  coerced by the same typed value in either order.
\<close>

theorem arithmetic_commutes:
  "add_commutative ops \<Longrightarrow> mul_commutative ops \<Longrightarrow>
   add ops m a b = add ops m b a \<and> multiply ops m a b = multiply ops m b a"
  by (simp add: add_commutes multiply_commutes)

theorem arithmetic_commutes_witness:
  "add_commutative sql_ops \<and> mul_commutative sql_ops \<and>
   multiply sql_ops Checked (LiteralRef (Number ''3'')) (ValueRef (I64 5)) =
   multiply sql_ops Checked (ValueRef (I64 5)) (LiteralRef (Number ''3'')) \<and>
   multiply sql_ops Checked (ValueRef (I64 5)) (LiteralRef (Number ''3'')) =
     Done (Ok (Value (I64 15)))"
  using arithmetic_commutes [OF sql_add_commutative sql_mul_commutative, of Checked
      "LiteralRef (Number ''3'')" "ValueRef (I64 5)"]
  by (simp add: sql_add_commutative sql_mul_commutative i64_defs exact_def)

end
