(* ===== verification/Contract.thy ===== *)
theory Contract
  imports Arithmetic
begin

text \<open>
  The contracts of the traits that \<^verbatim>\<open>src/executor/evaluate/evaluated.rs\<close> implements,
  checked against the model.  Rust asks of \<^verbatim>\<open>PartialEq\<close> that \<^verbatim>\<open>==\<close> be symmetric and
  transitive, and of \<^verbatim>\<open>PartialOrd\<close> that \<^verbatim>\<open>partial_cmp\<close> be transitive and return
  \<^verbatim>\<open>Some(Equal)\<close> exactly where \<^verbatim>\<open>==\<close> holds.  Symmetry is shown in \<open>Evaluated\<close>; this
  theory shows where the other laws hold (among borrowed literals and strings, and
  among literals in the canonical decimal form that literal arithmetic produces) and
  where they fail (through a typed value that equals two spellings of a number, through
  a text value).  It also relates arithmetic to comparison: every result of literal
  arithmetic is an owned literal, which the comparisons refuse, and an operation with a
  typed operand panics only if the typed domain does.  \<open>canonical\<close>, \<open>untyped\<close>,
  \<open>text_literal\<close> and \<open>panic_free\<close> are predicates of the specification, not code.
\<close>

section \<open>Definitions\<close>

fun canonical :: "AstValue \<Rightarrow> bool" where
  "canonical (Number s) = (case parse_i64 s of Some w \<Rightarrow> to_string w = s | None \<Rightarrow> False)"
| "canonical (SingleQuotedString s) = True"
| "canonical _ = False"

fun text_literal :: "'v evaluated \<Rightarrow> AstValue option" where
  "text_literal (LiteralRef l) = Some l"
| "text_literal (StringRef s) = Some (SingleQuotedString s)"
| "text_literal _ = None"

definition untyped :: "'v evaluated \<Rightarrow> bool" where
  "untyped a = (is_LiteralRef a \<or> is_StringRef a)"

definition panic_free :: "('v, 'x) value_ops \<Rightarrow> bool" where
  "panic_free ops \<longleftrightarrow>
     (\<forall>v l p. clone_by ops v l \<noteq> Panic p) \<and>
     (\<forall>a b p. value_add ops a b \<noteq> Panic p \<and> value_subtract ops a b \<noteq> Panic p \<and>
        value_multiply ops a b \<noteq> Panic p \<and> value_divide ops a b \<noteq> Panic p)"

section \<open>Canonical literals\<close>

lemma canonical_Number_iff: "canonical (Number s) \<longleftrightarrow> (\<exists>w. s = to_string w)"
  by (auto split: option.splits)

lemma canonical_to_string [simp]: "canonical (Number (to_string w))"
  by simp

lemma canonical_cases [consumes 1, case_names Number Text]:
  assumes "canonical l"
  obtains w where "l = Number (to_string w)" | s where "l = SingleQuotedString s"
  using assms by (cases l) (auto split: option.splits)

lemma literal_partial_cmp_canonical:
  "canonical l \<Longrightarrow> canonical r \<Longrightarrow> literal_partial_cmp l r = Some Equal \<longleftrightarrow> l = r"
  by (elim canonical_cases) (auto simp: i64_cmp_Equal_iff)

section \<open>The literal order is transitive\<close>

lemma i64_cmp_trans:
  "i64_cmp a b = ord \<Longrightarrow> i64_cmp b c = ord \<Longrightarrow> i64_cmp a c = ord"
  by (cases ord) (auto simp: i64_cmp_def)

lemma cmp_trans: "cmp a b = ord \<Longrightarrow> cmp b c = ord \<Longrightarrow> cmp a c = ord"
  by (cases ord) auto

lemma literal_partial_cmp_trans:
  "literal_partial_cmp a b = Some ord \<Longrightarrow> literal_partial_cmp b c = Some ord \<Longrightarrow>
   literal_partial_cmp a c = Some ord"
  by (cases a; cases b; cases c) (auto split: option.splits intro: i64_cmp_trans cmp_trans)

section \<open>Borrowed literals and strings\<close>

lemma untyped_cases [consumes 1, case_names LiteralRef StringRef]:
  assumes "untyped a"
  obtains l where "a = LiteralRef l" | s where "a = StringRef s"
  using assms by (cases a) (auto simp: untyped_def)

lemma eq_untyped:
  "untyped a \<Longrightarrow> untyped b \<Longrightarrow> eq ops a b = Done (text_literal a = text_literal b)"
  by (elim untyped_cases) auto

lemma partial_cmp_untyped_trans:
  "untyped a \<Longrightarrow> untyped b \<Longrightarrow> untyped c \<Longrightarrow>
   partial_cmp ops a b = Done (Some ord) \<Longrightarrow> partial_cmp ops b c = Done (Some ord) \<Longrightarrow>
   partial_cmp ops a c = Done (Some ord)"
  by (elim untyped_cases) (auto intro: literal_partial_cmp_trans cmp_trans)

lemma partial_cmp_not_transitive:
  "as_str ops v = Some t \<Longrightarrow> s < t \<Longrightarrow>
   value_partial_cmp_literal ops v (SingleQuotedString u) = Some Less \<Longrightarrow>
   partial_cmp ops (StringRef s) (ValueRef v) = Done (Some Less) \<and>
   partial_cmp ops (ValueRef v) (LiteralRef (SingleQuotedString u)) = Done (Some Less) \<and>
   partial_cmp ops (StringRef s) (LiteralRef (SingleQuotedString u)) = Done None"
  by simp

lemma partial_cmp_not_transitive_sql:
  "partial_cmp sql_ops (StringRef ''a'') (ValueRef (Str ''b'')) = Done (Some Less) \<and>
   partial_cmp sql_ops (ValueRef (Str ''b'')) (LiteralRef (SingleQuotedString ''c'')) =
     Done (Some Less) \<and>
   partial_cmp sql_ops (StringRef ''a'') (LiteralRef (SingleQuotedString ''c'')) = Done None"
  using partial_cmp_not_transitive [of sql_ops "Str ''b''" "''b''" "''a''" "''c''"]
  by (simp add: cmp_def)

section \<open>Results of literal arithmetic\<close>

lemma literal_arith_canonical:
  "literal_arith f a b = Done (Ok r) \<Longrightarrow> canonical r"
  by (auto simp: literal_arith_Ok_iff)

lemma arith_spec_Literal:
  "arith_spec ops lop vop x y = Done (Ok (Literal r)) \<Longrightarrow>
   \<exists>l l'. x = Untyped l \<and> y = Untyped l' \<and> lop l l' = Done (Ok r)"
  by (cases "(ops, lop, vop, x, y)" rule: arith_spec.cases)
     (auto simp: outcome_simps unreachable_def)

lemma add_Literal:
  fixes ops :: "('v, 'x) value_ops"
  shows "add ops m a b = Done (Ok (Literal r)) \<Longrightarrow>
   \<exists>l l'. classify a = Untyped l \<and> classify b = Untyped l' \<and>
     (literal_add m l l' :: (AstValue, 'x error) fallible) = Done (Ok r)"
  by (cases a; cases b) (auto simp: outcome_simps unreachable_def)

lemma arith_Untyped_owned:
  "arith_spec ops lop vop (Untyped l) (Untyped r) = Done (Ok x) \<Longrightarrow> is_Literal x"
  by (auto simp: outcome_simps)

section \<open>Panic freedom\<close>

lemma panic_freeD:
  assumes "panic_free ops"
  shows "clone_by ops v l \<noteq> Panic p" "value_add ops a b \<noteq> Panic p"
    "value_subtract ops a b \<noteq> Panic p" "value_multiply ops a b \<noteq> Panic p"
    "value_divide ops a b \<noteq> Panic p"
  using assms unfolding panic_free_def by blast+

lemma arith_spec_Panic_iff:
  assumes "\<And>v l p. clone_by ops v l \<noteq> Panic p" "\<And>a b p. vop a b \<noteq> Panic p"
  shows "arith_spec ops lop vop x y = Panic p \<longleftrightarrow>
     (\<exists>l r. x = Untyped l \<and> y = Untyped r \<and> lop l r = Panic p)"
  using assms
  by (cases "(ops, lop, vop, x, y)" rule: arith_spec.cases)
     (auto simp: outcome_simps unreachable_def)

lemma add_Panic_iff:
  fixes ops :: "('v, 'x) value_ops"
  shows "panic_free ops \<Longrightarrow>
   add ops m a b = Panic p \<longleftrightarrow>
     (\<exists>l r. classify a = Untyped l \<and> classify b = Untyped r \<and>
        (literal_add m l r :: (AstValue, 'x error) fallible) = Panic p)"
  by (cases a; cases b) (auto simp: outcome_simps unreachable_def dest: panic_freeD)

lemma sql_panic_free: "panic_free sql_ops"
  unfolding panic_free_def
proof (intro conjI allI)
  fix v l p show "clone_by sql_ops v l \<noteq> Panic p"
    by (cases "(v, l)" rule: sql_clone_by.cases) (auto split: option.splits)
next
  fix a b p show "value_add sql_ops a b \<noteq> Panic p"
    by (cases "(a, b)" rule: sql_add.cases) (auto simp: exact_def)
next
  fix a b p show "value_subtract sql_ops a b \<noteq> Panic p"
    by (cases "(a, b)" rule: sql_subtract.cases) (auto simp: exact_def)
next
  fix a b p show "value_multiply sql_ops a b \<noteq> Panic p"
    by (cases "(a, b)" rule: sql_multiply.cases) (auto simp: exact_def)
next
  fix a b p show "value_divide sql_ops a b \<noteq> Panic p"
    by (cases "(a, b)" rule: sql_divide.cases) (auto simp: exact_def)
qed

section \<open>Properties\<close>

text \<open>
  C30 (equality is not transitive).  When a typed value equals two numeric literals
  with different text, as a typed integer equals every spelling of its value, each
  literal equals the typed value and the two literals are unequal to each other:
  \<^verbatim>\<open>a == b\<close> and \<^verbatim>\<open>b == c\<close> hold and \<^verbatim>\<open>a == c\<close> does not.
\<close>

theorem eq_not_transitive:
  "value_eq_literal ops v (Number l) \<Longrightarrow> value_eq_literal ops v (Number r) \<Longrightarrow> l \<noteq> r \<Longrightarrow>
   eq ops (LiteralRef (Number l)) (ValueRef v) = Done True \<and>
   eq ops (ValueRef v) (LiteralRef (Number r)) = Done True \<and>
   eq ops (LiteralRef (Number l)) (LiteralRef (Number r)) = Done False"
  by simp

theorem eq_not_transitive_witness:
  "eq sql_ops (LiteralRef (Number ''7'')) (ValueRef (I64 7)) = Done True \<and>
   eq sql_ops (ValueRef (I64 7)) (LiteralRef (Number ''+7'')) = Done True \<and>
   eq sql_ops (LiteralRef (Number ''7'')) (LiteralRef (Number ''+7'')) = Done False"
  using eq_not_transitive [of sql_ops "I64 7" "''7''" "''+7''"]
  by (simp add: i64_defs)

text \<open>
  C33 (a result of literal arithmetic cannot be compared).  Whatever one of the four
  operations returns for two literal operands is an owned literal, so ordering it
  against any value, on either side, panics, and testing it for equality panics unless
  the other side is a borrowed typed value or a borrowed string; it is not even equal
  to itself.
\<close>

theorem literal_result_not_comparable:
  "classify a = Untyped l \<Longrightarrow> classify b = Untyped r \<Longrightarrow>
   add ops m a b = Done (Ok x) \<or> subtract ops m a b = Done (Ok x) \<or>
   multiply ops m a b = Done (Ok x) \<or> divide_evaluated ops a b = Done (Ok x) \<Longrightarrow>
   partial_cmp ops x c = Panic ExplicitPanic \<and> partial_cmp ops c x = Panic ExplicitPanic \<and>
   eq ops x x = Panic ExplicitPanic \<and>
   (eq ops x c = Panic ExplicitPanic \<longleftrightarrow> \<not> is_ValueRef c \<and> \<not> is_StringRef c)"
proof -
  assume "classify a = Untyped l" "classify b = Untyped r"
    and "add ops m a b = Done (Ok x) \<or> subtract ops m a b = Done (Ok x) \<or>
      multiply ops m a b = Done (Ok x) \<or> divide_evaluated ops a b = Done (Ok x)"
  then obtain y where "x = Literal y"
    by (auto simp: add_Untyped arith_specs outcome_simps)
  then show ?thesis
    by (cases c) simp_all
qed

theorem literal_result_not_comparable_witness:
  "add sql_ops Checked (LiteralRef (Number ''1'')) (LiteralRef (Number ''1'')) =
     Done (Ok (Literal (Number ''2''))) \<and>
   eq sql_ops (Literal (Number ''2'')) (LiteralRef (Number ''2'')) = Panic ExplicitPanic \<and>
   partial_cmp sql_ops (Literal (Number ''2'')) (ValueRef (I64 2)) = Panic ExplicitPanic"
proof -
  have h: "add sql_ops Checked (LiteralRef (Number ''1'')) (LiteralRef (Number ''1'')) =
      Done (Ok (Literal (Number ''2'')))"
    by (simp add: i64_defs string_of_nat.simps)
  from literal_result_not_comparable [OF _ _ disjI1, OF _ _ h, of "Number ''1''" "Number ''1''"]
  show ?thesis
    using h by simp
qed

text \<open>
  Equality and ordering agree on canonical literals.  On borrowed literals that
  are single-quoted strings or numbers in canonical decimal form (the form every
  result of literal arithmetic has), \<^verbatim>\<open>a == b\<close> holds exactly when
  \<^verbatim>\<open>a.partial_cmp(b)\<close> is \<^verbatim>\<open>Some(Equal)\<close>, as the contract of \<^verbatim>\<open>PartialOrd\<close> asks.
\<close>

theorem canonical_literals_consistent:
  "canonical l \<Longrightarrow> canonical r \<Longrightarrow>
   eq ops (LiteralRef l) (LiteralRef r) = Done True \<longleftrightarrow>
   partial_cmp ops (LiteralRef l) (LiteralRef r) = Done (Some Equal)"
  by (elim canonical_cases) (auto simp: i64_cmp_Equal_iff)

theorem canonical_literals_consistent_witness:
  "canonical (Number ''-12'') \<and> \<not> canonical (Number ''012'') \<and>
   eq sql_ops (LiteralRef (Number ''-12'')) (LiteralRef (Number ''-12'')) = Done True \<and>
   partial_cmp sql_ops (LiteralRef (Number ''-12'')) (LiteralRef (Number ''-12'')) =
     Done (Some Equal)"
proof -
  have c: "canonical (Number ''-12'')"
    by (simp add: i64_defs string_of_nat.simps)
  from canonical_literals_consistent [OF c c, of sql_ops] c show ?thesis
    by (simp add: i64_defs string_of_nat.simps)
qed

text \<open>
  C35 (the comparisons are transitive on borrowed literals and strings).  Among
  borrowed literals and borrowed strings, \<^verbatim>\<open>==\<close> is transitive, and so is each of the
  three results of \<^verbatim>\<open>partial_cmp\<close>: if \<^verbatim>\<open>a\<close> against \<^verbatim>\<open>b\<close> and \<^verbatim>\<open>b\<close> against \<^verbatim>\<open>c\<close>
  give the same ordering, \<^verbatim>\<open>a\<close> against \<^verbatim>\<open>c\<close> gives it too.
\<close>

theorem borrowed_comparisons_transitive:
  "untyped a \<Longrightarrow> untyped b \<Longrightarrow> untyped c \<Longrightarrow>
   (eq ops a b = Done True \<and> eq ops b c = Done True \<longrightarrow> eq ops a c = Done True) \<and>
   (partial_cmp ops a b = Done (Some ord) \<and> partial_cmp ops b c = Done (Some ord) \<longrightarrow>
      partial_cmp ops a c = Done (Some ord))"
  by (auto simp: eq_untyped intro: partial_cmp_untyped_trans)

theorem borrowed_comparisons_transitive_witness:
  "partial_cmp sql_ops (LiteralRef (Number ''1'')) (LiteralRef (Number ''2'')) = Done (Some Less) \<and>
   partial_cmp sql_ops (LiteralRef (Number ''2'')) (LiteralRef (Number ''10'')) = Done (Some Less) \<and>
   partial_cmp sql_ops (LiteralRef (Number ''1'')) (LiteralRef (Number ''10'')) = Done (Some Less)"
  using borrowed_comparisons_transitive [of "LiteralRef (Number ''1'')" "LiteralRef (Number ''2'')"
      "LiteralRef (Number ''10'')" sql_ops Less]
  by (simp add: untyped_def i64_defs cmp_def)

text \<open>
  C40 (arithmetic with a typed operand returns).  If no operation of the typed domain
  panics, then each of the four operations returns, with a value or with an error
  value, whenever at least one operand is not a literal: the only panics of arithmetic
  are those of literal arithmetic.
\<close>

theorem typed_arithmetic_returns:
  "panic_free ops \<Longrightarrow> \<not> (\<exists>l r. classify a = Untyped l \<and> classify b = Untyped r) \<Longrightarrow>
   (\<exists>r. add ops m a b = Done r) \<and> (\<exists>r. subtract ops m a b = Done r) \<and>
   (\<exists>r. multiply ops m a b = Done r) \<and> (\<exists>r. divide_evaluated ops a b = Done r)"
proof -
  assume pf: "panic_free ops"
    and nl: "\<not> (\<exists>l r. classify a = Untyped l \<and> classify b = Untyped r)"
  have "add ops m a b \<noteq> Panic p" for p
    using pf nl by (auto simp: add_Panic_iff)
  moreover have "arith_spec ops lop vop (classify a) (classify b) \<noteq> Panic p"
    if "\<And>a b p. vop a b \<noteq> Panic p" for lop vop p
    using nl that panic_freeD(1) [OF pf] by (auto simp: arith_spec_Panic_iff)
  ultimately show ?thesis
    by (simp add: arith_specs panic_freeD [OF pf] flip: not_Panic_iff)
qed

theorem typed_arithmetic_returns_witness:
  "panic_free sql_ops \<and>
   add sql_ops Checked (ValueRef (I64 (- 1))) (LiteralRef (Number ''x'')) =
     Done (Err (Other FailedToParseNumber)) \<and>
   divide_evaluated sql_ops (LiteralRef (Number ''1'')) (Value (I64 0)) =
     Done (Err (Other DivisorIsZero))"
  using typed_arithmetic_returns [OF sql_panic_free, of "ValueRef (I64 (- 1))"
      "LiteralRef (Number ''x'')" Checked]
  by (simp add: sql_panic_free i64_defs)

end
