(* ===== verification/Expression.thy ===== *)
theory Expression
  imports Contract
begin

text \<open>
  How the evaluator drives \<^verbatim>\<open>src/executor/evaluate/evaluated.rs\<close>, as the specification
  describes it: each leaf of an expression becomes a borrowed value (a literal of the
  statement, a value of the row, a quoted text), and each operator node evaluates its
  left operand, then its right operand, and combines the two results with \<^verbatim>\<open>add\<close>,
  \<^verbatim>\<open>subtract\<close>, \<^verbatim>\<open>multiply\<close> or \<^verbatim>\<open>divide\<close>; an error or a panic of an operand ends
  the evaluation.  The evaluator itself is outside the file, so \<open>expr\<close>, \<open>binary_op\<close>
  and \<open>evaluate\<close> are written from the specification; the operations they call are the
  modelled code.  \<open>iexpr\<close> and \<open>ieval\<close> are the reference semantics: arithmetic on
  \<^verbatim>\<open>i64\<close> in the overflow mode of the build, and \<open>abs_expr\<close> reads an expression whose
  leaves are all numeric literals as such an integer expression (\<open>present\<close> is the
  value \<open>evaluate\<close> returns for it: the borrowed literal at a leaf, an owned literal
  printing the integer at an operator; \<open>div_free\<close> says that no division occurs).
  The lemmas show that \<open>evaluate\<close> on literal expressions is the reference semantics
  printed back as a literal, by induction on the expression, that it returns in the
  unchecked build when no division occurs, and that the two builds differ only by an
  overflow panic of the checked one.
\<close>

section \<open>Definitions\<close>

datatype binary_operator = Plus | Minus | Multiply | Divide

datatype 'v expr =
    Lit AstValue
  | Col 'v
  | Txt string
  | BinaryOp "'v expr" binary_operator "'v expr"

fun binary_op ::
  "('v, 'x) value_ops \<Rightarrow> overflow_mode \<Rightarrow> binary_operator \<Rightarrow> 'v evaluated \<Rightarrow> 'v evaluated \<Rightarrow>
   ('v evaluated, 'x error) fallible" where
  "binary_op ops m Plus l r = add ops m l r"
| "binary_op ops m Minus l r = subtract ops m l r"
| "binary_op ops m Multiply l r = multiply ops m l r"
| "binary_op ops m Divide l r = divide_evaluated ops l r"

primrec evaluate ::
  "('v, 'x) value_ops \<Rightarrow> overflow_mode \<Rightarrow> 'v expr \<Rightarrow> ('v evaluated, 'x error) fallible" where
  "evaluate ops m (Lit l) = Done (Ok (LiteralRef l))"
| "evaluate ops m (Col v) = Done (Ok (ValueRef v))"
| "evaluate ops m (Txt s) = Done (Ok (StringRef s))"
| "evaluate ops m (BinaryOp l op r) =
     and_then (evaluate ops m l) (\<lambda>l'.
     and_then (evaluate ops m r) (\<lambda>r'. binary_op ops m op l' r'))"

datatype iexpr = Const i64 | Op iexpr binary_operator iexpr

fun i64_op :: "overflow_mode \<Rightarrow> binary_operator \<Rightarrow> i64 \<Rightarrow> i64 \<Rightarrow> i64 exec" where
  "i64_op m Plus a b = i64_add m a b"
| "i64_op m Minus a b = i64_sub m a b"
| "i64_op m Multiply a b = i64_mul m a b"
| "i64_op m Divide a b = i64_div a b"

primrec ieval :: "overflow_mode \<Rightarrow> iexpr \<Rightarrow> i64 exec" where
  "ieval m (Const w) = Done w"
| "ieval m (Op l op r) =
     bind_exec (ieval m l) (\<lambda>a. bind_exec (ieval m r) (\<lambda>b. i64_op m op a b))"

primrec abs_expr :: "'v expr \<Rightarrow> iexpr option" where
  "abs_expr (Lit l) = map_option Const (literal_value l)"
| "abs_expr (Col v) = None"
| "abs_expr (Txt s) = None"
| "abs_expr (BinaryOp l op r) =
     (case (abs_expr l, abs_expr r) of
        (Some l', Some r') \<Rightarrow> Some (Op l' op r')
      | _ \<Rightarrow> None)"

primrec present :: "'v expr \<Rightarrow> i64 \<Rightarrow> 'v evaluated" where
  "present (Lit l) w = LiteralRef l"
| "present (Col v) w = ValueRef v"
| "present (Txt s) w = StringRef s"
| "present (BinaryOp l op r) w = Literal (Number (to_string w))"

primrec div_free :: "iexpr \<Rightarrow> bool" where
  "div_free (Const w) = True"
| "div_free (Op l op r) = (op \<noteq> Divide \<and> div_free l \<and> div_free r)"

section \<open>One operator on two literals\<close>

lemma literal_op_value:
  "classify a = Untyped l \<Longrightarrow> classify b = Untyped r \<Longrightarrow>
   literal_value l = Some x \<Longrightarrow> literal_value r = Some y \<Longrightarrow>
   binary_op ops m op a b =
     map_exec (\<lambda>c. Ok (Literal (Number (to_string c)))) (i64_op m op x y)"
  by (cases op)
     (simp_all add: add_Untyped arith_specs literal_op_arith literal_arith_values)

section \<open>Evaluation of literal expressions\<close>

lemma present_value:
  "abs_expr e = Some ie \<Longrightarrow> ieval m ie = Done w \<Longrightarrow>
   \<exists>l. classify (present e w) = Untyped l \<and> literal_value l = Some w"
  by (cases e) (auto split: option.splits)

lemma evaluate_abs_expr:
  "abs_expr e = Some ie \<Longrightarrow>
   evaluate ops m e = map_exec (\<lambda>w. Ok (present e w)) (ieval m ie)"
proof (induction e arbitrary: ie)
  case (BinaryOp l op r)
  then obtain il ir where abs: "abs_expr l = Some il" "abs_expr r = Some ir"
    and ie: "ie = Op il op ir"
    by (auto split: option.splits)
  have step: "binary_op ops m op (present l a) (present r b) =
      map_exec (\<lambda>c. Ok (Literal (Number (to_string c)))) (i64_op m op a b)"
    if "ieval m il = Done a" "ieval m ir = Done b" for a b
    using present_value [OF abs(1) that(1)] present_value [OF abs(2) that(2)]
    by (auto intro: literal_op_value)
  show ?case
    using step
    by (cases "ieval m il"; cases "ieval m ir")
       (simp_all add: ie BinaryOp.IH(1) [OF abs(1)] BinaryOp.IH(2) [OF abs(2)])
qed auto

lemma ieval_Wrapping_returns: "div_free ie \<Longrightarrow> \<exists>w. ieval Wrapping ie = Done w"
proof (induction ie)
  case (Op l op r)
  then obtain a b where "ieval Wrapping l = Done a" "ieval Wrapping r = Done b"
    by auto
  with Op.prems show ?case
    by (cases op) (simp_all add: i64_checked_defs)
qed simp

lemma evaluate_Wrapping_returns:
  "abs_expr e = Some ie \<Longrightarrow> div_free ie \<Longrightarrow>
   \<exists>w. evaluate ops Wrapping e = Done (Ok (present e w)) \<and> ieval Wrapping ie = Done w"
  using ieval_Wrapping_returns [of ie] by (auto simp: evaluate_abs_expr)

lemma binary_op_modes:
  "binary_op ops Checked op a b \<noteq> Panic ArithmeticOverflow \<Longrightarrow>
   binary_op ops Checked op a b = binary_op ops Wrapping op a b"
  using overflows_Panic [of a b ops]
  by (cases op) (auto simp: add_modes_iff subtract_modes_iff multiply_modes_iff)

lemma evaluate_modes:
  "evaluate ops Checked e = evaluate ops Wrapping e \<or>
   evaluate ops Checked e = Panic ArithmeticOverflow"
proof (induction e)
  case (BinaryOp l op r)
  then show ?case
    by (cases "evaluate ops Wrapping l" rule: fallible_cases;
        cases "evaluate ops Wrapping r" rule: fallible_cases)
       (auto intro: binary_op_modes)
qed simp_all

section \<open>Properties\<close>

text \<open>
  C29 (literal expressions evaluate to their integer value).  An expression built from
  operators over numeric literals that parse as \<^verbatim>\<open>i64\<close> evaluates as the integer
  expression it denotes: it panics where the integer arithmetic of the build panics
  (overflow, division by zero, leftmost first), and otherwise returns the owned literal
  that prints the integer result; the typed domain is never consulted.
\<close>

theorem evaluate_literal_expression:
  "abs_expr (BinaryOp l op r) = Some ie \<Longrightarrow>
   evaluate ops m (BinaryOp l op r) =
     map_exec (\<lambda>w. Ok (Literal (Number (to_string w)))) (ieval m ie)"
  using evaluate_abs_expr [of "BinaryOp l op r" ie ops m] by simp

theorem evaluate_literal_expression_witness:
  "evaluate sql_ops Checked
     (BinaryOp (Lit (Number ''1'')) Plus (BinaryOp (Lit (Number ''2'')) Multiply (Lit (Number ''3'')))) =
     Done (Ok (Literal (Number ''7''))) \<and>
   evaluate sql_ops Checked
     (BinaryOp (Lit (Number ''1'')) Divide (BinaryOp (Lit (Number ''2'')) Minus (Lit (Number ''2'')))) =
     Panic DivisionByZero"
proof -
  have a: "abs_expr (BinaryOp (Lit (Number ''1'')) Plus
        (BinaryOp (Lit (Number ''2'')) Multiply (Lit (Number ''3''))) :: sql_value expr) =
      Some (Op (Const 1) Plus (Op (Const 2) Multiply (Const 3)))"
    and b: "abs_expr (BinaryOp (Lit (Number ''1'')) Divide
        (BinaryOp (Lit (Number ''2'')) Minus (Lit (Number ''2''))) :: sql_value expr) =
      Some (Op (Const 1) Divide (Op (Const 2) Minus (Const 2)))"
    by (simp_all add: i64_defs)
  from evaluate_literal_expression [OF a, of sql_ops Checked]
    evaluate_literal_expression [OF b, of sql_ops Checked]
  show ?thesis
    by (simp add: i64_defs string_of_nat.simps)
qed

end
