(* ===== verification/Exactness.thy ===== *)
theory Exactness
  imports Expression
begin

text \<open>
  What the literal arithmetic of \<^verbatim>\<open>src/executor/evaluate/evaluated.rs\<close> computes, measured
  against the integers.  \<open>zval\<close> is the value of an integer expression in \<open>\<int>\<close>, with
  division truncating towards zero and undefined for a zero divisor; it knows nothing
  of 64 bits.  The lemmas show, by induction on the expression, that the build with
  overflow checks returns only this exact value (it panics rather than return another),
  and that the build without overflow checks always returns on an expression without
  division, with the exact value reduced modulo \<open>2\<^sup>6\<^sup>4\<close>; so the unchecked build inherits
  the ring laws of the integers, which the checked build does not.
\<close>

section \<open>Definitions\<close>

fun int_op :: "binary_operator \<Rightarrow> int \<Rightarrow> int \<Rightarrow> int option" where
  "int_op Plus a b = Some (a + b)"
| "int_op Minus a b = Some (a - b)"
| "int_op Multiply a b = Some (a * b)"
| "int_op Divide a b = (if b = 0 then None else Some (a sdiv b))"

primrec zval :: "iexpr \<Rightarrow> int option" where
  "zval (Const w) = Some (sint w)"
| "zval (Op l op r) =
     (case (zval l, zval r) of
        (Some a, Some b) \<Rightarrow> int_op op a b
      | _ \<Rightarrow> None)"

primrec bounded :: "iexpr \<Rightarrow> bool" where
  "bounded (Const w) = True"
| "bounded (Op l op r) =
     (bounded l \<and> bounded r \<and>
      (case zval (Op l op r) of Some z \<Rightarrow> in_i64 z | None \<Rightarrow> False))"

section \<open>The checked build is exact\<close>

lemma sint_neq_neg_MIN: "sint (c :: i64) \<noteq> - I64_MIN"
  using sint_in_i64 [of c] unfolding in_i64_def I64_MIN_def I64_MAX_def by linarith

lemma i64_div_Done_exact:
  "i64_div a b = Done c \<longleftrightarrow>
     b \<noteq> 0 \<and> in_i64 (sint a sdiv sint b) \<and> sint c = sint a sdiv sint b"
proof (cases "sint a = I64_MIN \<and> sint b = - 1")
  case True
  then show ?thesis
    using sint_neq_neg_MIN [of c] by (auto simp: i64_div_Done_iff)
next
  case False
  then have "in_i64 (sint a sdiv sint b)"
    by (intro sdiv_in_i64) simp_all
  with False show ?thesis
    by (auto simp: i64_div_Done_iff)
qed

lemma i64_op_Checked_iff:
  "i64_op Checked op a b = Done c \<longleftrightarrow>
     (\<exists>z. int_op op (sint a) (sint b) = Some z \<and> in_i64 z \<and> sint c = z)"
  by (cases op)
     (auto simp: i64_checked_defs checked_Checked_sint i64_div_Done_exact sint_eq_0_iff)

lemma bounded_in_i64: "bounded ie \<Longrightarrow> zval ie = Some z \<Longrightarrow> in_i64 z"
  by (cases ie) auto

lemma ieval_Checked_iff:
  "ieval Checked ie = Done w \<longleftrightarrow> bounded ie \<and> zval ie = Some (sint w)"
proof (induction ie arbitrary: w)
  case (Const v)
  show ?case by (auto simp: sint_eq_iff)
next
  case (Op l op r)
  show ?case
  proof
    assume "ieval Checked (Op l op r) = Done w"
    then obtain a b where "ieval Checked l = Done a" "ieval Checked r = Done b"
      "i64_op Checked op a b = Done w"
      by (auto simp: bind_exec_eq_Done_iff)
    with Op.IH(1) [of a] Op.IH(2) [of b]
    show "bounded (Op l op r) \<and> zval (Op l op r) = Some (sint w)"
      by (auto simp: i64_op_Checked_iff)
  next
    assume b: "bounded (Op l op r) \<and> zval (Op l op r) = Some (sint w)"
    then obtain x y where xy: "zval l = Some x" "zval r = Some y"
      "int_op op x y = Some (sint w)"
      by (auto split: option.splits)
    with b have "in_i64 x" "in_i64 y"
      by (auto intro: bounded_in_i64)
    then have "sint (word_of_int x :: i64) = x" "sint (word_of_int y :: i64) = y"
      by (simp_all add: sint_word_of_int_i64)
    with b xy Op.IH(1) [of "word_of_int x"] Op.IH(2) [of "word_of_int y"]
    show "ieval Checked (Op l op r) = Done w"
      by (simp add: i64_op_Checked_iff)
  qed
qed

lemma ieval_Checked_exact: "ieval Checked ie = Done w \<Longrightarrow> zval ie = Some (sint w)"
  by (simp add: ieval_Checked_iff)

lemma ieval_Checked_unbounded: "\<not> bounded ie \<Longrightarrow> \<exists>p. ieval Checked ie = Panic p"
  by (cases "ieval Checked ie") (simp_all add: ieval_Checked_iff)

section \<open>The unchecked build is exact modulo \<open>2\<^sup>6\<^sup>4\<close>\<close>

lemma i64_op_Wrapping_mod:
  "op \<noteq> Divide \<Longrightarrow>
   \<exists>z. int_op op (sint a) (sint b) = Some z \<and> i64_op Wrapping op a b = Done (word_of_int z)"
  by (cases op) (simp_all add: i64_checked_defs)

lemma word_of_int_cong_op:
  assumes "op \<noteq> Divide" "int_op op x y = Some z"
  shows "int_op op (sint (word_of_int x :: i64)) (sint (word_of_int y :: i64)) = Some z' \<Longrightarrow>
     (word_of_int z' :: i64) = word_of_int z"
  using assms by (cases op) (auto simp: wi_hom_syms)

lemma ieval_Wrapping_mod:
  "div_free ie \<Longrightarrow> \<exists>z. zval ie = Some z \<and> ieval Wrapping ie = Done (word_of_int z)"
proof (induction ie)
  case (Const w)
  then show ?case by simp
next
  case (Op l op r)
  then obtain x y where l: "zval l = Some x" "ieval Wrapping l = Done (word_of_int x)"
    and r: "zval r = Some y" "ieval Wrapping r = Done (word_of_int y)"
    by auto
  from Op.prems have nd: "op \<noteq> Divide" by simp
  then obtain z where z: "int_op op x y = Some z" by (cases op) auto
  from i64_op_Wrapping_mod [OF nd, of "word_of_int x" "word_of_int y"] obtain z' where
    z': "int_op op (sint (word_of_int x :: i64)) (sint (word_of_int y :: i64)) = Some z'"
    "i64_op Wrapping op (word_of_int x) (word_of_int y) = Done (word_of_int z')"
    by blast
  from word_of_int_cong_op [OF nd z z'(1)] z z'(2) l r show ?case
    by simp
qed

lemma ieval_Wrapping_zval_cong:
  assumes "div_free a" "div_free b" "zval a = zval b"
  shows "ieval Wrapping a = ieval Wrapping b"
  using ieval_Wrapping_mod [OF assms(1)] ieval_Wrapping_mod [OF assms(2)] assms(3) by auto

lemma zval_div_free: "div_free ie \<Longrightarrow> \<exists>z. zval ie = Some z"
  using ieval_Wrapping_mod by blast

lemma unchecked_ring_laws:
  assumes "div_free a" "div_free b" "div_free c"
  shows "ieval Wrapping (Op (Op a Plus b) Plus c) = ieval Wrapping (Op a Plus (Op b Plus c))"
    and "ieval Wrapping (Op (Op a Multiply b) Multiply c) =
      ieval Wrapping (Op a Multiply (Op b Multiply c))"
    and "ieval Wrapping (Op a Multiply (Op b Plus c)) =
      ieval Wrapping (Op (Op a Multiply b) Plus (Op a Multiply c))"
proof -
  from assms obtain x y z where "zval a = Some x" "zval b = Some y" "zval c = Some z"
    by (blast dest: zval_div_free)
  with assms show
    "ieval Wrapping (Op (Op a Plus b) Plus c) = ieval Wrapping (Op a Plus (Op b Plus c))"
    "ieval Wrapping (Op (Op a Multiply b) Multiply c) =
      ieval Wrapping (Op a Multiply (Op b Multiply c))"
    "ieval Wrapping (Op a Multiply (Op b Plus c)) =
      ieval Wrapping (Op (Op a Multiply b) Plus (Op a Multiply c))"
    by (simp_all add: ieval_Wrapping_zval_cong algebra_simps del: ieval.simps)
qed

lemma checked_not_associative:
  "ieval Checked (Op (Op (Const 9223372036854775807) Plus (Const 1)) Plus (Const (- 1))) =
     Panic ArithmeticOverflow"
  "ieval Checked (Op (Const 9223372036854775807) Plus (Op (Const 1) Plus (Const (- 1)))) =
     Done 9223372036854775807"
  by (simp_all add: i64_defs)

section \<open>Properties\<close>

text \<open>
  C14 (the checked build returns exactly the exact results).  Built with overflow
  checks, the evaluation of an operator expression over numeric literals returns if and
  only if the value of every operator in it is defined in the integers (no zero
  divisor) and lies in the range of \<^verbatim>\<open>i64\<close>; it then returns the owned literal that
  prints the value of the expression in the integers.  In every other case it panics:
  it never returns a wrapped or a different number.
\<close>

theorem checked_evaluation_exact:
  "abs_expr (BinaryOp l op r) = Some ie \<Longrightarrow>
   evaluate ops Checked (BinaryOp l op r) = Done res \<longleftrightarrow>
     bounded ie \<and> (\<exists>w. zval ie = Some (sint w) \<and> res = Ok (Literal (Number (to_string w))))"
proof -
  assume a: "abs_expr (BinaryOp l op r) = Some ie"
  show ?thesis
    unfolding evaluate_abs_expr [OF a] using ieval_Checked_iff [of ie]
    by (cases "ieval Checked ie") (auto simp: sint_eq_iff)
qed

theorem checked_evaluation_exact_witness:
  "bounded (Op (Op (Const 7) Minus (Const 10)) Divide (Const 2)) \<and>
   zval (Op (Op (Const 7) Minus (Const 10)) Divide (Const 2)) = Some (- 1) \<and>
   evaluate sql_ops Checked
     (BinaryOp (BinaryOp (Lit (Number ''7'')) Minus (Lit (Number ''10''))) Divide (Lit (Number ''2''))) =
     Done (Ok (Literal (Number ''-1'')))"
proof -
  let ?e = "BinaryOp (BinaryOp (Lit (Number ''7'')) Minus (Lit (Number ''10''))) Divide
    (Lit (Number ''2'')) :: sql_value expr"
  let ?ie = "Op (Op (Const 7) Minus (Const 10)) Divide (Const 2)"
  have a: "abs_expr ?e = Some ?ie"
    by (simp add: i64_defs)
  have b: "bounded ?ie"
    by (simp add: in_i64_def I64_MIN_def I64_MAX_def)
  have z: "zval ?ie = Some (sint (- 1 :: i64))" "zval ?ie = Some (- 1)"
    by simp_all
  have t: "to_string (- 1 :: i64) = ''-1''"
    by (simp add: i64_defs string_of_nat.simps)
  from checked_evaluation_exact [OF a, of sql_ops "Ok (Literal (Number (to_string (- 1 :: i64))))"]
    b z(1)
  have "evaluate sql_ops Checked ?e = Done (Ok (Literal (Number (to_string (- 1 :: i64)))))"
    by blast
  with b z(2) t show ?thesis
    by simp
qed

text \<open>
  C36 (the unchecked build always returns on expressions without division).  Built
  without overflow checks, the evaluation of an operator expression over numeric
  literals in which no division occurs always returns, and what it returns is the owned
  literal printing the value of the expression in the integers reduced modulo
  \<open>2\<^sup>6\<^sup>4\<close> into the range of \<^verbatim>\<open>i64\<close>.
\<close>

theorem unchecked_evaluation_returns:
  "abs_expr (BinaryOp l op r) = Some ie \<Longrightarrow> div_free ie \<Longrightarrow>
   \<exists>z. zval ie = Some z \<and>
     evaluate ops Wrapping (BinaryOp l op r) =
       Done (Ok (Literal (Number (to_string (word_of_int z :: i64)))))"
proof -
  assume a: "abs_expr (BinaryOp l op r) = Some ie" and d: "div_free ie"
  from ieval_Wrapping_mod [OF d] obtain z where
    z: "zval ie = Some z" "ieval Wrapping ie = Done (word_of_int z)"
    by blast
  then show ?thesis
    unfolding evaluate_abs_expr [OF a] by simp
qed

theorem unchecked_evaluation_returns_witness:
  "zval (Op (Op (Const 9223372036854775807) Plus (Const 1)) Minus (Const 1)) =
     Some 9223372036854775807 \<and>
   evaluate sql_ops Wrapping
     (BinaryOp (BinaryOp (Lit (Number ''9223372036854775807'')) Plus (Lit (Number ''1'')))
        Minus (Lit (Number ''1''))) =
     Done (Ok (Literal (Number ''9223372036854775807''))) \<and>
   evaluate sql_ops Checked
     (BinaryOp (BinaryOp (Lit (Number ''9223372036854775807'')) Plus (Lit (Number ''1'')))
        Minus (Lit (Number ''1''))) = Panic ArithmeticOverflow"
proof -
  let ?e = "BinaryOp (BinaryOp (Lit (Number ''9223372036854775807'')) Plus (Lit (Number ''1'')))
        Minus (Lit (Number ''1'')) :: sql_value expr"
  let ?ie = "Op (Op (Const 9223372036854775807) Plus (Const 1)) Minus (Const 1)"
  have a: "abs_expr ?e = Some ?ie"
    by (simp add: i64_defs)
  have d: "div_free ?ie"
    by simp
  have z: "zval ?ie = Some 9223372036854775807"
    by simp
  have c: "evaluate sql_ops Checked ?e = Panic ArithmeticOverflow"
    by (simp add: i64_defs)
  from unchecked_evaluation_returns [OF a d, of sql_ops] z
  have "evaluate sql_ops Wrapping ?e =
      Done (Ok (Literal (Number (to_string (word_of_int 9223372036854775807 :: i64)))))"
    by simp
  moreover have "to_string (word_of_int 9223372036854775807 :: i64) = ''9223372036854775807''"
    by (simp add: i64_defs string_of_nat.simps)
  ultimately show ?thesis
    using z c by simp
qed

end
