(* ===== verification/Uniform.thy ===== *)
theory Uniform
  imports Expression
begin

text \<open>
  The coercion of literals by the mixed arms of \<^verbatim>\<open>add\<close>, \<^verbatim>\<open>subtract\<close>, \<^verbatim>\<open>multiply\<close> and
  \<^verbatim>\<open>divide\<close> in \<^verbatim>\<open>src/executor/evaluate/evaluated.rs\<close>, followed through a whole
  expression, for any typed domain.  An operator with a literal on one side and a typed
  value on the other calls \<^verbatim>\<open>clone_by\<close> on the typed value to turn the literal into a
  value of the type of its peer, anew at every operator and with whatever typed value
  stands on the other side.  The client theorem needs to know that this does not depend
  on the peer: \<open>coerces ops D c\<close> is that law of a domain, for a set \<open>D\<close> of its
  values (one type of the domain) and a reading \<open>c\<close> of literals into \<open>D\<close>: on a
  peer in \<open>D\<close>, \<^verbatim>\<open>clone_by\<close> returns what \<open>c\<close> reads, and the four operations stay
  in \<open>D\<close>.  \<open>materialise_by\<close> applies \<open>c\<close> once and for all to the literal
  leaves; \<open>coercible_in\<close> describes the expressions on which the two agree (leaves
  in \<open>D\<close> or readable by \<open>c\<close>, a typed leaf below every operator); \<open>results_in\<close>
  says that an evaluation returns values of \<open>D\<close> only.  The reference domain discharges
  the law twice, for its integers (\<open>is_i64\<close>, \<open>coerce_i64\<close>) and for its texts
  (\<open>is_str\<close>, \<open>coerce_str\<close>).
\<close>

section \<open>Definitions\<close>

primrec has_col :: "'v expr \<Rightarrow> bool" where
  "has_col (Lit l) = False"
| "has_col (Col v) = True"
| "has_col (Txt s) = False"
| "has_col (BinaryOp l op r) = (has_col l \<or> has_col r)"

definition coerces ::
  "('v, 'x) value_ops \<Rightarrow> ('v \<Rightarrow> bool) \<Rightarrow> (AstValue \<Rightarrow> 'v option) \<Rightarrow> bool" where
  "coerces ops D c \<longleftrightarrow>
     (\<forall>l w. c l = Some w \<longrightarrow> D w) \<and>
     (\<forall>v l w. D v \<longrightarrow> c l = Some w \<longrightarrow> clone_by ops v l = Done (Ok w)) \<and>
     (\<forall>a b r. D a \<longrightarrow> D b \<longrightarrow>
        (value_add ops a b = Done (Ok r) \<longrightarrow> D r) \<and>
        (value_subtract ops a b = Done (Ok r) \<longrightarrow> D r) \<and>
        (value_multiply ops a b = Done (Ok r) \<longrightarrow> D r) \<and>
        (value_divide ops a b = Done (Ok r) \<longrightarrow> D r))"

primrec coercible_in :: "('v \<Rightarrow> bool) \<Rightarrow> (AstValue \<Rightarrow> 'v option) \<Rightarrow> 'v expr \<Rightarrow> bool" where
  "coercible_in D c (Lit l) = (c l \<noteq> None)"
| "coercible_in D c (Col v) = D v"
| "coercible_in D c (Txt s) = False"
| "coercible_in D c (BinaryOp l op r) =
     (coercible_in D c l \<and> coercible_in D c r \<and> (has_col l \<or> has_col r))"

primrec materialise_by :: "(AstValue \<Rightarrow> 'v option) \<Rightarrow> 'v expr \<Rightarrow> 'v expr" where
  "materialise_by c (Lit l) = (case c l of Some w \<Rightarrow> Col w | None \<Rightarrow> Lit l)"
| "materialise_by c (Col v) = Col v"
| "materialise_by c (Txt s) = Txt s"
| "materialise_by c (BinaryOp l op r) = BinaryOp (materialise_by c l) op (materialise_by c r)"

definition results_in :: "('v \<Rightarrow> bool) \<Rightarrow> ('v evaluated, 'x error) fallible \<Rightarrow> bool" where
  "results_in D r \<longleftrightarrow> (\<forall>x. r = Done (Ok x) \<longrightarrow> (\<exists>w. classify x = Typed w \<and> D w))"

fun is_i64 :: "sql_value \<Rightarrow> bool" where
  "is_i64 (I64 w) = True"
| "is_i64 _ = False"

definition coerce_i64 :: "AstValue \<Rightarrow> sql_value option" where
  "coerce_i64 l = map_option I64 (literal_value l)"

fun is_str :: "sql_value \<Rightarrow> bool" where
  "is_str (Str s) = True"
| "is_str _ = False"

fun coerce_str :: "AstValue \<Rightarrow> sql_value option" where
  "coerce_str (SingleQuotedString s) = Some (Str s)"
| "coerce_str _ = None"

section \<open>Using the law\<close>

lemma coerces_clone_by:
  "coerces ops D c \<Longrightarrow> D v \<Longrightarrow> c l = Some w \<Longrightarrow> clone_by ops v l = Done (Ok w)"
  unfolding coerces_def by blast

lemma coerces_read: "coerces ops D c \<Longrightarrow> c l = Some w \<Longrightarrow> D w"
  unfolding coerces_def by blast

lemma coerces_closed:
  assumes "coerces ops D c" "D a" "D b"
  shows "value_add ops a b = Done (Ok r) \<Longrightarrow> D r"
    and "value_subtract ops a b = Done (Ok r) \<Longrightarrow> D r"
    and "value_multiply ops a b = Done (Ok r) \<Longrightarrow> D r"
    and "value_divide ops a b = Done (Ok r) \<Longrightarrow> D r"
  using assms unfolding coerces_def by blast+

section \<open>One operator\<close>

lemma classify_Typed_cases [consumes 1, case_names ValueRef Value]:
  assumes "classify x = Typed v"
  obtains "x = ValueRef v" | "x = Value v"
  using assms by (cases x) auto

lemma classify_Typed_not_Literal: "classify x = Typed v \<Longrightarrow> is_Literal x = False"
  by (cases x) simp_all

lemma binary_op_coerce_right:
  assumes "coerces ops D c" "classify x = Typed v" "D v" "c l = Some w"
  shows "binary_op ops m op x (LiteralRef l) = binary_op ops m op x (ValueRef w)"
  using assms(2) coerces_clone_by [OF assms(1,3,4)]
  by (cases op; elim classify_Typed_cases) simp_all

lemma binary_op_coerce_left:
  assumes "coerces ops D c" "add_commutative ops" "classify x = Typed v" "D v" "c l = Some w"
  shows "binary_op ops m op (LiteralRef l) x = binary_op ops m op (ValueRef w) x"
  using assms(3) coerces_clone_by [OF assms(1,4,5)]
  by (cases op; elim classify_Typed_cases) (simp_all add: add_commutativeD [OF assms(2)])

lemma binary_op_closed:
  assumes "coerces ops D c" "classify x = Typed a" "D a" "classify y = Typed b" "D b"
    and "binary_op ops m op x y = Done (Ok z)"
  shows "\<exists>r. classify z = Typed r \<and> D r"
  using assms(2,4,6) coerces_closed [OF assms(1,3,5)]
  by (cases op; elim classify_Typed_cases) (auto simp: map_ok_eq_Ok_iff)

section \<open>Evaluation after materialising the literals\<close>

lemma results_in_simps [simp]:
  "results_in D (Panic p)" "results_in D (Done (Err e))"
  "results_in D (Done (Ok x)) \<longleftrightarrow> (\<exists>w. classify x = Typed w \<and> D w)"
  by (simp_all add: results_in_def)

lemma coercible_in_leaf:
  "coercible_in D c e \<Longrightarrow> \<not> has_col e \<Longrightarrow> \<exists>l w. e = Lit l \<and> c l = Some w"
  by (cases e) auto

lemma step_closed:
  "coerces ops D c \<Longrightarrow> results_in D a \<Longrightarrow> results_in D b \<Longrightarrow>
   results_in D (and_then a (\<lambda>x. and_then b (binary_op ops m op x)))"
  by (cases a rule: fallible_cases; cases b rule: fallible_cases)
     (auto simp: results_in_def dest: binary_op_closed)

lemma step_typed_lit:
  "coerces ops D c \<Longrightarrow> results_in D a \<Longrightarrow> c l = Some w \<Longrightarrow>
   and_then a (\<lambda>x. binary_op ops m op x (LiteralRef l)) =
   and_then a (\<lambda>x. binary_op ops m op x (ValueRef w))"
  by (cases a rule: fallible_cases) (auto intro: binary_op_coerce_right)

lemma step_lit_typed:
  "coerces ops D c \<Longrightarrow> add_commutative ops \<Longrightarrow> results_in D b \<Longrightarrow> c l = Some w \<Longrightarrow>
   and_then b (binary_op ops m op (LiteralRef l)) =
   and_then b (binary_op ops m op (ValueRef w))"
  by (cases b rule: fallible_cases) (auto intro: binary_op_coerce_left)

lemma evaluate_materialised_closed:
  assumes "coerces ops D c"
  shows "coercible_in D c e \<Longrightarrow> results_in D (evaluate ops m (materialise_by c e))"
proof (induction e)
  case (Lit l)
  with coerces_read [OF assms] show ?case by auto
next
  case (BinaryOp l op r)
  then show ?case
    by (simp add: step_closed [OF assms])
qed simp_all

lemma evaluate_materialise_by:
  assumes law: "coerces ops D c" "add_commutative ops"
  shows "coercible_in D c e \<Longrightarrow> has_col e \<Longrightarrow>
     evaluate ops m e = evaluate ops m (materialise_by c e)"
proof (induction e)
  case (BinaryOp l op r)
  then have c: "coercible_in D c l" "coercible_in D c r" by simp_all
  note closed = evaluate_materialised_closed [OF law(1) c(1), of m]
    evaluate_materialised_closed [OF law(1) c(2), of m]
  show ?case
  proof (cases "has_col l")
    case l: True
    show ?thesis
    proof (cases "has_col r")
      case True
      with l c BinaryOp.IH show ?thesis by simp
    next
      case False
      with coercible_in_leaf [OF c(2)] obtain lit w where "r = Lit lit" "c lit = Some w"
        by blast
      with l c BinaryOp.IH closed show ?thesis
        by (simp add: step_typed_lit [OF law(1)])
    qed
  next
    case False
    with coercible_in_leaf [OF c(1)] obtain lit w where lit: "l = Lit lit" "c lit = Some w"
      by blast
    from False BinaryOp.prems have "has_col r" by simp
    with lit c BinaryOp.IH closed show ?thesis
      by (simp add: step_lit_typed [OF law])
  qed
qed simp_all

lemma evaluate_results_in:
  assumes "coerces ops D c" "add_commutative ops" "coercible_in D c e" "has_col e"
  shows "results_in D (evaluate ops m e)"
  using evaluate_materialise_by [OF assms, of m] evaluate_materialised_closed [OF assms(1,3), of m]
  by simp

section \<open>The reference domain discharges the law\<close>

lemma coerce_i64_simps [simp]:
  "coerce_i64 l = Some v \<longleftrightarrow> (\<exists>w. literal_value l = Some w \<and> v = I64 w)"
  "coerce_i64 l = None \<longleftrightarrow> literal_value l = None"
  by (auto simp: coerce_i64_def)

lemma is_i64_iff: "is_i64 v \<longleftrightarrow> (\<exists>w. v = I64 w)"
  by (cases v) simp_all

lemma is_str_iff: "is_str v \<longleftrightarrow> (\<exists>s. v = Str s)"
  by (cases v) simp_all

lemma sql_coerces_i64: "coerces sql_ops is_i64 coerce_i64"
  unfolding coerces_def
  by (auto simp: is_i64_iff exact_def literal_value_def split: if_splits AstValue.splits)

lemma sql_coerces_str: "coerces sql_ops is_str coerce_str"
  unfolding coerces_def
  by (auto simp: is_str_iff elim: coerce_str.elims)

lemma text_coercion_is_materialisation:
  "coercible_in is_str coerce_str e \<Longrightarrow> has_col e \<Longrightarrow>
   evaluate sql_ops m e = evaluate sql_ops m (materialise_by coerce_str e)"
  by (rule evaluate_materialise_by [OF sql_coerces_str sql_add_commutative])

lemma text_addition_is_an_error:
  "evaluate sql_ops m (BinaryOp (Col (Str ''a'')) Plus (Lit (SingleQuotedString ''b''))) =
     Done (Err (Other NonNumericOperand))"
  "evaluate sql_ops m (BinaryOp (Col (Str ''a'')) Plus (Col (Str ''b''))) =
     Done (Err (Other NonNumericOperand))"
  by simp_all

lemma case_coerce_i64 [simp]:
  "(case coerce_i64 l of Some v \<Rightarrow> f v | None \<Rightarrow> g) =
   (case literal_value l of Some w \<Rightarrow> f (I64 w) | None \<Rightarrow> g)"
  by (simp add: coerce_i64_def split: option.splits)

section \<open>Properties\<close>

text \<open>
  C25 (coercing literals operand by operand is materialising them up front).  Take a
  typed domain whose addition commutes and in which, on the values of one type,
  \<^verbatim>\<open>clone_by\<close> reads a literal the same way whatever the peer and the four operations
  stay within the type.  Then an expression over values of that type and literals
  readable into it, with a typed leaf below every operator, evaluates in either build to
  exactly what it evaluates to after each literal leaf has been replaced by the value it
  reads as (the same value, the same error value or the same panic), and what it returns
  is a value of that type.
\<close>

theorem coercion_is_materialisation:
  "coerces ops D c \<Longrightarrow> add_commutative ops \<Longrightarrow> coercible_in D c e \<Longrightarrow> has_col e \<Longrightarrow>
   evaluate ops m e = evaluate ops m (materialise_by c e) \<and> results_in D (evaluate ops m e)"
  using evaluate_materialise_by [of ops D c e m] evaluate_results_in [of ops D c e m] by blast

theorem coercion_is_materialisation_witness:
  "evaluate sql_ops Checked
     (BinaryOp (BinaryOp (Lit (Number ''2'')) Multiply (Col (I64 3))) Minus (Lit (Number ''10''))) =
   evaluate sql_ops Checked
     (BinaryOp (BinaryOp (Col (I64 2)) Multiply (Col (I64 3))) Minus (Col (I64 10))) \<and>
   evaluate sql_ops Checked
     (BinaryOp (BinaryOp (Col (I64 2)) Multiply (Col (I64 3))) Minus (Col (I64 10))) =
     Done (Ok (Value (I64 (- 4))))"
proof -
  let ?e = "BinaryOp (BinaryOp (Lit (Number ''2'')) Multiply (Col (I64 3))) Minus
    (Lit (Number ''10''))"
  have c: "coercible_in is_i64 coerce_i64 ?e" and h: "has_col ?e"
    by (simp_all add: i64_defs)
  have m: "materialise_by coerce_i64 ?e =
      BinaryOp (BinaryOp (Col (I64 2)) Multiply (Col (I64 3))) Minus (Col (I64 10))"
    by (simp add: i64_defs)
  have "evaluate sql_ops Checked
      (BinaryOp (BinaryOp (Col (I64 2)) Multiply (Col (I64 3))) Minus (Col (I64 10))) =
      Done (Ok (Value (I64 (- 4))))"
    by (simp add: exact_def i64_defs)
  with coercion_is_materialisation [OF sql_coerces_i64 sql_add_commutative c h, of Checked] m
  show ?thesis
    by simp
qed

end
