(* ===== verification/Coercion.thy ===== *)
theory Coercion
  imports Exactness Uniform
begin

text \<open>
  The coercion of literals followed through a whole expression in the reference domain,
  measured against the integers.  \<open>coercible\<close> and \<open>materialise\<close> are the
  instances of \<open>coercible_in\<close> and \<open>materialise_by\<close> of \<open>Uniform\<close> at the integers
  of the reference domain: integers and parsable numeric literals at the leaves, at
  least one typed leaf below every operator, each literal leaf replaced by the integer it
  parses to.  \<open>typed_results\<close> says that an evaluation, when it returns a value,
  returns a typed integer.  \<open>to_iexpr\<close> reads such an expression as an integer
  expression and \<open>ival\<close> is its value in the integers when the value of every
  operator is defined and in the range of \<^verbatim>\<open>i64\<close>.  The lemmas show that evaluating a
  coercible expression is evaluating its materialised form (the law of \<open>Uniform\<close>,
  discharged by the reference domain), that it returns the typed integer \<open>ival\<close>
  gives and an error value where \<open>ival\<close> gives none, that the build mode does not
  matter to it, and that an operator on two literals breaks the agreement.
\<close>

section \<open>Definitions\<close>

abbreviation coercible :: "sql_value expr \<Rightarrow> bool" where
  "coercible \<equiv> coercible_in is_i64 coerce_i64"

abbreviation materialise :: "sql_value expr \<Rightarrow> sql_value expr" where
  "materialise \<equiv> materialise_by coerce_i64"

primrec to_iexpr :: "sql_value expr \<Rightarrow> iexpr option" where
  "to_iexpr (Lit l) = map_option Const (literal_value l)"
| "to_iexpr (Col v) = (case v of I64 w \<Rightarrow> Some (Const w) | _ \<Rightarrow> None)"
| "to_iexpr (Txt s) = None"
| "to_iexpr (BinaryOp l op r) =
     (case (to_iexpr l, to_iexpr r) of
        (Some l', Some r') \<Rightarrow> Some (Op l' op r')
      | _ \<Rightarrow> None)"

definition ival :: "sql_value expr \<Rightarrow> int option" where
  "ival e = (case to_iexpr e of
               Some ie \<Rightarrow> if bounded ie then zval ie else None
             | None \<Rightarrow> None)"

definition typed_results :: "(sql_value evaluated, 'x error) fallible \<Rightarrow> bool" where
  "typed_results r \<longleftrightarrow> (\<forall>x. r = Done (Ok x) \<longrightarrow> (\<exists>w. classify x = Typed (I64 w)))"

section \<open>One operator in the reference domain\<close>

lemma binary_op_I64:
  "classify x = Typed (I64 a) \<Longrightarrow> classify y = Typed (I64 b) \<Longrightarrow>
   binary_op sql_ops m op x y = Done (Ok z) \<Longrightarrow> \<exists>c. classify z = Typed (I64 c)"
  using binary_op_closed [OF sql_coerces_i64, of x "I64 a" y "I64 b" m op z]
  by (auto simp: is_i64_iff)

section \<open>Evaluation after materialising the literals\<close>

lemma typed_results_simps [simp]:
  "typed_results (Panic p)" "typed_results (Done (Err e))"
  "typed_results (Done (Ok x)) \<longleftrightarrow> (\<exists>w. classify x = Typed (I64 w))"
  by (simp_all add: typed_results_def)

lemma typed_results_eq: "typed_results r \<longleftrightarrow> results_in is_i64 r"
  by (auto simp: typed_results_def results_in_def is_i64_iff)

lemma coercible_leaf:
  "coercible e \<Longrightarrow> \<not> has_col e \<Longrightarrow> \<exists>l w. e = Lit l \<and> literal_value l = Some w"
  by (cases e) auto

lemma step_typed_typed:
  "typed_results a \<Longrightarrow> typed_results b \<Longrightarrow>
   typed_results (and_then a (\<lambda>x. and_then b (binary_op sql_ops m op x)))"
  unfolding typed_results_eq by (rule step_closed [OF sql_coerces_i64])

lemma evaluate_materialise:
  "coercible e \<Longrightarrow> has_col e \<Longrightarrow>
   evaluate sql_ops m e = evaluate sql_ops m (materialise e) \<and>
   typed_results (evaluate sql_ops m e)"
  unfolding typed_results_eq
  using evaluate_materialise_by [OF sql_coerces_i64 sql_add_commutative, of e m]
    evaluate_results_in [OF sql_coerces_i64 sql_add_commutative, of e m]
  by blast

lemma step_returns:
  assumes "typed_results a" "typed_results b" "a = Done ra" "b = Done rb"
  shows "\<exists>r. and_then a (\<lambda>x. and_then b (binary_op sql_ops m op x)) = Done r"
proof (cases ra)
  case (Ok x)
  show ?thesis
  proof (cases rb)
    case ok: (Ok y)
    with Ok assms obtain v w where "classify x = Typed (I64 v)" "classify y = Typed (I64 w)"
      by auto
    then have "\<exists>r. binary_op sql_ops m op x y = Done r"
      by (cases op; elim classify_Typed_cases) (simp_all add: exact_def)
    with Ok ok assms show ?thesis by simp
  qed (use Ok assms in simp)
qed (use assms in simp)

lemma evaluate_materialised_returns:
  "coercible e \<Longrightarrow>
   (\<exists>r. evaluate sql_ops m (materialise e) = Done r) \<and>
   typed_results (evaluate sql_ops m (materialise e))"
proof (induction e)
  case (Lit l)
  then show ?case by auto
next
  case (Col v)
  then show ?case by (cases v) simp_all
next
  case (BinaryOp l op r)
  then obtain ra rb where "evaluate sql_ops m (materialise l) = Done ra"
    "evaluate sql_ops m (materialise r) = Done rb"
    and "typed_results (evaluate sql_ops m (materialise l))"
    "typed_results (evaluate sql_ops m (materialise r))"
    by auto
  then show ?case
    using step_returns [of _ _ ra rb m op] step_typed_typed [of _ _ m op] by simp
qed simp

lemma coercible_returns:
  assumes "coercible e"
  shows "\<exists>x. evaluate sql_ops m e = Done x \<and> (\<forall>y. x = Ok y \<longrightarrow> \<not> is_Literal y)"
proof (cases "has_col e")
  case True
  with assms evaluate_materialise [of e m] evaluate_materialised_returns [of e m]
  show ?thesis by (auto simp: typed_results_def classify_Typed_not_Literal)
next
  case False
  with coercible_leaf [OF assms] show ?thesis by auto
qed

section \<open>Typed arithmetic against the integers\<close>

lemma binary_op_typed:
  "classify x = Typed (I64 a) \<Longrightarrow> classify y = Typed (I64 b) \<Longrightarrow>
   binary_op sql_ops m op x y =
     (case int_op op (sint a) (sint b) of
        None \<Rightarrow> Done (Err (Other DivisorIsZero))
      | Some z \<Rightarrow>
          if in_i64 z then Done (Ok (Value (I64 (word_of_int z))))
          else Done (Err (Other NumericOverflow)))"
  by (cases op; erule classify_Typed_cases; erule classify_Typed_cases)
     (simp_all add: exact_def sint_eq_0_iff)

lemma coercible_to_iexpr: "coercible e \<Longrightarrow> \<exists>ie. to_iexpr e = Some ie"
  by (induction e) (auto split: sql_value.splits)

lemma to_iexpr_materialise: "to_iexpr (materialise e) = to_iexpr e"
  by (induction e) (auto split: option.splits)

lemma ival_Some_iff:
  "ival e = Some z \<longleftrightarrow> (\<exists>ie. to_iexpr e = Some ie \<and> bounded ie \<and> zval ie = Some z)"
  by (auto simp: ival_def split: option.splits)

lemma ival_in_i64: "ival e = Some z \<Longrightarrow> in_i64 z"
  by (auto simp: ival_Some_iff intro: bounded_in_i64)

lemma bounded_zval: "bounded ie \<Longrightarrow> \<exists>z. zval ie = Some z"
  by (cases ie) (auto split: option.splits)

lemma ival_leaves [simp]:
  "ival (Lit l) = map_option sint (literal_value l)"
  "ival (Col (I64 w)) = Some (sint w)"
  "ival (Txt s) = None"
  by (simp_all add: ival_def split: option.splits)

lemma ival_BinaryOp:
  "ival (BinaryOp l op r) =
     (case (ival l, ival r) of
        (Some x, Some y) \<Rightarrow>
          (case int_op op x y of Some z \<Rightarrow> if in_i64 z then Some z else None | None \<Rightarrow> None)
      | _ \<Rightarrow> None)"
proof (cases "to_iexpr l")
  case None
  then show ?thesis by (simp add: ival_def)
next
  case l: (Some il)
  show ?thesis
  proof (cases "to_iexpr r")
    case None
    with l show ?thesis by (simp add: ival_def split: option.splits)
  next
    case r: (Some ir)
    from bounded_zval [of il] bounded_zval [of ir] l r show ?thesis
      by (auto simp: ival_def split: option.splits)
  qed
qed

lemma evaluate_materialised_exact:
  "coercible e \<Longrightarrow>
   (case ival e of
      Some z \<Rightarrow> \<exists>x. evaluate sql_ops m (materialise e) = Done (Ok x) \<and>
                  classify x = Typed (I64 (word_of_int z))
    | None \<Rightarrow> \<exists>err. evaluate sql_ops m (materialise e) = Done (Err err))"
proof (induction e)
  case (Lit l)
  then show ?case by auto
next
  case (Col v)
  then show ?case by (cases v) simp_all
next
  case (BinaryOp l op r)
  then have IH: "case ival l of
      Some z \<Rightarrow> \<exists>x. evaluate sql_ops m (materialise l) = Done (Ok x) \<and>
                  classify x = Typed (I64 (word_of_int z))
    | None \<Rightarrow> \<exists>err. evaluate sql_ops m (materialise l) = Done (Err err)"
    "case ival r of
      Some z \<Rightarrow> \<exists>x. evaluate sql_ops m (materialise r) = Done (Ok x) \<and>
                  classify x = Typed (I64 (word_of_int z))
    | None \<Rightarrow> \<exists>err. evaluate sql_ops m (materialise r) = Done (Err err)"
    by simp_all
  show ?case
  proof (cases "ival l")
    case None
    with IH(1) show ?thesis by (auto simp: ival_BinaryOp)
  next
    case l: (Some x)
    show ?thesis
    proof (cases "ival r")
      case None
      with l IH show ?thesis by (auto simp: ival_BinaryOp)
    next
      case r: (Some y)
      from l r have "sint (word_of_int x :: i64) = x" "sint (word_of_int y :: i64) = y"
        by (simp_all add: sint_word_of_int_i64 ival_in_i64)
      with l r IH show ?thesis
        by (auto simp: ival_BinaryOp binary_op_typed split: option.splits)
    qed
  qed
qed simp

lemma typed_evaluation_exact:
  assumes "coercible e" "has_col e"
  shows "ival e = Some z \<Longrightarrow>
      \<exists>x. evaluate sql_ops m e = Done (Ok x) \<and> classify x = Typed (I64 (word_of_int z))"
    and "ival e = None \<Longrightarrow> \<exists>err. evaluate sql_ops m e = Done (Err err)"
  using evaluate_materialised_exact [OF assms(1), of m] evaluate_materialise [OF assms, of m]
  by simp_all

lemma step_mode:
  "typed_results a \<Longrightarrow> typed_results b \<Longrightarrow>
   and_then a (\<lambda>x. and_then b (binary_op sql_ops m op x)) =
   and_then a (\<lambda>x. and_then b (binary_op sql_ops m' op x))"
  by (cases a rule: fallible_cases; cases b rule: fallible_cases)
     (auto simp: binary_op_typed)

lemma evaluate_materialised_mode:
  "coercible e \<Longrightarrow>
   evaluate sql_ops m (materialise e) = evaluate sql_ops m' (materialise e)"
proof (induction e)
  case (BinaryOp l op r)
  with evaluate_materialised_returns [of l m'] evaluate_materialised_returns [of r m']
  show ?case
    by (simp add: step_mode [of _ _ m op m'])
qed (auto split: option.splits)

lemma typed_evaluation_mode:
  "coercible e \<Longrightarrow> has_col e \<Longrightarrow> evaluate sql_ops m e = evaluate sql_ops m' e"
  using evaluate_materialise [of e m] evaluate_materialise [of e m']
    evaluate_materialised_mode [of e m m']
  by simp

lemma literal_subtree_not_materialised:
  "evaluate sql_ops Wrapping
     (BinaryOp (BinaryOp (Lit (Number ''9223372036854775807'')) Plus (Lit (Number ''1'')))
        Plus (Col (I64 0))) = Done (Ok (Value (I64 (- 9223372036854775808))))"
  "evaluate sql_ops Checked
     (BinaryOp (BinaryOp (Lit (Number ''9223372036854775807'')) Plus (Lit (Number ''1'')))
        Plus (Col (I64 0))) = Panic ArithmeticOverflow"
  "evaluate sql_ops m
     (materialise
        (BinaryOp (BinaryOp (Lit (Number ''9223372036854775807'')) Plus (Lit (Number ''1'')))
           Plus (Col (I64 0)))) = Done (Err (Other NumericOverflow))"
  by (simp_all add: i64_defs exact_def string_of_nat.simps)

end
