(* ===== verification/Operators.thy ===== *)
theory Operators
  imports Expression
begin

text \<open>
  The comparison operators over \<^verbatim>\<open>Evaluated\<close>.  The two impls of
  \<^verbatim>\<open>src/executor/evaluate/evaluated.rs\<close> give the evaluator \<^verbatim>\<open>==\<close> and
  \<^verbatim>\<open>partial_cmp\<close>; a comparison node of an expression applies one of the six
  operators \<^verbatim>\<open>= <> < <= > >=\<close> to the values of its operands.  As the specification
  has it, an absent ordering is not an error: the four order operators are false on an
  incomparable pair.  \<open>compare\<close> is one operator on two values (\<^verbatim>\<open>=\<close> and \<^verbatim>\<open><>\<close>
  through \<open>eq\<close>, the order operators through \<open>partial_cmp\<close>), \<open>swap_operator\<close>
  is the operator that holds for the swapped operands, and \<open>check\<close> is a comparison
  node: it evaluates the left expression, then the right, and compares.  The lemmas say
  which comparisons panic, that swapping the operands swaps the operator, how the
  operators exclude and imply each other, and what a comparison node does on the results
  of literal arithmetic.
\<close>

section \<open>Definitions\<close>

datatype comparison_operator = Eq | NotEq | Lt | LtEq | Gt | GtEq

fun compare ::
  "('v, 'x) value_ops \<Rightarrow> comparison_operator \<Rightarrow> 'v evaluated \<Rightarrow> 'v evaluated \<Rightarrow> bool exec" where
  "compare ops Eq a b = eq ops a b"
| "compare ops NotEq a b = map_exec Not (eq ops a b)"
| "compare ops Lt a b = map_exec (\<lambda>ord. ord = Some Less) (partial_cmp ops a b)"
| "compare ops LtEq a b =
     map_exec (\<lambda>ord. ord = Some Less \<or> ord = Some Equal) (partial_cmp ops a b)"
| "compare ops Gt a b = map_exec (\<lambda>ord. ord = Some Greater) (partial_cmp ops a b)"
| "compare ops GtEq a b =
     map_exec (\<lambda>ord. ord = Some Greater \<or> ord = Some Equal) (partial_cmp ops a b)"

fun swap_operator :: "comparison_operator \<Rightarrow> comparison_operator" where
  "swap_operator Eq = Eq"
| "swap_operator NotEq = NotEq"
| "swap_operator Lt = Gt"
| "swap_operator LtEq = GtEq"
| "swap_operator Gt = Lt"
| "swap_operator GtEq = LtEq"

fun is_order :: "comparison_operator \<Rightarrow> bool" where
  "is_order Eq = False"
| "is_order NotEq = False"
| "is_order _ = True"

definition check ::
  "('v, 'x) value_ops \<Rightarrow> overflow_mode \<Rightarrow> comparison_operator \<Rightarrow> 'v expr \<Rightarrow> 'v expr \<Rightarrow>
   (bool, 'x error) fallible" where
  "check ops m cop l r =
     and_then (evaluate ops m l) (\<lambda>l'.
     and_then (evaluate ops m r) (\<lambda>r'. map_exec Ok (compare ops cop l' r')))"

section \<open>Rule inversion\<close>

fun_cases eq_LiteralE: "eq ops (Literal l) b = Done x"
  and eq_Literal_rightE: "eq ops a (Literal r) = Done x"
  and partial_cmp_StringRefE: "partial_cmp ops (StringRef s) b = Done (Some ord)"

section \<open>One operator on two values\<close>

lemma swap_operator_involution [simp]: "swap_operator (swap_operator cop) = cop"
  by (cases cop) simp_all

lemma reverse_eq_simps [simp]:
  "reverse ord = Less \<longleftrightarrow> ord = Greater" "reverse ord = Greater \<longleftrightarrow> ord = Less"
  by (cases ord; simp)+

lemma eq_Literal_cases:
  "eq ops (Literal l) b = Done x \<Longrightarrow>
   (\<exists>v. b = ValueRef v \<and> x = value_eq_literal ops v l) \<or> (\<exists>s. b = StringRef s \<and> \<not> x)"
  by (erule eq_LiteralE) simp_all

lemma eq_Literal_right_cases:
  "eq ops a (Literal r) = Done x \<Longrightarrow>
   (\<exists>v. a = ValueRef v \<and> x = value_eq_literal ops v r) \<or> (\<exists>s. a = StringRef s \<and> \<not> x)"
  by (erule eq_Literal_rightE) simp_all

lemma partial_cmp_StringRef_ordered:
  "partial_cmp ops (StringRef s) b = Done (Some ord) \<Longrightarrow>
   \<exists>t. ord = cmp s t \<and> (classify b = Text t \<or> (\<exists>v. classify b = Typed v \<and> as_str ops v = Some t))"
  by (erule partial_cmp_StringRefE) (auto split: option.splits)

lemma compare_swap:
  assumes "eq_symmetric ops" "cmp_antisymmetric ops"
  shows "compare ops (swap_operator cop) b a = compare ops cop a b"
proof (cases "is_order cop")
  case True
  then show ?thesis
    by (cases cop; cases "partial_cmp ops a b")
       (auto simp: partial_cmp_reverses [OF assms(2), of b a])
next
  case False
  then show ?thesis
    by (cases cop) (simp_all add: eq_commutes [OF assms(1), of b a])
qed

lemma compare_Panic_iff:
  "compare ops cop a b = Panic p \<longleftrightarrow>
     (if is_order cop then partial_cmp ops a b = Panic p else eq ops a b = Panic p)"
  by (cases cop) (simp_all add: map_exec_eq_Panic_iff)

lemma compare_order_Panic_iff:
  "is_order cop \<Longrightarrow>
   compare ops cop a b = Panic p \<longleftrightarrow> p = ExplicitPanic \<and> (is_Literal a \<or> is_Literal b)"
  by (simp add: compare_Panic_iff partial_cmp_Panic_iff)

lemma compare_returns:
  assumes "\<not> is_Literal a" "\<not> is_Literal b"
  shows "\<exists>c. compare ops cop a b = Done c"
proof (cases "compare ops cop a b")
  case (Panic p)
  with assms show ?thesis
    by (cases "is_order cop") (simp_all add: compare_Panic_iff partial_cmp_Panic_iff eq_Panic_iff)
qed simp

lemma compare_NotEq: "compare ops NotEq a b = map_exec Not (compare ops Eq a b)"
  by simp

lemma compare_incomparable:
  "partial_cmp ops a b = Done None \<Longrightarrow> is_order cop \<Longrightarrow> compare ops cop a b = Done False"
  by (cases cop) simp_all

lemma compare_LtEq_iff:
  "compare ops LtEq a b = Done True \<longleftrightarrow>
     compare ops Lt a b = Done True \<or> partial_cmp ops a b = Done (Some Equal)"
  by (cases "partial_cmp ops a b") auto

lemma compare_GtEq_iff:
  "compare ops GtEq a b = Done True \<longleftrightarrow>
     compare ops Gt a b = Done True \<or> partial_cmp ops a b = Done (Some Equal)"
  by (cases "partial_cmp ops a b") auto

lemma compare_Lt_excludes:
  "compare ops Lt a b = Done True \<Longrightarrow>
   compare ops Gt a b = Done False \<and> compare ops GtEq a b = Done False \<and>
   compare ops LtEq a b = Done True"
  by (cases "partial_cmp ops a b") auto

lemma compare_Lt_trans:
  "untyped a \<Longrightarrow> untyped b \<Longrightarrow> untyped c \<Longrightarrow>
   compare ops Lt a b = Done True \<Longrightarrow> compare ops Lt b c = Done True \<Longrightarrow>
   compare ops Lt a c = Done True"
  using partial_cmp_untyped_trans [of a b c ops Less]
  by (cases "partial_cmp ops a b"; cases "partial_cmp ops b c") auto

lemma compare_LtEq_canonical:
  "canonical l \<Longrightarrow> canonical r \<Longrightarrow>
   compare ops LtEq (LiteralRef l) (LiteralRef r) = Done True \<longleftrightarrow>
     compare ops Lt (LiteralRef l) (LiteralRef r) = Done True \<or>
     compare ops Eq (LiteralRef l) (LiteralRef r) = Done True"
  by (auto simp: literal_partial_cmp_canonical)

lemma compare_LtEq_not_canonical:
  "compare ops LtEq (LiteralRef (Number ''1'')) (LiteralRef (Number ''01'')) = Done True"
  "compare ops Lt (LiteralRef (Number ''1'')) (LiteralRef (Number ''01'')) = Done False"
  "compare ops Eq (LiteralRef (Number ''1'')) (LiteralRef (Number ''01'')) = Done False"
  by (simp_all add: i64_defs)

section \<open>Comparison nodes\<close>

lemma check_leaves [simp]:
  "check ops m cop (Lit l) (Lit r) = map_exec Ok (compare ops cop (LiteralRef l) (LiteralRef r))"
  "check ops m cop (Col v) (Lit r) = map_exec Ok (compare ops cop (ValueRef v) (LiteralRef r))"
  "check ops m cop (Lit l) (Col w) = map_exec Ok (compare ops cop (LiteralRef l) (ValueRef w))"
  "check ops m cop (Col v) (Col w) = map_exec Ok (compare ops cop (ValueRef v) (ValueRef w))"
  by (simp_all add: check_def)

lemma check_literal_result:
  assumes "abs_expr (BinaryOp l op r) = Some ie" "ieval m ie = Done w"
  shows "check ops m cop (BinaryOp l op r) e =
     and_then (evaluate ops m e) (\<lambda>b. map_exec Ok (compare ops cop (Literal (Number (to_string w))) b))"
  unfolding check_def evaluate_abs_expr [OF assms(1)] using assms(2) by simp

lemma check_literal_arithmetic_panics:
  assumes "abs_expr (BinaryOp l op r) = Some ie" "ieval m ie = Done w"
    and "abs_expr e = Some ie'" "ieval m ie' = Done w'"
  shows "check ops m cop (BinaryOp l op r) e = Panic ExplicitPanic"
    and "check ops m cop e (BinaryOp l op r) = Panic ExplicitPanic"
proof -
  have l: "evaluate ops m (BinaryOp l op r) = Done (Ok (Literal (Number (to_string w))))"
    unfolding evaluate_abs_expr [OF assms(1)] using assms(2) by simp
  have e: "evaluate ops m e = Done (Ok (present e w'))"
    unfolding evaluate_abs_expr [OF assms(3)] using assms(4) by simp
  from assms(3) have p: "is_LiteralRef (present e w') \<or> is_Literal (present e w')"
    by (cases e) simp_all
  then have "compare ops cop (Literal (Number (to_string w))) (present e w') = Panic ExplicitPanic"
    "compare ops cop (present e w') (Literal (Number (to_string w))) = Panic ExplicitPanic"
    by (auto simp: compare_Panic_iff partial_cmp_Panic_iff eq_Panic_iff)
  with l e show "check ops m cop (BinaryOp l op r) e = Panic ExplicitPanic"
    "check ops m cop e (BinaryOp l op r) = Panic ExplicitPanic"
    by (simp_all add: check_def)
qed

lemma check_swap:
  assumes "eq_symmetric ops" "cmp_antisymmetric ops"
    and "\<exists>a. evaluate ops m l = Done (Ok a)" "\<exists>b. evaluate ops m r = Done (Ok b)"
  shows "check ops m (swap_operator cop) r l = check ops m cop l r"
  using assms(3,4) by (auto simp: check_def compare_swap [OF assms(1,2)])

end
