(* ===== verification/Conditions.thy ===== *)
theory Conditions
  imports Coercion Operators
begin

text \<open>
  Comparison nodes over typed integer expressions, in the reference domain: the
  evaluator of \<open>Expression\<close>, the coercion of \<open>Coercion\<close> and the operators of
  \<open>Operators\<close> together.  \<open>int_holds\<close> is a comparison operator on the integers.  The
  lemmas show that comparing two typed integers, or a typed integer with a numeric
  literal in either order, is comparing the integers, and that a comparison node over
  two coercible expressions, at least one with a typed leaf, returns the comparison of
  their integer values whenever every intermediate value is in range, and an error value
  otherwise.
\<close>

section \<open>Definitions\<close>

fun int_holds :: "comparison_operator \<Rightarrow> int \<Rightarrow> int \<Rightarrow> bool" where
  "int_holds Eq x y = (x = y)"
| "int_holds NotEq x y = (x \<noteq> y)"
| "int_holds Lt x y = (x < y)"
| "int_holds LtEq x y = (x \<le> y)"
| "int_holds Gt x y = (x > y)"
| "int_holds GtEq x y = (x \<ge> y)"

section \<open>One comparison in the reference domain\<close>

lemma cmp_int_simps [simp]:
  "cmp (x :: int) y = Less \<longleftrightarrow> x < y" "cmp x y = Greater \<longleftrightarrow> y < x"
  "cmp x y = Equal \<longleftrightarrow> x = y"
  by (auto simp: cmp_def)

lemma compare_typed:
  "classify a = Typed (I64 x) \<Longrightarrow> classify b = Typed (I64 y) \<Longrightarrow>
   compare sql_ops cop a b = Done (int_holds cop (sint x) (sint y))"
  by (cases cop; erule classify_Typed_cases; erule classify_Typed_cases)
     (auto simp: i64_cmp_def sint_eq_iff [symmetric])

lemma compare_typed_literal:
  "classify a = Typed (I64 x) \<Longrightarrow> literal_value l = Some y \<Longrightarrow>
   compare sql_ops cop a (LiteralRef l) = Done (int_holds cop (sint x) (sint y))"
  by (cases cop; cases l; erule classify_Typed_cases)
     (auto simp: i64_cmp_def sint_eq_iff [symmetric])

lemma compare_literal_typed:
  "literal_value l = Some x \<Longrightarrow> classify b = Typed (I64 y) \<Longrightarrow>
   compare sql_ops cop (LiteralRef l) b = Done (int_holds cop (sint x) (sint y))"
  by (cases cop; cases l; erule classify_Typed_cases)
     (auto simp: i64_cmp_def sint_eq_iff [symmetric])

section \<open>Comparison nodes\<close>

lemma coercible_value:
  assumes "coercible e" "ival e = Some z"
  obtains a where "evaluate sql_ops m e = Done (Ok a)" "classify a = Typed (I64 (word_of_int z))"
  | lit where "\<not> has_col e" "evaluate sql_ops m e = Done (Ok (LiteralRef lit))"
      "literal_value lit = Some (word_of_int z)"
proof (cases "has_col e")
  case True
  with typed_evaluation_exact(1) [OF assms(1) True assms(2), of m] that(1) show ?thesis
    by blast
next
  case False
  with coercible_leaf [OF assms(1)] assms(2) that(2) show ?thesis
    by auto
qed

lemma coercible_error:
  assumes "coercible e" "ival e = None"
  shows "\<exists>err. evaluate sql_ops m e = Done (Err err)"
proof (cases "has_col e")
  case True
  from typed_evaluation_exact(2) [OF assms(1) True assms(2), of m] show ?thesis .
next
  case False
  with coercible_leaf [OF assms(1)] assms(2) show ?thesis
    by auto
qed

lemma check_exact:
  assumes "coercible l" "coercible r" "has_col l \<or> has_col r"
    and "ival l = Some x" "ival r = Some y"
  shows "check sql_ops m cop l r = Done (Ok (int_holds cop x y))"
proof -
  from assms(4,5) have s: "sint (word_of_int x :: i64) = x" "sint (word_of_int y :: i64) = y"
    by (simp_all add: sint_word_of_int_i64 ival_in_i64)
  show ?thesis
  proof (cases rule: coercible_value [OF assms(1,4), of m])
    case a: (1 a)
    show ?thesis
    proof (cases rule: coercible_value [OF assms(2,5), of m])
      case (1 b)
      with a s show ?thesis
        by (simp add: check_def compare_typed)
    next
      case (2 lit)
      with a s show ?thesis
        by (simp add: check_def compare_typed_literal)
    qed
  next
    case l: (2 lit)
    with assms(3) have "has_col r" by simp
    with coercible_value [OF assms(2,5), of m] obtain b where
      "evaluate sql_ops m r = Done (Ok b)" "classify b = Typed (I64 (word_of_int y))"
      by blast
    with l s show ?thesis
      by (simp add: check_def compare_literal_typed)
  qed
qed

lemma check_error:
  assumes "coercible l" "coercible r" "ival l = None \<or> ival r = None"
  shows "\<exists>err. check sql_ops m cop l r = Done (Err err)"
proof (cases "ival l")
  case None
  with coercible_error [OF assms(1), of m] show ?thesis
    by (auto simp: check_def)
next
  case (Some x)
  with assms(3) have "ival r = None" by simp
  from coercible_error [OF assms(2) this, of m] obtain err where
    "evaluate sql_ops m r = Done (Err err)"
    by blast
  then show ?thesis
    by (cases rule: coercible_value [OF assms(1) Some, of m]) (simp_all add: check_def)
qed

lemma evaluate_mode:
  assumes "coercible e"
  shows "evaluate sql_ops m e = evaluate sql_ops m' e"
proof (cases "has_col e")
  case True
  with assms show ?thesis by (rule typed_evaluation_mode)
next
  case False
  with coercible_leaf [OF assms] show ?thesis by auto
qed

lemma check_mode:
  assumes "coercible l" "coercible r"
  shows "check sql_ops m cop l r = check sql_ops m' cop l r"
  by (simp add: check_def evaluate_mode [OF assms(1), of m m'] evaluate_mode [OF assms(2), of m m'])

end
