(* ===== verification/Big_Step.thy ===== *)
theory Big_Step
  imports Expression
begin

text \<open>
  The reduction of an expression as a relation.  The specification describes the
  evaluator by what happens at a node: the left operand is reduced, then the right one,
  then the two values are combined by the operation of the node, and a failure (an error
  value or a panic) of an operand ends the reduction there.  \<open>evaluates\<close> states this
  as an inductive relation between an expression and its outcome, one rule for each
  leaf, one for a node whose operands both yield values, one for a failing left operand
  (the right operand is not looked at) and one for a failing right operand.  The lemmas
  show that the relation is deterministic and total and that the function \<open>evaluate\<close>
  of \<open>Expression\<close> computes it; the order of the operands is observable, because a
  failing left operand hides a panic of the right one.
\<close>

section \<open>Definitions\<close>

fun failed :: "('a, 'e) fallible \<Rightarrow> bool" where
  "failed (Done (Ok a)) = False"
| "failed _ = True"

inductive evaluates ::
  "('v, 'x) value_ops \<Rightarrow> overflow_mode \<Rightarrow> 'v expr \<Rightarrow> ('v evaluated, 'x error) fallible \<Rightarrow> bool"
  for ops :: "('v, 'x) value_ops" and m :: overflow_mode where
  Literal_leaf: "evaluates ops m (Lit l) (Done (Ok (LiteralRef l)))"
| Column_leaf: "evaluates ops m (Col v) (Done (Ok (ValueRef v)))"
| Text_leaf: "evaluates ops m (Txt s) (Done (Ok (StringRef s)))"
| Operator:
    "evaluates ops m l (Done (Ok a)) \<Longrightarrow> evaluates ops m r (Done (Ok b)) \<Longrightarrow>
     evaluates ops m (BinaryOp l op r) (binary_op ops m op a b)"
| Left_fails:
    "evaluates ops m l x \<Longrightarrow> failed x \<Longrightarrow> evaluates ops m (BinaryOp l op r) x"
| Right_fails:
    "evaluates ops m l (Done (Ok a)) \<Longrightarrow> evaluates ops m r y \<Longrightarrow> failed y \<Longrightarrow>
     evaluates ops m (BinaryOp l op r) y"

code_pred evaluates .

section \<open>Rule inversion\<close>

inductive_cases evaluates_LitE [elim!]: "evaluates ops m (Lit l) x"
  and evaluates_ColE [elim!]: "evaluates ops m (Col v) x"
  and evaluates_TxtE [elim!]: "evaluates ops m (Txt s) x"
  and evaluates_BinaryOpE [elim]: "evaluates ops m (BinaryOp l op r) x"

inductive_simps evaluates_leaf_simps [simp]:
  "evaluates ops m (Lit l) x" "evaluates ops m (Col v) x" "evaluates ops m (Txt s) x"

section \<open>The function computes the relation\<close>

lemma failed_iff: "failed x \<longleftrightarrow> (\<forall>a. x \<noteq> Done (Ok a))"
  by (cases x rule: fallible_cases) simp_all

lemma and_then_failed: "failed x \<Longrightarrow> and_then x f = x"
  by (cases x rule: fallible_cases) simp_all

lemma evaluates_evaluate: "evaluates ops m e x \<Longrightarrow> evaluate ops m e = x"
  by (induction rule: evaluates.induct) (simp_all add: and_then_failed)

lemma evaluate_evaluates: "evaluates ops m e (evaluate ops m e)"
proof (induction e)
  case (BinaryOp l op r)
  show ?case
  proof (cases "failed (evaluate ops m l)")
    case True
    with BinaryOp.IH(1) show ?thesis
      by (auto simp: and_then_failed intro: Left_fails)
  next
    case False
    then obtain a where a: "evaluate ops m l = Done (Ok a)"
      by (auto simp: failed_iff)
    show ?thesis
    proof (cases "failed (evaluate ops m r)")
      case True
      with a BinaryOp.IH show ?thesis
        by (auto simp: and_then_failed intro: Right_fails)
    next
      case False
      then obtain b where "evaluate ops m r = Done (Ok b)"
        by (auto simp: failed_iff)
      with a BinaryOp.IH show ?thesis
        by (auto intro: Operator)
    qed
  qed
qed (auto intro: evaluates.intros)

lemma evaluates_iff: "evaluates ops m e x \<longleftrightarrow> evaluate ops m e = x"
  using evaluates_evaluate evaluate_evaluates by blast

lemma evaluates_deterministic:
  "evaluates ops m e x \<Longrightarrow> evaluates ops m e y \<Longrightarrow> x = y"
proof (induction arbitrary: y rule: evaluates.induct)
  case (Operator l a r b op)
  from Operator.prems show ?case
    by (auto elim!: evaluates_BinaryOpE dest!: Operator.IH)
next
  case (Left_fails l x op r)
  from Left_fails.prems Left_fails.hyps(2) show ?case
    by (auto elim!: evaluates_BinaryOpE dest!: Left_fails.IH)
next
  case (Right_fails l a r y' op)
  from Right_fails.prems Right_fails.hyps(3) show ?case
    by (auto elim!: evaluates_BinaryOpE dest!: Right_fails.IH)
qed auto

lemma evaluates_value_operands:
  "evaluates ops m (BinaryOp l op r) (Done (Ok c)) \<Longrightarrow>
   \<exists>a b. evaluates ops m l (Done (Ok a)) \<and> evaluates ops m r (Done (Ok b)) \<and>
     binary_op ops m op a b = Done (Ok c)"
  by (erule evaluates_BinaryOpE) auto

lemma evaluates_total: "\<exists>x. evaluates ops m e x"
  using evaluate_evaluates by blast

section \<open>The order of the operands\<close>

lemma left_failure_first:
  "evaluate ops m l = x \<Longrightarrow> failed x \<Longrightarrow> evaluate ops m (BinaryOp l op r) = x"
  by (simp add: and_then_failed)

lemma operand_order_observable:
  "evaluate ops m (BinaryOp (BinaryOp (Txt ''a'') Plus (Lit (Number ''1''))) Plus
     (BinaryOp (Lit (Number ''1'')) Divide (Lit (Number ''0'')))) =
     Done (Err (Evaluate UnreachableEvaluatedArithmetic))"
  "evaluate ops m (BinaryOp (BinaryOp (Lit (Number ''1'')) Divide (Lit (Number ''0''))) Plus
     (BinaryOp (Txt ''a'') Plus (Lit (Number ''1'')))) = Panic DivisionByZero"
  by (simp_all add: i64_defs unreachable_def)

end
