(* ===== verification/Shapes.thy ===== *)
theory Shapes
  imports Operators
begin

text \<open>
  Which of the five representations an expression evaluates to, read off the
  expression.  \<open>repr\<close> names the five representations as the specification does
  and \<open>repr_of\<close> is the representation of a value of \<^verbatim>\<open>Evaluated\<close> in
  \<^verbatim>\<open>src/executor/evaluate/evaluated.rs\<close>.  \<open>static_repr\<close> assigns a representation to
  an expression without evaluating it: the borrowed one at a leaf, an owned literal at an
  operator whose leaves are all literals (\<open>lits_only\<close>), an owned typed value at
  every other operator.  \<open>eq_defined\<close> and \<open>comparable\<close> are the pairs of
  representations outside the \<^verbatim>\<open>panic!()\<close> arms of \<^verbatim>\<open>==\<close> and of a comparison
  operator.  \<open>payload\<close> reduces an expression on payloads alone, with the
  specification's coercion scheme at every operator (\<open>spec_op\<close>).  The lemmas show
  that an operation returns an owned literal exactly on two
  literal-like operands and an owned typed value otherwise, that the value of an
  expression has the representation assigned to it, for every typed domain and in either
  build, and that a comparison node whose operands yield values returns exactly when the
  assigned representations are comparable and panics otherwise; and that, when the typed
  addition commutes, the payload of the value of an expression is what \<open>payload\<close>
  computes, a functional refinement of the evaluator by the coercion scheme.
\<close>

section \<open>Definitions\<close>

datatype repr = LiteralBorrowed | LiteralOwned | StringBorrowed | TypedBorrowed | TypedOwned

fun repr_of :: "'v evaluated \<Rightarrow> repr" where
  "repr_of (LiteralRef l) = LiteralBorrowed"
| "repr_of (Literal l) = LiteralOwned"
| "repr_of (StringRef s) = StringBorrowed"
| "repr_of (ValueRef v) = TypedBorrowed"
| "repr_of (Value v) = TypedOwned"

primrec lits_only :: "'v expr \<Rightarrow> bool" where
  "lits_only (Lit l) = True"
| "lits_only (Col v) = False"
| "lits_only (Txt s) = False"
| "lits_only (BinaryOp l op r) = (lits_only l \<and> lits_only r)"

fun static_repr :: "'v expr \<Rightarrow> repr" where
  "static_repr (Lit l) = LiteralBorrowed"
| "static_repr (Col v) = TypedBorrowed"
| "static_repr (Txt s) = StringBorrowed"
| "static_repr (BinaryOp l op r) = (if lits_only l \<and> lits_only r then LiteralOwned else TypedOwned)"

fun literal_like :: "repr \<Rightarrow> bool" where
  "literal_like LiteralBorrowed = True"
| "literal_like LiteralOwned = True"
| "literal_like _ = False"

fun eq_defined :: "repr \<Rightarrow> repr \<Rightarrow> bool" where
  "eq_defined LiteralOwned y = (y = TypedBorrowed \<or> y = StringBorrowed)"
| "eq_defined x LiteralOwned = (x = TypedBorrowed \<or> x = StringBorrowed)"
| "eq_defined x y = True"

definition comparable :: "comparison_operator \<Rightarrow> repr \<Rightarrow> repr \<Rightarrow> bool" where
  "comparable cop x y =
     (if is_order cop then x \<noteq> LiteralOwned \<and> y \<noteq> LiteralOwned else eq_defined x y)"

fun spec_op ::
  "('v, 'x) value_ops \<Rightarrow> overflow_mode \<Rightarrow> binary_operator \<Rightarrow> 'v operand \<Rightarrow> 'v operand \<Rightarrow>
   ('v evaluated, 'x error) fallible" where
  "spec_op ops m Plus = arith_spec ops (literal_add m) (value_add ops)"
| "spec_op ops m Minus = arith_spec ops (literal_subtract m) (value_subtract ops)"
| "spec_op ops m Multiply = arith_spec ops (literal_multiply m) (value_multiply ops)"
| "spec_op ops m Divide = arith_spec ops literal_divide (value_divide ops)"

primrec payload ::
  "('v, 'x) value_ops \<Rightarrow> overflow_mode \<Rightarrow> 'v expr \<Rightarrow> ('v operand, 'x error) fallible" where
  "payload ops m (Lit l) = Done (Ok (Untyped l))"
| "payload ops m (Col v) = Done (Ok (Typed v))"
| "payload ops m (Txt s) = Done (Ok (Text s))"
| "payload ops m (BinaryOp l op r) =
     and_then (payload ops m l) (\<lambda>a.
     and_then (payload ops m r) (\<lambda>b. map_ok classify (spec_op ops m op a b)))"

section \<open>Representations of values\<close>

lemma repr_of_iff [simp]:
  "repr_of x = LiteralBorrowed \<longleftrightarrow> is_LiteralRef x"
  "repr_of x = LiteralOwned \<longleftrightarrow> is_Literal x"
  "repr_of x = StringBorrowed \<longleftrightarrow> is_StringRef x"
  "repr_of x = TypedBorrowed \<longleftrightarrow> is_ValueRef x"
  "repr_of x = TypedOwned \<longleftrightarrow> is_Value x"
  by (cases x; simp)+

lemma literal_like_iff: "literal_like (repr_of x) \<longleftrightarrow> (\<exists>l. classify x = Untyped l)"
  by (cases x) simp_all

lemma eq_defined_iff: "(\<exists>c. eq ops a b = Done c) \<longleftrightarrow> eq_defined (repr_of a) (repr_of b)"
  by (cases a; cases b) auto

lemma partial_cmp_defined_iff:
  "(\<exists>c. partial_cmp ops a b = Done c) \<longleftrightarrow> repr_of a \<noteq> LiteralOwned \<and> repr_of b \<noteq> LiteralOwned"
  by (cases a; cases b) simp_all

lemma compare_defined_iff:
  "(\<exists>c. compare ops cop a b = Done c) \<longleftrightarrow> comparable cop (repr_of a) (repr_of b)"
  unfolding comparable_def
  using eq_defined_iff [of ops a b] partial_cmp_defined_iff [of ops a b]
  by (cases cop) auto

lemma binary_op_repr:
  "binary_op ops m op a b = Done (Ok x) \<Longrightarrow>
   repr_of x =
     (if literal_like (repr_of a) \<and> literal_like (repr_of b) then LiteralOwned else TypedOwned)"
  by (cases op; cases a; cases b) (auto simp: outcome_simps unreachable_def)

section \<open>Representations of expressions\<close>

lemma evaluate_literal_like:
  "evaluate ops m e = Done (Ok x) \<Longrightarrow> literal_like (repr_of x) \<longleftrightarrow> lits_only e"
proof (induction e arbitrary: x)
  case (BinaryOp l op r)
  then obtain a b where a: "evaluate ops m l = Done (Ok a)" and b: "evaluate ops m r = Done (Ok b)"
    and x: "binary_op ops m op a b = Done (Ok x)"
    by (auto simp: and_then_eq_Ok_iff)
  from binary_op_repr [OF x] BinaryOp.IH(1) [OF a] BinaryOp.IH(2) [OF b] show ?case
    by (auto split: if_splits)
qed auto

lemma evaluate_repr: "evaluate ops m e = Done (Ok x) \<Longrightarrow> repr_of x = static_repr e"
proof (cases e)
  case (BinaryOp l op r)
  assume "evaluate ops m e = Done (Ok x)"
  with BinaryOp obtain a b where a: "evaluate ops m l = Done (Ok a)"
    and b: "evaluate ops m r = Done (Ok b)" and x: "binary_op ops m op a b = Done (Ok x)"
    by (auto simp: and_then_eq_Ok_iff)
  from binary_op_repr [OF x] evaluate_literal_like [OF a] evaluate_literal_like [OF b] BinaryOp
  show ?thesis
    by simp
qed auto

section \<open>Payloads of expressions\<close>

lemma binary_op_spec_op:
  "add_commutative ops \<Longrightarrow> binary_op ops m op a b = spec_op ops m op (classify a) (classify b)"
  by (cases op) (simp_all add: add_arith_spec arith_specs)

lemma evaluate_payload:
  "add_commutative ops \<Longrightarrow> map_ok classify (evaluate ops m e) = payload ops m e"
proof (induction e)
  case (BinaryOp l op r)
  then have IH: "payload ops m l = map_ok classify (evaluate ops m l)"
    "payload ops m r = map_ok classify (evaluate ops m r)"
    by simp_all
  show ?case
    unfolding payload.simps IH
    by (cases "evaluate ops m l" rule: fallible_cases; cases "evaluate ops m r" rule: fallible_cases)
       (simp_all add: binary_op_spec_op [OF BinaryOp.prems])
qed simp_all

section \<open>Comparison nodes\<close>

lemma check_defined_iff:
  assumes "evaluate ops m l = Done (Ok a)" "evaluate ops m r = Done (Ok b)"
  shows "(\<exists>c. check ops m cop l r = Done (Ok c)) \<longleftrightarrow>
     comparable cop (static_repr l) (static_repr r)"
  using compare_defined_iff [of ops cop a b] evaluate_repr [OF assms(1)] evaluate_repr [OF assms(2)]
    assms
  by (auto simp: check_def)

lemma check_undefined_panics:
  assumes "evaluate ops m l = Done (Ok a)" "evaluate ops m r = Done (Ok b)"
    and "\<not> comparable cop (static_repr l) (static_repr r)"
  shows "check ops m cop l r = Panic ExplicitPanic"
proof -
  from assms compare_defined_iff [of ops cop a b] evaluate_repr [OF assms(1)] evaluate_repr [OF assms(2)]
  have "\<nexists>c. compare ops cop a b = Done c" by simp
  then obtain p where p: "compare ops cop a b = Panic p"
    by (cases "compare ops cop a b") auto
  then have "p = ExplicitPanic"
    by (cases "is_order cop") (auto simp: compare_Panic_iff partial_cmp_Panic_iff eq_Panic_iff)
  with p assms(1,2) show ?thesis
    by (simp add: check_def)
qed

section \<open>Properties\<close>

text \<open>
  C27 (the representation of a result is static, and so is the safety of a comparison).
  For every typed domain and in either build, a value an expression evaluates to has the
  representation read off the expression: borrowed at a leaf, an owned literal at an
  operator over literals only, an owned typed value at any other operator.  A comparison
  node whose operands both yield values returns when these representations are
  comparable (no owned literal under an order operator; under \<^verbatim>\<open>=\<close> and \<^verbatim>\<open><>\<close> an
  owned literal only against a borrowed typed value or a borrowed string) and panics
  when they are not.
\<close>

theorem comparison_safety_static:
  "evaluate ops m l = Done (Ok a) \<Longrightarrow> evaluate ops m r = Done (Ok b) \<Longrightarrow>
   repr_of a = static_repr l \<and> repr_of b = static_repr r \<and>
   (if comparable cop (static_repr l) (static_repr r)
    then \<exists>c. check ops m cop l r = Done (Ok c)
    else check ops m cop l r = Panic ExplicitPanic)"
  using check_defined_iff [of ops m l a r b cop] check_undefined_panics [of ops m l a r b cop]
  by (simp add: evaluate_repr)

theorem comparison_safety_static_witness:
  "check sql_ops Checked Eq
     (BinaryOp (Lit (Number ''1'')) Plus (Lit (Number ''1''))) (Col (I64 2)) = Done (Ok True) \<and>
   check sql_ops Checked Lt
     (BinaryOp (Lit (Number ''1'')) Plus (Lit (Number ''1''))) (Col (I64 2)) = Panic ExplicitPanic"
proof -
  let ?l = "BinaryOp (Lit (Number ''1'')) Plus (Lit (Number ''1'')) :: sql_value expr"
  have l: "evaluate sql_ops Checked ?l = Done (Ok (Literal (Number ''2'')))"
    and r: "evaluate sql_ops Checked (Col (I64 2)) = Done (Ok (ValueRef (I64 2)))"
    by (simp_all add: i64_defs string_of_nat.simps)
  have "check sql_ops Checked Eq ?l (Col (I64 2)) = Done (Ok True)"
    by (simp add: check_def i64_defs string_of_nat.simps)
  with comparison_safety_static [OF l r, of Lt] show ?thesis
    by (simp add: comparable_def)
qed

end
