(* ===== verification/Normal_Form.thy ===== *)
theory Normal_Form
  imports Contract
begin

text \<open>
  What \<^verbatim>\<open>parse::<i64>()\<close> followed by \<^verbatim>\<open>to_string()\<close> does to the text of a numeric
  literal, which is what every literal operation of
  \<^verbatim>\<open>src/executor/evaluate/evaluated.rs\<close> does to its operands before it prints the
  result.  \<open>normalise\<close> is the reference: it drops a plus sign, the leading zeros and
  the sign of zero (\<open>strip_zeros\<close> keeps one digit of a text of zeros).  The lemmas
  show that printing a parsed text gives its normal form, on every text the parser
  accepts, the boundary texts included (\<^verbatim>\<open>+0\<close>, \<^verbatim>\<open>-0\<close>, \<^verbatim>\<open>-000\<close>, the text of
  \<^verbatim>\<open>i64::MIN\<close>); that two texts parse to the same integer exactly when their normal
  forms are equal; that a literal is canonical exactly when its text parses and is its
  own normal form; and that literal arithmetic and ordering see only the normal form.
  On a text the parser rejects the normal form means nothing (the normal form of a lone
  sign is \<^verbatim>\<open>0\<close>), so every statement carries the hypothesis that the text parses.
\<close>

section \<open>Definitions\<close>

definition strip_zeros :: "string \<Rightarrow> string" where
  "strip_zeros ds =
     (case dropWhile (\<lambda>c. c = CHR ''0'') ds of [] \<Rightarrow> ''0'' | d # ds' \<Rightarrow> d # ds')"

definition normalise :: "string \<Rightarrow> string" where
  "normalise s =
     (case s of
        [] \<Rightarrow> []
      | c # cs \<Rightarrow>
          if c = CHR ''+'' then strip_zeros cs
          else if c = CHR ''-'' then
            (if strip_zeros cs = ''0'' then ''0'' else CHR ''-'' # strip_zeros cs)
          else strip_zeros s)"

section \<open>Digits\<close>

lemma digit_char_of_to_digit: "to_digit c = Some d \<Longrightarrow> digit_char (nat d) = c \<and> 0 \<le> d \<and> d < 10"
proof -
  assume a: "to_digit c = Some d"
  define n where "n = (of_char c :: nat)"
  from a have r: "48 \<le> n" "n \<le> 57" and d: "d = int n - 48"
    by (auto simp: to_digit_def n_def Let_def split: if_splits)
  define k where "k = n - 48"
  with r have k: "k < 10" and n: "n = 48 + k" by simp_all
  from less_10_cases [OF k] have "of_char (digit_char k) = n"
    unfolding n by (auto simp: digit_char_def)
  then have "digit_char k = c"
    unfolding n_def by (simp only: of_char_eq_iff)
  then have "digit_char (n - 48) = c" by (simp add: k_def)
  with d r show ?thesis by (simp add: nat_diff_distrib')
qed

lemma to_digit_zero_iff: "to_digit c = Some 0 \<longleftrightarrow> c = CHR ''0''"
  using digit_char_of_to_digit [of c 0] by (auto simp: digit_char_def to_digit_def)

lemma decimal_append:
  "decimal acc (xs @ ys) = (case decimal acc xs of None \<Rightarrow> None | Some k \<Rightarrow> decimal k ys)"
  by (induction xs arbitrary: acc) (auto split: option.splits)

lemma decimal_snoc:
  "decimal acc (xs @ [c]) = Some n \<longleftrightarrow>
     (\<exists>k d. decimal acc xs = Some k \<and> to_digit c = Some d \<and> n = k * 10 + d)"
  by (auto simp: decimal_append split: option.splits)

lemma string_of_nat_snoc:
  "d < 10 \<Longrightarrow> string_of_nat (k * 10 + d) =
     (if k = 0 then [digit_char d] else string_of_nat k @ [digit_char d])"
  by (subst string_of_nat.simps) auto

lemma strip_zeros_snoc:
  "strip_zeros (xs @ [c]) =
     (if \<forall>x\<in>set xs. x = CHR ''0'' then (if c = CHR ''0'' then ''0'' else [c])
      else strip_zeros xs @ [c])"
  by (auto simp: strip_zeros_def dropWhile_append1 dropWhile_append2 split: list.splits)


lemma strip_zeros_zeros: "\<forall>x\<in>set ds. x = CHR ''0'' \<Longrightarrow> strip_zeros ds = ''0''"
  by (simp add: strip_zeros_def dropWhile_eq_Nil_conv [THEN iffD2])

lemma strip_zeros_nonzero:
  assumes "\<not> (\<forall>x\<in>set ds. x = CHR ''0'')"
  shows "strip_zeros ds = dropWhile (\<lambda>c. c = CHR ''0'') ds \<and> strip_zeros ds \<noteq> ''0''"
proof -
  from assms obtain d ds' where e: "dropWhile (\<lambda>c. c = CHR ''0'') ds = d # ds'"
    by (cases "dropWhile (\<lambda>c. c = CHR ''0'') ds") (auto simp: dropWhile_eq_Nil_conv)
  with hd_dropWhile [of "\<lambda>c. c = CHR ''0''" ds] have "d \<noteq> CHR ''0''" by simp
  with e show ?thesis by (simp add: strip_zeros_def)
qed

lemma decimal_strip_zeros:
  "decimal 0 ds = Some n \<Longrightarrow> ds \<noteq> [] \<Longrightarrow>
   0 \<le> n \<and> string_of_nat (nat n) = strip_zeros ds \<and> (n = 0 \<longleftrightarrow> (\<forall>x\<in>set ds. x = CHR ''0''))"
proof (induction ds arbitrary: n rule: rev_induct)
  case (snoc c xs)
  then obtain k d where k: "decimal 0 xs = Some k" and d: "to_digit c = Some d"
    and n: "n = k * 10 + d"
    by (auto simp: decimal_snoc)
  from digit_char_of_to_digit [OF d] have c: "digit_char (nat d) = c" "0 \<le> d" "d < 10"
    by simp_all
  from decimal_mono [OF k] have k0: "0 \<le> k" by simp
  have z: "d = 0 \<longleftrightarrow> c = CHR ''0''"
    using d to_digit_zero_iff [of c] by auto
  have s: "string_of_nat (nat n) =
      (if k = 0 then [c] else string_of_nat (nat k) @ [c])"
    using string_of_nat_snoc [of "nat d" "nat k"] c k0
    by (simp add: n nat_add_distrib nat_mult_distrib)
  from k0 c(2) have "0 \<le> n" "n = 0 \<longleftrightarrow> k = 0 \<and> d = 0"
    unfolding n by presburger+
  with z have n0: "0 \<le> n" "n = 0 \<longleftrightarrow> k = 0 \<and> c = CHR ''0''"
    by simp_all
  have one: "k = 0 \<Longrightarrow> string_of_nat (nat n) = (if c = CHR ''0'' then ''0'' else [c])"
    by (simp add: s)
  show ?case
  proof (cases "xs = []")
    case True
    with k have "k = 0" by simp
    with True one n0 show ?thesis
      by (simp add: strip_zeros_snoc [of "[]", simplified])
  next
    case False
    from snoc.IH [OF k False] have IH: "string_of_nat (nat k) = strip_zeros xs"
      "k = 0 \<longleftrightarrow> (\<forall>x\<in>set xs. x = CHR ''0'')"
      by simp_all
    show ?thesis
    proof (cases "k = 0")
      case True
      with one n0 IH(2) show ?thesis by (simp add: strip_zeros_snoc)
    next
      case False
      with IH(2) have nz: "\<not> (\<forall>x\<in>set xs. x = CHR ''0'')" by simp
      from False s IH(1) have "string_of_nat (nat n) = strip_zeros xs @ [c]" by simp
      with nz n0 False show ?thesis by (auto simp: strip_zeros_snoc)
    qed
  qed
qed simp


section \<open>Printing a parsed text\<close>

lemma to_string_word_of_int:
  "in_i64 v \<Longrightarrow> to_string (word_of_int v) =
     (if v < 0 then CHR ''-'' # string_of_nat (nat (- v)) else string_of_nat (nat v))"
  by (simp add: to_string_def sint_word_of_int_i64)

lemma in_range_Some_iff:
  "in_range pos r = Some v \<longleftrightarrow> (\<exists>n. r = Some n \<and> v = apply_sign pos n \<and> in_i64 v)"
  by (auto simp: in_range_def split: option.splits)

lemma signed_decimal_normal:
  assumes "in_range pos (decimal 0 ds) = Some v" and "ds \<noteq> []"
  shows "to_string (word_of_int v) =
     (if pos \<or> strip_zeros ds = ''0'' then strip_zeros ds else CHR ''-'' # strip_zeros ds)"
proof -
  from assms(1) obtain n where n: "decimal 0 ds = Some n" and v: "v = apply_sign pos n" "in_i64 v"
    by (auto simp: in_range_Some_iff)
  from decimal_strip_zeros [OF n assms(2)] have s: "0 \<le> n" "string_of_nat (nat n) = strip_zeros ds"
    and z: "n = 0 \<longleftrightarrow> (\<forall>x\<in>set ds. x = CHR ''0'')"
    by simp_all
  have t: "to_string (word_of_int v) =
      (if v < 0 then CHR ''-'' # string_of_nat (nat (- v)) else string_of_nat (nat v))"
    using v(2) by (rule to_string_word_of_int)
  show ?thesis
  proof (cases "n = 0")
    case True
    with z have "strip_zeros ds = ''0''" by (simp add: strip_zeros_zeros)
    with True v s show ?thesis
      unfolding t by (simp add: apply_sign_def)
  next
    case False
    with z have "\<not> (\<forall>x\<in>set ds. x = CHR ''0'')" by simp
    then have "strip_zeros ds \<noteq> ''0''" by (rule strip_zeros_nonzero [THEN conjunct2])
    with False v s show ?thesis
      unfolding t by (cases pos) (simp_all add: apply_sign_def)
  qed
qed

lemma to_string_parse: "parse_i64 s = Some w \<Longrightarrow> to_string w = normalise s"
proof (cases s)
  case (Cons c cs)
  assume "parse_i64 s = Some w"
  then have p: "parse_ref (c # cs) = Some w"
    by (simp add: parse_i64_parse_ref Cons)
  then show ?thesis
    unfolding Cons parse_ref_def normalise_def
    by (auto simp del: decimal.simps split: if_splits dest!: signed_decimal_normal)
qed (simp add: parse_i64_def)

lemma normalise_to_string [simp]: "normalise (to_string w) = to_string w"
  using to_string_parse [of "to_string w" w] by simp

lemma parse_normalise: "parse_i64 s = Some w \<Longrightarrow> parse_i64 (normalise s) = Some w"
  using to_string_parse [of s w] parse_to_string [of w] by simp

lemma normalise_idem: "parse_i64 s \<noteq> None \<Longrightarrow> normalise (normalise s) = normalise s"
  by (auto dest!: to_string_parse [symmetric])

lemma same_integer_iff:
  "parse_i64 l = Some x \<Longrightarrow> parse_i64 r = Some y \<Longrightarrow> x = y \<longleftrightarrow> normalise l = normalise r"
  using to_string_parse [of l x] to_string_parse [of r y] to_string_inject [of x y] by simp

lemma canonical_iff_normal:
  "canonical (Number s) \<longleftrightarrow> parse_i64 s \<noteq> None \<and> normalise s = s"
  by (auto simp: to_string_parse split: option.splits)

lemma literal_partial_cmp_Equal_iff:
  "literal_partial_cmp (Number l) (Number r) = Some Equal \<longleftrightarrow>
     parse_i64 l \<noteq> None \<and> parse_i64 r \<noteq> None \<and> normalise l = normalise r"
  by (auto simp: same_integer_iff split: option.splits)


lemma literal_value_normalise:
  "parse_i64 s \<noteq> None \<Longrightarrow> parse_i64 (normalise s) = parse_i64 s"
  by (auto simp: parse_normalise)

section \<open>Properties\<close>

text \<open>
  C13 (round trip and normal form).  Printing a 64-bit signed integer with
  \<^verbatim>\<open>to_string()\<close> and parsing the text with \<^verbatim>\<open>parse::<i64>()\<close> gives the integer back,
  for every value including \<^verbatim>\<open>i64::MIN\<close>, and two different integers never print to
  the same text.  In the other direction, parsing a text and printing the result gives
  the normal form of the text (no plus sign, no leading zeros, no sign on zero), which
  parses to the same integer; so the round trip from text to text is the identity
  exactly on the texts in normal form.
\<close>

theorem parse_print_normal_form:
  "parse_i64 (to_string w) = Some w \<and> (to_string v = to_string w \<longleftrightarrow> v = w) \<and>
   (parse_i64 s = Some w \<longrightarrow>
      to_string w = normalise s \<and> parse_i64 (normalise s) = Some w \<and>
      (to_string w = s \<longleftrightarrow> normalise s = s))"
  by (auto simp: to_string_parse parse_normalise)

theorem parse_print_normal_form_witness:
  "parse_i64 ''-007'' = Some (- 7) \<and> to_string (- 7) = ''-7'' \<and> normalise ''-007'' = ''-7'' \<and>
   parse_i64 ''-7'' = Some (- 7) \<and> normalise ''+0'' = ''0'' \<and> normalise ''-000'' = ''0''"
proof -
  have p: "parse_i64 ''-007'' = Some (- 7)"
    by (simp add: i64_defs)
  have n: "normalise ''-007'' = ''-7''" "normalise ''+0'' = ''0''" "normalise ''-000'' = ''0''"
    by (simp_all add: normalise_def strip_zeros_def)
  from parse_print_normal_form [of "- 7" "- 7" "''-007''"] p n show ?thesis
    by simp
qed

text \<open>
  C34 (the spelling of a number is irrelevant to literal arithmetic and ordering).
  The four literal operations and \<^verbatim>\<open>literal_partial_cmp\<close> give the same outcome on two
  numeric literals that parse as on their normal forms, in either build; and on the
  normal forms \<^verbatim>\<open>==\<close> between borrowed literals holds exactly when \<^verbatim>\<open>partial_cmp\<close>
  orders the literals as equal, so the two disagree only through the spelling.
\<close>

theorem spelling_irrelevant:
  "parse_i64 l \<noteq> None \<Longrightarrow> parse_i64 r \<noteq> None \<Longrightarrow>
   literal_add m (Number l) (Number r) = literal_add m (Number (normalise l)) (Number (normalise r)) \<and>
   literal_subtract m (Number l) (Number r) =
     literal_subtract m (Number (normalise l)) (Number (normalise r)) \<and>
   literal_multiply m (Number l) (Number r) =
     literal_multiply m (Number (normalise l)) (Number (normalise r)) \<and>
   literal_divide (Number l) (Number r) = literal_divide (Number (normalise l)) (Number (normalise r)) \<and>
   literal_partial_cmp (Number l) (Number r) =
     literal_partial_cmp (Number (normalise l)) (Number (normalise r)) \<and>
   (eq ops (LiteralRef (Number (normalise l))) (LiteralRef (Number (normalise r))) = Done True \<longleftrightarrow>
      partial_cmp ops (LiteralRef (Number l)) (LiteralRef (Number r)) = Done (Some Equal))"
  by (auto simp: literal_value_normalise same_integer_iff)

theorem spelling_irrelevant_witness:
  "literal_add Checked (Number ''+007'') (Number ''-0'') =
     (Done (Ok (Number ''7'')) :: (AstValue, unit error) fallible) \<and>
   literal_add Checked (Number ''7'') (Number ''0'') =
     (Done (Ok (Number ''7'')) :: (AstValue, unit error) fallible) \<and>
   partial_cmp sql_ops (LiteralRef (Number ''+007'')) (LiteralRef (Number ''7'')) = Done (Some Equal)"
proof -
  have p: "parse_i64 ''+007'' \<noteq> None" "parse_i64 ''-0'' \<noteq> None" "parse_i64 ''7'' \<noteq> None"
    by (simp_all add: i64_defs)
  have n: "normalise ''+007'' = ''7''" "normalise ''-0'' = ''0''" "normalise ''7'' = ''7''"
    by (simp_all add: normalise_def strip_zeros_def)
  have a: "literal_add Checked (Number ''7'') (Number ''0'') =
      (Done (Ok (Number ''7'')) :: (AstValue, unit error) fallible)"
    by (simp add: i64_defs string_of_nat.simps)
  note s = spelling_irrelevant [OF p(1) p(2), of Checked, unfolded n]
    spelling_irrelevant [OF p(1) p(3), of _ sql_ops, unfolded n]
  have e: "eq sql_ops (LiteralRef (Number ''7'')) (LiteralRef (Number ''7'')) = Done True"
    by simp
  from s(1) have "literal_add Checked (Number ''+007'') (Number ''-0'') =
      (literal_add Checked (Number ''7'') (Number ''0'') :: (AstValue, unit error) fallible)"
    by (rule conjunct1)
  moreover from s(2) e
  have "partial_cmp sql_ops (LiteralRef (Number ''+007'')) (LiteralRef (Number ''7'')) = Done (Some Equal)"
    by blast
  ultimately show ?thesis
    by (simp only: a simp_thms)
qed

end
