(* ===== verification/Spec2Isabelle.thy ===== *)
theory Spec2Isabelle
  imports Conditions Big_Step Shapes Normal_Form
begin

text \<open>
  \<^bold>\<open>A verification library for the evaluated-value algebra of a SQL expression evaluator.\<close>

  \<^bold>\<open>The program.\<close>  \<^verbatim>\<open>src/src/executor/evaluate/evaluated.rs\<close> defines the enum
  \<^verbatim>\<open>Evaluated\<close>: what an expression node evaluates to, in five representations (a
  borrowed or an owned literal node of the parser, a borrowed string, a borrowed or an
  owned typed runtime value).  On it the file defines equality (\<^verbatim>\<open>impl PartialEq\<close>), a
  partial order (\<^verbatim>\<open>impl PartialOrd\<close>, with the helper \<^verbatim>\<open>literal_partial_cmp\<close>), and the
  four arithmetic methods \<^verbatim>\<open>add\<close>, \<^verbatim>\<open>subtract\<close>, \<^verbatim>\<open>multiply\<close>, \<^verbatim>\<open>divide\<close>, which
  dispatch on the representations of both operands to the literal helpers
  \<^verbatim>\<open>literal_add\<close>, \<^verbatim>\<open>literal_subtract\<close>, \<^verbatim>\<open>literal_multiply\<close>, \<^verbatim>\<open>literal_divide\<close> or to
  the typed value domain.  The code is pure: no state, no loop, no I/O.  What makes it
  delicate is the 5 x 5 case matrix, the arms that are \<^verbatim>\<open>panic!()\<close>, the coercion of a
  literal into the type of its typed peer, and 64-bit integer arithmetic on parsed text.

  \<^bold>\<open>Theories and the code they model.\<close>
  \<^item> \<open>Prelude\<close>: the outcomes of a call (\<open>exec\<close>: \<open>Done\<close> or \<open>Panic\<close>; \<open>result\<close>:
    \<open>Ok\<close> or \<open>Err\<close>; \<open>fallible\<close> is a \<open>result\<close> inside \<open>exec\<close>), the errors the
    file raises (\<open>evaluate_error\<close>, wrapped by \<open>Evaluate\<close> as \<^verbatim>\<open>.into()\<close> does, with
    \<open>Other\<close> for every other error of the crate), \<open>map_ok\<close> for \<^verbatim>\<open>Result::map\<close>,
    \<open>and_then\<close> for the \<^verbatim>\<open>?\<close> operator, \<open>ordering\<close>, \<open>reverse\<close> and \<open>cmp\<close> for
    \<^verbatim>\<open>std::cmp::Ordering\<close>.  Strings are byte lists with the bytewise lexicographic
    order of \<open>HOL-Library.List_Lexorder\<close> over \<open>HOL-Library.Char_ord\<close>, the order of
    Rust's \<^verbatim>\<open>str\<close>.
  \<^item> \<open>I64\<close>: Rust's \<^verbatim>\<open>i64\<close> as \<open>64 word\<close> read through \<open>sint\<close>: \<open>parse_i64\<close>
    (\<^verbatim>\<open>str::parse::<i64>\<close>: optional sign, at least one ASCII digit, range checked at
    every digit), \<open>to_string\<close>, \<open>i64_add\<close>, \<open>i64_sub\<close>, \<open>i64_mul\<close> (panic on
    overflow in mode \<open>Checked\<close>, wrap in mode \<open>Wrapping\<close>: the source does not fix
    the build profile, so the mode is a parameter of every operation that reaches
    them), \<open>i64_div\<close> (truncating; panics on a zero divisor and on \<^verbatim>\<open>MIN / -1\<close>) and
    \<open>i64_cmp\<close>; \<open>parse_ref\<close> is the reference parser (all digits read as an
    unbounded integer, one range check).
  \<^item> \<open>Literal\<close>: the parser's literal \<open>AstValue\<close>, \<open>literal_partial_cmp\<close> and the
    four literal operations, one \<open>fun\<close> each; \<open>literal_arith\<close> is their common
    scheme and \<open>literal_value\<close> the integer a literal denotes.
  \<^item> \<open>Value_Domain\<close>: the typed value domain is defined outside the file, so it is an
    interface: the record \<open>value_ops\<close> of the ten operations the file calls, over a
    type variable, passed to every operation of \<open>Evaluated\<close> and \<open>Arithmetic\<close>.  The
    laws \<open>eq_symmetric\<close>, \<open>cmp_antisymmetric\<close>, \<open>add_commutative\<close> and
    \<open>mul_commutative\<close> are hypotheses of the client theorems that need them.
  \<^item> \<open>Sql_Value\<close>: a reference implementation \<open>sql_ops\<close> of the interface (integers,
    text, booleans, an empty value), written from the specification; it discharges the
    laws and is the domain of every witness.
  \<^item> \<open>Evaluated\<close>: the datatype \<open>evaluated\<close> with the source's five constructors,
    \<open>eq\<close> and \<open>partial_cmp\<close> with one equation per \<^verbatim>\<open>match\<close> arm in source order;
    \<open>classify\<close> forgets ownership (the payload is an un-typed literal, a typed value
    or a text), and \<open>eq_spec\<close> and \<open>cmp_spec\<close> are the specification's equality and
    ordering of payloads.
  \<^item> \<open>Arithmetic\<close>: \<open>add\<close>, \<open>subtract\<close>, \<open>multiply\<close>, \<open>divide_evaluated\<close>, each
    with its two closures as in the source, and the specification's coercion scheme
    \<open>arith_spec\<close> over the payloads of \<open>classify\<close>.
  \<^item> \<open>Contract\<close>: the laws Rust asks of \<^verbatim>\<open>PartialEq\<close> and \<^verbatim>\<open>PartialOrd\<close>, as
    theorems over \<open>eq\<close> and \<open>partial_cmp\<close>; \<open>canonical\<close> (a literal in the form
    literal arithmetic prints), \<open>untyped\<close> (a borrowed literal or string) and
    \<open>panic_free\<close> (a typed domain whose operations return) delimit where they hold.
  \<^item> \<open>Expression\<close>: the caller, written from the specification since it is outside
    the file: \<open>evaluate\<close> reduces an expression tree (\<open>expr\<close>) left to right with
    the four operations; \<open>ieval\<close> over \<open>iexpr\<close> is the reference semantics on
    \<^verbatim>\<open>i64\<close>, and \<open>abs_expr\<close> reads a literal expression as an integer expression.
  \<^item> \<open>Big_Step\<close>: the same reduction as an inductive relation \<open>evaluates\<close>, one
    rule per leaf, one for a node whose operands yield values, one for a failing left
    operand and one for a failing right operand (\<open>failed\<close>: an error value or a
    panic).
  \<^item> \<open>Exactness\<close>: literal arithmetic measured against the integers: \<open>zval\<close> is
    the value of an integer expression in \<open>\<int>\<close> (\<open>int_op\<close> one operator, division
    truncating and undefined for a zero divisor), \<open>bounded\<close> says that the value of
    every operator is defined and in the range of \<^verbatim>\<open>i64\<close>.
  \<^item> \<open>Uniform\<close>: the coercion of the mixed arms followed through an expression,
    for any typed domain: \<open>coerces ops D c\<close> is the law that on the values \<open>D\<close> of
    one type \<^verbatim>\<open>clone_by\<close> reads a literal as \<open>c\<close> does, whatever the peer, and that
    the operations stay in \<open>D\<close>; \<open>materialise_by\<close> replaces each readable literal
    leaf by its value, \<open>coercible_in\<close> describes the expressions with a typed leaf
    below every operator.  The reference domain discharges the law for its integers
    and for its texts.
  \<^item> \<open>Coercion\<close>: the instance at the integers of the reference domain
    (\<open>coercible\<close>, \<open>materialise\<close>), measured against the integers:
    \<open>typed_results\<close> are the evaluations that return typed integers, \<open>to_iexpr\<close>
    reads an expression as an integer expression and \<open>ival\<close> is its integer value
    when every operator stays in range.
  \<^item> \<open>Operators\<close>: the six comparison operators a comparison node applies:
    \<open>compare\<close> is \<^verbatim>\<open>=\<close> and \<^verbatim>\<open><>\<close> through \<open>eq\<close> and \<^verbatim>\<open>< <= > >=\<close> through
    \<open>partial_cmp\<close>, false on an absent ordering as the specification has it;
    \<open>check\<close> is the comparison node, left operand first.
  \<^item> \<open>Conditions\<close>: comparison nodes over typed integer expressions in the
    reference domain; \<open>int_holds\<close> is a comparison operator on the integers.
  \<^item> \<open>Shapes\<close>: the representation of a result read off the expression:
    \<open>repr\<close> names the five representations as the specification does, \<open>repr_of\<close>
    is the representation of a value, \<open>static_repr\<close> the one assigned to an
    expression, \<open>comparable\<close> the pairs outside the panicking arms of a comparison,
    \<open>payload\<close> the reduction of an expression on payloads by the coercion scheme.
  \<^item> \<open>Normal_Form\<close>: what parsing and printing do to the text of a numeric
    literal: \<open>normalise\<close> drops a plus sign, the leading zeros and the sign of
    zero (\<open>strip_zeros\<close> keeps one digit of a text of zeros); it is the reference
    for \<^verbatim>\<open>parse::<i64>()\<close> followed by \<^verbatim>\<open>to_string()\<close>.
  \<^item> this theory: the properties that need several components at once.

  \<^bold>\<open>What the lemmas show.\<close>  Equality and ordering are symmetric over the whole variant
  matrix, panics included, given the corresponding law of the typed domain; the pairs on
  which they panic are characterised exactly, and on every other pair but an owned
  literal against a borrowed string they are the specification's comparison of the
  payloads.  Subtraction, multiplication and division are functional refinements of the
  coercion scheme; addition is one when the typed addition commutes, because the code
  swaps the operands of a coerced addition.  Results
  of arithmetic are always owned and in the narrowest representation (an owned literal
  exactly when both operands are literals), a string operand is always the invariant fault, a
  failed coercion is returned unchanged, ownership of the operands is irrelevant to
  arithmetic (but not to equality).  The literal operations are characterised on every
  branch (value, error, explicit panic, overflow, division by zero); the parser agrees
  with its reference; the two overflow modes differ exactly on literal operands whose
  integer result overflows; addition and multiplication commute when the typed
  operations do; printing and parsing of \<^verbatim>\<open>i64\<close> round-trip, so literal results can
  be operands again, and parsing and printing give the normal form of a text, so two
  texts denote the same integer exactly when their normal forms are equal, and literal
  arithmetic and ordering see only the normal form of an operand.  By
  induction on the expression, a tree of operators over numeric literals evaluates to
  the owned literal printing the value of the integer expression it denotes, and panics
  exactly where the integer arithmetic does.  The reduction relation is deterministic
  and total and \<open>evaluate\<close> computes it; a failing left operand hides what the right
  operand would do, so the order of the operands is observable.  Among borrowed
  literals and strings the comparisons are transitive, and on canonical literals \<^verbatim>\<open>==\<close> agrees with
  \<^verbatim>\<open>Some(Equal)\<close>; an operation with a typed operand panics only if the typed domain
  does.  Against the integers, the checked build returns on a literal expression exactly
  when every operator in it has its value in range, and then returns that value; the
  unchecked build returns on every expression without division, with the value reduced
  modulo \<open>2\<^sup>6\<^sup>4\<close>, so it keeps the ring laws that the checked build loses to
  panics.  In every typed domain that reads literals uniformly and whose addition
  commutes, coercing literals operator by operator is the same as replacing them by
  typed values up front as long as every operator has a typed leaf below it; in the
  reference domain such an expression over integers evaluates to its integer value, or to an error value
  when an operator leaves the range or divides by zero, whatever the build; and a
  comparison node over such expressions never panics and returns the comparison of the
  two integer values.  For every typed domain, the representation of the value of an expression is the one its shape gives
  (borrowed at a leaf, an owned literal over literals only, an owned typed value
  otherwise), and a comparison node whose operands yield values returns exactly when the
  two shapes are comparable; when the typed addition commutes, the payload of the result
  is the one the coercion scheme computes on payloads.  Swapping the operands of a comparison swaps the operator; the order operators exclude each
  other, and \<^verbatim>\<open><=\<close> is \<^verbatim>\<open><\<close> or \<^verbatim>\<open>=\<close> on canonical literals only.

  \<^bold>\<open>Where the code and its specification part.\<close>  A zero literal divisor panics (the
  specification asks for an error value); a numeric literal that is not an \<^verbatim>\<open>i64\<close>
  panics in arithmetic; an owned literal compared with a borrowed string is unequal
  (the specification calls it an invariant violation) while the borrowed literal with
  the same text is equal; ordering a typed value against an owned literal panics;
  numeric literals that differ in spelling are unequal but ordered as equal (equality
  compares the texts, ordering their normal forms, and these are all the pairs of
  parsable numeric literals on which the two disagree).  Equality
  is not transitive through a typed number, ordering is not transitive through a typed
  text, and a result of literal arithmetic, being an owned literal, cannot be compared
  with a literal or ordered against anything: a comparison node with an operator on
  literals on one side and a literal expression on the other panics.  An operator on
  two literals inside a typed expression is computed on \<^verbatim>\<open>i64\<close> (it wraps or panics on
  overflow) where the typed domain would report an overflow error.

  \<^bold>\<open>Bounds.\<close>  There is no loop in the program and no fuel in the model.  The only
  recursions are the digit loops of parsing and printing, structural on the text and
  well-founded on the number, and the structural recursions of \<open>evaluate\<close>,
  \<open>ieval\<close>, \<open>zval\<close> and \<open>materialise\<close> on the expression.  Integers are kept at
  64 bits throughout; \<open>zval\<close> alone computes in the unbounded integers, as the
  measure the 64-bit results are compared with.

  \<^bold>\<open>Not modelled.\<close>  Borrow lifetimes (a compile-time property), floating point and the
  date, time and interval literals, the typed domain's real implementation and the
  crate's error type beyond the two variants raised here, and everything above this
  file (planner, executor, storage) except the reduction of arithmetic expressions in
  \<open>Expression\<close> and the comparison nodes of \<open>Operators\<close>: column lookup and its
  errors, the logical connectives over comparisons and SQL's null are left out, because
  the specification says nothing of them.  The whole of the source file is modelled;
  what the map leaves uncovered are its imports, blank lines and closing braces.
\<close>

section \<open>Properties across components\<close>

text \<open>
  C28 (where equality and ordering disagree).  On two borrowed numeric literals whose
  texts parse, \<^verbatim>\<open>==\<close> compares the texts and \<^verbatim>\<open>partial_cmp\<close> compares their normal
  forms: \<^verbatim>\<open>a == b\<close> is true exactly when the texts are the same, and
  \<^verbatim>\<open>a.partial_cmp(b)\<close> is \<^verbatim>\<open>Some(Equal)\<close> exactly when the normal forms are.  So the two
  disagree on exactly the pairs of different spellings of one integer.  A borrowed
  string and the borrowed single-quoted literal with the same text are equal for \<^verbatim>\<open>==\<close>
  and incomparable for \<^verbatim>\<open>partial_cmp\<close>.
\<close>

theorem eq_partial_cmp_disagree:
  "parse_i64 l = Some x \<Longrightarrow> parse_i64 r = Some y \<Longrightarrow>
   eq ops (LiteralRef (Number l)) (LiteralRef (Number r)) = Done (l = r) \<and>
   (partial_cmp ops (LiteralRef (Number l)) (LiteralRef (Number r)) = Done (Some Equal) \<longleftrightarrow>
      normalise l = normalise r) \<and>
   (eq ops (LiteralRef (Number l)) (LiteralRef (Number r)) = Done False \<and>
    partial_cmp ops (LiteralRef (Number l)) (LiteralRef (Number r)) = Done (Some Equal) \<longleftrightarrow>
      l \<noteq> r \<and> normalise l = normalise r) \<and>
   eq ops (StringRef s) (LiteralRef (SingleQuotedString s)) = Done True \<and>
   partial_cmp ops (StringRef s) (LiteralRef (SingleQuotedString s)) = Done None"
  by (simp add: same_integer_iff)

theorem eq_partial_cmp_disagree_witness:
  "partial_cmp sql_ops (LiteralRef (Number ''1'')) (LiteralRef (Number ''01'')) = Done (Some Equal) \<and>
   eq sql_ops (LiteralRef (Number ''1'')) (LiteralRef (Number ''01'')) = Done False \<and>
   partial_cmp sql_ops (LiteralRef (Number ''1'')) (LiteralRef (Number ''10'')) \<noteq> Done (Some Equal)"
proof -
  have p: "parse_i64 ''1'' = Some 1" "parse_i64 ''01'' = Some 1" "parse_i64 ''10'' = Some 10"
    by (simp_all add: i64_defs)
  have n: "normalise ''1'' = ''1''" "normalise ''01'' = ''1''" "normalise ''10'' = ''10''"
    by (simp_all add: normalise_def strip_zeros_def)
  from eq_partial_cmp_disagree [OF p(1) p(2), of sql_ops, unfolded n]
    eq_partial_cmp_disagree [OF p(1) p(3), of sql_ops, unfolded n]
  show ?thesis by simp
qed

text \<open>
  End to end on literals.  Evaluating \<^verbatim>\<open>1 + 2 * 3\<close> from three un-typed numeric
  literals: the product is the owned literal \<^verbatim>\<open>6\<close>, the sum is the owned literal
  \<^verbatim>\<open>7\<close>, in either overflow mode and whatever the typed domain is, which is never
  consulted.
\<close>

theorem end_to_end_literals:
  "multiply ops m (LiteralRef (Number ''2'')) (LiteralRef (Number ''3'')) =
     Done (Ok (Literal (Number ''6''))) \<and>
   and_then (multiply ops m (LiteralRef (Number ''2'')) (LiteralRef (Number ''3'')))
     (add ops m (LiteralRef (Number ''1''))) = Done (Ok (Literal (Number ''7'')))"
  by (cases m) (simp_all add: i64_defs string_of_nat.simps)

text \<open>
  A numeric literal and a text value are incomparable.  In the reference domain,
  the partial order between a numeric literal and a text-typed value is absent, in both
  argument orders and for borrowed and owned values.
\<close>

theorem numeric_literal_vs_text_incomparable:
  "partial_cmp sql_ops (LiteralRef (Number s)) (ValueRef (Str t)) = Done None \<and>
   partial_cmp sql_ops (LiteralRef (Number s)) (Value (Str t)) = Done None \<and>
   partial_cmp sql_ops (ValueRef (Str t)) (LiteralRef (Number s)) = Done None \<and>
   partial_cmp sql_ops (Value (Str t)) (LiteralRef (Number s)) = Done None"
  by simp

text \<open>
  A typed zero divisor is an error value.  In the reference domain, dividing a
  typed integer by a typed zero, or by a literal that is coerced to zero, returns the
  domain's error through \<^verbatim>\<open>divide\<close>; dividing a literal by a typed zero does too.
\<close>

theorem typed_division_by_zero_is_error:
  "parse_i64 z = Some 0 \<Longrightarrow> parse_i64 n = Some x \<Longrightarrow>
   divide_evaluated sql_ops (ValueRef (I64 a)) (Value (I64 0)) = Done (Err (Other DivisorIsZero)) \<and>
   divide_evaluated sql_ops (ValueRef (I64 a)) (LiteralRef (Number z)) =
     Done (Err (Other DivisorIsZero)) \<and>
   divide_evaluated sql_ops (Literal (Number n)) (ValueRef (I64 0)) =
     Done (Err (Other DivisorIsZero))"
  by simp

theorem typed_division_by_zero_is_error_witness:
  "divide_evaluated sql_ops (ValueRef (I64 6)) (LiteralRef (Number ''0'')) =
     Done (Err (Other DivisorIsZero))"
proof -
  have z: "parse_i64 ''0'' = Some 0" and n: "parse_i64 ''6'' = Some 6"
    by (simp_all add: i64_defs)
  from typed_division_by_zero_is_error [OF z n, of 6] show ?thesis by simp
qed

text \<open>
  Coercion agrees with materialising both operands.  In the reference domain, an
  operation on a numeric literal and a typed integer has the same outcome as the
  operation on two typed integers, the literal replaced by the integer it parses to, in
  both argument orders.
\<close>

theorem coercion_matches_materialisation:
  "parse_i64 s = Some x \<Longrightarrow>
   add sql_ops m (LiteralRef (Number s)) (ValueRef (I64 y)) =
     add sql_ops m (ValueRef (I64 x)) (ValueRef (I64 y)) \<and>
   add sql_ops m (ValueRef (I64 y)) (LiteralRef (Number s)) =
     add sql_ops m (ValueRef (I64 y)) (ValueRef (I64 x)) \<and>
   subtract sql_ops m (LiteralRef (Number s)) (ValueRef (I64 y)) =
     subtract sql_ops m (ValueRef (I64 x)) (ValueRef (I64 y)) \<and>
   subtract sql_ops m (ValueRef (I64 y)) (LiteralRef (Number s)) =
     subtract sql_ops m (ValueRef (I64 y)) (ValueRef (I64 x)) \<and>
   multiply sql_ops m (LiteralRef (Number s)) (ValueRef (I64 y)) =
     multiply sql_ops m (ValueRef (I64 x)) (ValueRef (I64 y)) \<and>
   divide_evaluated sql_ops (LiteralRef (Number s)) (ValueRef (I64 y)) =
     divide_evaluated sql_ops (ValueRef (I64 x)) (ValueRef (I64 y)) \<and>
   divide_evaluated sql_ops (ValueRef (I64 y)) (LiteralRef (Number s)) =
     divide_evaluated sql_ops (ValueRef (I64 y)) (ValueRef (I64 x))"
  by (simp add: add.commute)

theorem coercion_matches_materialisation_witness:
  "subtract sql_ops Checked (LiteralRef (Number ''2'')) (ValueRef (I64 3)) =
     Done (Ok (Value (I64 (- 1))))"
proof -
  have s: "parse_i64 ''2'' = Some 2"
    by (simp add: i64_defs)
  from coercion_matches_materialisation [OF s, of Checked 3] show ?thesis
    by (simp add: i64_defs exact_def)
qed

text \<open>
  The commutativity hypothesis of \<^verbatim>\<open>add\<close> is needed.  For a literal left operand
  and a typed right operand, \<^verbatim>\<open>add\<close> departs from the coercion scheme as soon as the
  typed addition gives different outcomes for the two orders of the coerced literal and
  the typed value.
\<close>

theorem add_needs_commutativity:
  "clone_by ops r l = Done (Ok l') \<Longrightarrow> value_add ops r l' \<noteq> value_add ops l' r \<Longrightarrow>
   add ops m (LiteralRef l) (ValueRef r) \<noteq>
     arith_spec ops (literal_add m) (value_add ops) (classify (LiteralRef l)) (classify (ValueRef r))"
  by (simp add: map_ok_inject inj_def)

theorem add_needs_commutativity_witness:
  "add (sql_ops\<lparr>value_add := \<lambda>a b. Done (Ok a)\<rparr>) Checked
       (LiteralRef (Number ''1'')) (ValueRef (I64 2)) = Done (Ok (Value (I64 2))) \<and>
   arith_spec (sql_ops\<lparr>value_add := \<lambda>a b. Done (Ok a)\<rparr>) (literal_add Checked)
       (\<lambda>a b. Done (Ok a)) (Untyped (Number ''1'')) (Typed (I64 2)) = Done (Ok (Value (I64 1)))"
  using add_needs_commutativity [of "sql_ops\<lparr>value_add := \<lambda>a b. Done (Ok a)\<rparr>"
      "I64 2" "Number ''1''" "I64 1" Checked]
  by (simp add: i64_defs)

text \<open>
  C26 (a comparison over typed arithmetic compares the integer values).  In the
  reference domain, take a comparison node whose operands are expressions over integer
  values and parsable numeric literals with a typed leaf below every operator, at least
  one of the two with a typed leaf.  If the value of every operator in both operands is
  defined in the integers and lies in the range of \<^verbatim>\<open>i64\<close>, the node returns the
  comparison of the two integer values, for each of the six operators and in either
  build; otherwise it returns an error value.  It never panics.
\<close>

theorem comparison_node_exact:
  "coercible l \<Longrightarrow> coercible r \<Longrightarrow> has_col l \<or> has_col r \<Longrightarrow>
   (case (ival l, ival r) of
      (Some x, Some y) \<Rightarrow> check sql_ops m cop l r = Done (Ok (int_holds cop x y))
    | _ \<Rightarrow> \<exists>err. check sql_ops m cop l r = Done (Err err))"
proof -
  assume c: "coercible l" "coercible r" and h: "has_col l \<or> has_col r"
  show ?thesis
  proof (cases "ival l")
    case None
    with check_error [OF c, of m cop] show ?thesis by simp
  next
    case l: (Some x)
    show ?thesis
    proof (cases "ival r")
      case None
      with l check_error [OF c, of m cop] show ?thesis by simp
    next
      case (Some y)
      with l check_exact [OF c h, of x y m cop] show ?thesis by simp
    qed
  qed
qed

theorem comparison_node_exact_witness:
  "check sql_ops Checked LtEq
     (BinaryOp (Col (I64 2)) Multiply (Lit (Number ''3''))) (Lit (Number ''6'')) =
     Done (Ok True) \<and>
   check sql_ops Checked Lt
     (BinaryOp (Col (I64 2)) Multiply (Lit (Number ''3''))) (Lit (Number ''6'')) =
     Done (Ok False)"
proof -
  let ?l = "BinaryOp (Col (I64 2)) Multiply (Lit (Number ''3''))"
  have c: "coercible ?l" "coercible (Lit (Number ''6''))" and h: "has_col ?l \<or> has_col (Lit (Number ''6''))"
    by (simp_all add: i64_defs)
  have v: "ival ?l = Some 6" "ival (Lit (Number ''6'') :: sql_value expr) = Some 6"
    by (simp_all add: ival_BinaryOp i64_defs I64_MIN_def I64_MAX_def)
  from comparison_node_exact [OF c h, of Checked LtEq, unfolded v]
    comparison_node_exact [OF c h, of Checked Lt, unfolded v]
  show ?thesis
    by simp
qed

text \<open>
  A comparison over typed arithmetic returns.  In the reference domain, a comparison
  node whose two operands are expressions over integer values and parsable numeric
  literals, with a typed leaf below every operator, never panics, whichever of the six
  operators it applies and in either build; a comparison node with an operator on two
  literals on one side and a literal on the other panics.
\<close>

theorem comparison_node_returns:
  "coercible l \<Longrightarrow> coercible r \<Longrightarrow> \<exists>res. check sql_ops m cop l r = Done res"
proof -
  assume "coercible l" "coercible r"
  from coercible_returns [OF this(1), of m] coercible_returns [OF this(2), of m]
  obtain x y where "evaluate sql_ops m l = Done x" "\<forall>a. x = Ok a \<longrightarrow> \<not> is_Literal a"
    and "evaluate sql_ops m r = Done y" "\<forall>b. y = Ok b \<longrightarrow> \<not> is_Literal b"
    by blast
  with compare_returns [of _ _ sql_ops cop] show ?thesis
    by (cases x; cases y) (auto simp: check_def)
qed

theorem comparison_node_returns_witness:
  "check sql_ops Checked LtEq
     (BinaryOp (Col (I64 2)) Multiply (Lit (Number ''3''))) (Lit (Number ''6'')) =
     Done (Ok True) \<and>
   check sql_ops Checked Lt
     (BinaryOp (Lit (Number ''2'')) Multiply (Lit (Number ''3''))) (Lit (Number ''6'')) =
     Panic ExplicitPanic"
proof -
  let ?l = "BinaryOp (Col (I64 2)) Multiply (Lit (Number ''3''))"
  have c: "coercible ?l" "coercible (Lit (Number ''6''))"
    by (simp_all add: i64_defs)
  from comparison_node_returns [OF c, of Checked LtEq]
  obtain res where "check sql_ops Checked LtEq ?l (Lit (Number ''6'')) = Done res"
    by blast
  moreover have "check sql_ops Checked LtEq ?l (Lit (Number ''6'')) = Done (Ok True)"
    by (simp add: check_def i64_defs exact_def i64_cmp_def)
  moreover have "check sql_ops Checked Lt
      (BinaryOp (Lit (Number ''2'')) Multiply (Lit (Number ''3''))) (Lit (Number ''6'')) =
      Panic ExplicitPanic"
    by (simp add: check_def i64_defs string_of_nat.simps)
  ultimately show ?thesis
    by simp
qed

end
